theory Spec2Isabelle
  imports Main "HOL-Library.Word"
begin

unbundle bit_operations_syntax

section \<open>Data model of the extended ADC driver (stm32h5xx_hal_adc_ex.c)\<close>

type_synonym u32 = "32 word"

datatype HAL_StatusTypeDef = HAL_OK | HAL_ERROR | HAL_BUSY | HAL_TIMEOUT

datatype HAL_LockTypeDef = HAL_UNLOCKED | HAL_LOCKED

text \<open>The two converters of the device; a handle's \<open>Instance\<close> pointer is one of them.\<close>

datatype ADC_Instance = ADC1 | ADC2

subsection \<open>Register access macros\<close>

text \<open>
  Modelled from the spec: the macros SET_BIT, CLEAR_BIT, READ_BIT, MODIFY_REG and
  ADC_STATE_CLR_SET come from headers that are not under src/. The spec treats them as
  read/modify/write primitives on bit fields (section 6); they are the usual ones.
\<close>

definition SET_BIT :: "u32 \<Rightarrow> u32 \<Rightarrow> u32" where
  "SET_BIT reg msk = reg OR msk"

definition CLEAR_BIT :: "u32 \<Rightarrow> u32 \<Rightarrow> u32" where
  "CLEAR_BIT reg msk = reg AND NOT msk"

definition READ_BIT :: "u32 \<Rightarrow> u32 \<Rightarrow> u32" where
  "READ_BIT reg msk = reg AND msk"

definition MODIFY_REG :: "u32 \<Rightarrow> u32 \<Rightarrow> u32 \<Rightarrow> u32" where
  "MODIFY_REG reg clearmask setmask = (reg AND NOT clearmask) OR setmask"

definition ADC_STATE_CLR_SET :: "u32 \<Rightarrow> u32 \<Rightarrow> u32 \<Rightarrow> u32" where
  "ADC_STATE_CLR_SET reg clearmask setmask = MODIFY_REG reg clearmask setmask"

lemmas reg_macros = SET_BIT_def CLEAR_BIT_def READ_BIT_def MODIFY_REG_def ADC_STATE_CLR_SET_def

subsection \<open>Constants of the headers\<close>

text \<open>
  Modelled from the spec: the driver and device headers that define the constants below are
  not under src/. The spec (section 3) describes the status word as a mask of independent
  bits (calibration-busy, regular-busy, injected-busy, regular-end, injected-end,
  multimode-slave, the error bits, the timeout bit, the ready bit) and the error code as a
  mask (internal, overrun, DMA, injected-queue-overflow). Each name stands for its own bit.
\<close>

definition HAL_ADC_STATE_RESET :: u32 where "HAL_ADC_STATE_RESET = 0x0"
definition HAL_ADC_STATE_READY :: u32 where "HAL_ADC_STATE_READY = 0x1"
definition HAL_ADC_STATE_BUSY_INTERNAL :: u32 where "HAL_ADC_STATE_BUSY_INTERNAL = 0x2"
definition HAL_ADC_STATE_TIMEOUT :: u32 where "HAL_ADC_STATE_TIMEOUT = 0x4"
definition HAL_ADC_STATE_ERROR_INTERNAL :: u32 where "HAL_ADC_STATE_ERROR_INTERNAL = 0x10"
definition HAL_ADC_STATE_ERROR_CONFIG :: u32 where "HAL_ADC_STATE_ERROR_CONFIG = 0x20"
definition HAL_ADC_STATE_ERROR_DMA :: u32 where "HAL_ADC_STATE_ERROR_DMA = 0x40"
definition HAL_ADC_STATE_REG_BUSY :: u32 where "HAL_ADC_STATE_REG_BUSY = 0x100"
definition HAL_ADC_STATE_REG_EOC :: u32 where "HAL_ADC_STATE_REG_EOC = 0x200"
definition HAL_ADC_STATE_REG_OVR :: u32 where "HAL_ADC_STATE_REG_OVR = 0x400"
definition HAL_ADC_STATE_REG_EOSMP :: u32 where "HAL_ADC_STATE_REG_EOSMP = 0x800"
definition HAL_ADC_STATE_INJ_BUSY :: u32 where "HAL_ADC_STATE_INJ_BUSY = 0x1000"
definition HAL_ADC_STATE_INJ_EOC :: u32 where "HAL_ADC_STATE_INJ_EOC = 0x2000"
definition HAL_ADC_STATE_INJ_JQOVF :: u32 where "HAL_ADC_STATE_INJ_JQOVF = 0x4000"
definition HAL_ADC_STATE_MULTIMODE_SLAVE :: u32 where "HAL_ADC_STATE_MULTIMODE_SLAVE = 0x100000"

definition HAL_ADC_ERROR_NONE :: u32 where "HAL_ADC_ERROR_NONE = 0x0"
definition HAL_ADC_ERROR_INTERNAL :: u32 where "HAL_ADC_ERROR_INTERNAL = 0x1"
definition HAL_ADC_ERROR_JQOVF :: u32 where "HAL_ADC_ERROR_JQOVF = 0x8"

lemmas state_consts =
  HAL_ADC_STATE_RESET_def HAL_ADC_STATE_READY_def HAL_ADC_STATE_BUSY_INTERNAL_def
  HAL_ADC_STATE_TIMEOUT_def HAL_ADC_STATE_ERROR_INTERNAL_def HAL_ADC_STATE_ERROR_CONFIG_def
  HAL_ADC_STATE_ERROR_DMA_def HAL_ADC_STATE_REG_BUSY_def HAL_ADC_STATE_REG_EOC_def
  HAL_ADC_STATE_REG_OVR_def HAL_ADC_STATE_REG_EOSMP_def HAL_ADC_STATE_INJ_BUSY_def
  HAL_ADC_STATE_INJ_EOC_def HAL_ADC_STATE_INJ_JQOVF_def HAL_ADC_STATE_MULTIMODE_SLAVE_def
  HAL_ADC_ERROR_NONE_def HAL_ADC_ERROR_INTERNAL_def HAL_ADC_ERROR_JQOVF_def

text \<open>
  Modelled from the spec: the register bit names of the device header (not under src/).
  The control register carries the enable bit, the start bits of the two groups and the
  calibration bits; the configuration register carries the injected-queue, auto-injection,
  auto-wait and continuous-mode bits; the context register JSQR carries the sequence
  length, the trigger and four rank fields; the status register carries the completion
  flags, which are cleared by writing them.
\<close>

definition ADC_CR_ADEN :: u32 where "ADC_CR_ADEN = 0x1"
definition ADC_CR_ADSTART :: u32 where "ADC_CR_ADSTART = 0x4"
definition ADC_CR_JADSTART :: u32 where "ADC_CR_JADSTART = 0x8"
definition ADC_CR_ADCALDIF :: u32 where "ADC_CR_ADCALDIF = 0x40000000"
definition ADC_CR_ADCAL :: u32 where "ADC_CR_ADCAL = 0x80000000"

definition ADC_CFGR_DMAEN :: u32 where "ADC_CFGR_DMAEN = 0x1"
definition ADC_CFGR_EXTEN :: u32 where "ADC_CFGR_EXTEN = 0xC00"
definition ADC_CFGR_CONT :: u32 where "ADC_CFGR_CONT = 0x2000"
definition ADC_CFGR_AUTDLY :: u32 where "ADC_CFGR_AUTDLY = 0x4000"
definition ADC_CFGR_JDISCEN :: u32 where "ADC_CFGR_JDISCEN = 0x100000"
definition ADC_CFGR_JQM :: u32 where "ADC_CFGR_JQM = 0x200000"
definition ADC_CFGR_JAUTO :: u32 where "ADC_CFGR_JAUTO = 0x2000000"
definition ADC_CFGR_JQDIS :: u32 where "ADC_CFGR_JQDIS = 0x80000000"

definition ADC_CFGR2_JOVSE :: u32 where "ADC_CFGR2_JOVSE = 0x2"
definition ADC_CFGR2_OVSR :: u32 where "ADC_CFGR2_OVSR = 0x1C"
definition ADC_CFGR2_OVSS :: u32 where "ADC_CFGR2_OVSS = 0x1E0"

definition ADC_JSQR_JL :: u32 where "ADC_JSQR_JL = 0x3"
definition ADC_JSQR_JEXTSEL :: u32 where "ADC_JSQR_JEXTSEL = 0x7C"
definition ADC_JSQR_JEXTEN :: u32 where "ADC_JSQR_JEXTEN = 0x180"
definition ADC_JSQR_JSQ1 :: u32 where "ADC_JSQR_JSQ1 = 0x3E00"
definition ADC_JSQR_JSQ2 :: u32 where "ADC_JSQR_JSQ2 = 0xF8000"
definition ADC_JSQR_JSQ3 :: u32 where "ADC_JSQR_JSQ3 = 0x3E00000"
definition ADC_JSQR_JSQ4 :: u32 where "ADC_JSQR_JSQ4 = 0xF8000000"
definition ADC_SQR3_SQ10 :: u32 where "ADC_SQR3_SQ10 = 0x1F"

definition ADC_FLAG_EOC :: u32 where "ADC_FLAG_EOC = 0x4"
definition ADC_FLAG_EOS :: u32 where "ADC_FLAG_EOS = 0x8"
definition ADC_FLAG_OVR :: u32 where "ADC_FLAG_OVR = 0x10"
definition ADC_FLAG_JEOC :: u32 where "ADC_FLAG_JEOC = 0x20"
definition ADC_FLAG_JEOS :: u32 where "ADC_FLAG_JEOS = 0x40"
definition ADC_FLAG_JQOVF :: u32 where "ADC_FLAG_JQOVF = 0x400"

definition ADC_IT_EOC :: u32 where "ADC_IT_EOC = 0x4"
definition ADC_IT_EOS :: u32 where "ADC_IT_EOS = 0x8"
definition ADC_IT_OVR :: u32 where "ADC_IT_OVR = 0x10"
definition ADC_IT_JEOC :: u32 where "ADC_IT_JEOC = 0x20"
definition ADC_IT_JEOS :: u32 where "ADC_IT_JEOS = 0x40"

definition ADC_CCR_DUAL :: u32 where "ADC_CCR_DUAL = 0x1F"
definition ADC_CCR_DELAY :: u32 where "ADC_CCR_DELAY = 0xF00"
definition ADC_CCR_DMACFG :: u32 where "ADC_CCR_DMACFG = 0x2000"
definition ADC_CCR_MDMA :: u32 where "ADC_CCR_MDMA = 0xC000"

lemmas reg_consts =
  ADC_CR_ADEN_def ADC_CR_ADSTART_def ADC_CR_JADSTART_def ADC_CR_ADCALDIF_def ADC_CR_ADCAL_def
  ADC_CFGR_DMAEN_def ADC_CFGR_EXTEN_def ADC_CFGR_CONT_def ADC_CFGR_AUTDLY_def
  ADC_CFGR_JDISCEN_def ADC_CFGR_JQM_def ADC_CFGR_JAUTO_def ADC_CFGR_JQDIS_def
  ADC_CFGR2_JOVSE_def ADC_CFGR2_OVSR_def ADC_CFGR2_OVSS_def
  ADC_JSQR_JL_def ADC_JSQR_JEXTSEL_def ADC_JSQR_JEXTEN_def ADC_JSQR_JSQ1_def
  ADC_JSQR_JSQ2_def ADC_JSQR_JSQ3_def ADC_JSQR_JSQ4_def ADC_SQR3_SQ10_def
  ADC_FLAG_EOC_def ADC_FLAG_EOS_def ADC_FLAG_OVR_def ADC_FLAG_JEOC_def ADC_FLAG_JEOS_def
  ADC_FLAG_JQOVF_def ADC_IT_EOC_def ADC_IT_EOS_def ADC_IT_OVR_def ADC_IT_JEOC_def
  ADC_IT_JEOS_def ADC_CCR_DUAL_def ADC_CCR_DELAY_def ADC_CCR_DMACFG_def ADC_CCR_MDMA_def

text \<open>
  Modelled from the spec: parameter values of the driver header (not under src/): the
  functional states, the conversion groups, the end-of-conversion selections (the flag that
  is polled), the scan mode, the software trigger, the input modes (each input mode names
  its own 7-bit field of the calibration-factor register), the multimode selections and the
  constants of the transfer engine.
\<close>

definition DISABLE :: u32 where "DISABLE = 0"
definition ENABLE :: u32 where "ENABLE = 1"
definition ADC_REGULAR_GROUP :: u32 where "ADC_REGULAR_GROUP = 1"
definition ADC_INJECTED_GROUP :: u32 where "ADC_INJECTED_GROUP = 2"
definition ADC_REGULAR_INJECTED_GROUP :: u32 where "ADC_REGULAR_INJECTED_GROUP = 3"
definition ADC_EOC_SINGLE_CONV :: u32 where "ADC_EOC_SINGLE_CONV = 0x4"
definition ADC_EOC_SEQ_CONV :: u32 where "ADC_EOC_SEQ_CONV = 0x8"
definition ADC_SCAN_DISABLE :: u32 where "ADC_SCAN_DISABLE = 0"
definition ADC_INJECTED_RANK_1 :: u32 where "ADC_INJECTED_RANK_1 = 0x9"
definition ADC_INJECTED_SOFTWARE_START :: u32 where "ADC_INJECTED_SOFTWARE_START = 0"
definition ADC_EXTERNALTRIGINJECCONV_EDGE_NONE :: u32 where
  "ADC_EXTERNALTRIGINJECCONV_EDGE_NONE = 0"
definition ADC_SINGLE_ENDED :: u32 where "ADC_SINGLE_ENDED = 0x7F"
definition ADC_DIFFERENTIAL_ENDED :: u32 where "ADC_DIFFERENTIAL_ENDED = 0x407F0000"
definition ADC_CHANNEL_0 :: u32 where "ADC_CHANNEL_0 = 0x1"
definition ADC_CHANNEL_1 :: u32 where "ADC_CHANNEL_1 = 0x4300002"
definition ADC_MODE_INDEPENDENT :: u32 where "ADC_MODE_INDEPENDENT = 0"
definition LL_ADC_MULTI_INDEPENDENT :: u32 where "LL_ADC_MULTI_INDEPENDENT = 0"
definition LL_ADC_MULTI_DUAL_REG_SIMULT :: u32 where "LL_ADC_MULTI_DUAL_REG_SIMULT = 0x6"
definition LL_ADC_MULTI_DUAL_REG_INTERL :: u32 where "LL_ADC_MULTI_DUAL_REG_INTERL = 0x7"
definition LL_ADC_INJ_TRIG_INDEPENDENT :: u32 where "LL_ADC_INJ_TRIG_INDEPENDENT = 0"
definition HAL_MAX_DELAY :: u32 where "HAL_MAX_DELAY = 0xFFFFFFFF"
definition ADC_STOP_CONVERSION_TIMEOUT :: u32 where "ADC_STOP_CONVERSION_TIMEOUT = 5"
definition DMA_LINKEDLIST :: u32 where "DMA_LINKEDLIST = 0x80"
definition DMA_SRC_DATAWIDTH_HALFWORD :: u32 where "DMA_SRC_DATAWIDTH_HALFWORD = 0x1"
definition DMA_SRC_DATAWIDTH_WORD :: u32 where "DMA_SRC_DATAWIDTH_WORD = 0x2"
definition NODE_CBR1_DEFAULT_OFFSET :: nat where "NODE_CBR1_DEFAULT_OFFSET = 1"
definition NODE_CSAR_DEFAULT_OFFSET :: nat where "NODE_CSAR_DEFAULT_OFFSET = 2"
definition NODE_CDAR_DEFAULT_OFFSET :: nat where "NODE_CDAR_DEFAULT_OFFSET = 3"

lemmas par_consts =
  DISABLE_def ENABLE_def ADC_REGULAR_GROUP_def ADC_INJECTED_GROUP_def
  ADC_REGULAR_INJECTED_GROUP_def ADC_EOC_SINGLE_CONV_def ADC_EOC_SEQ_CONV_def
  ADC_SCAN_DISABLE_def ADC_INJECTED_RANK_1_def ADC_INJECTED_SOFTWARE_START_def
  ADC_EXTERNALTRIGINJECCONV_EDGE_NONE_def ADC_SINGLE_ENDED_def ADC_DIFFERENTIAL_ENDED_def
  ADC_CHANNEL_0_def ADC_CHANNEL_1_def ADC_MODE_INDEPENDENT_def LL_ADC_MULTI_INDEPENDENT_def
  LL_ADC_MULTI_DUAL_REG_SIMULT_def LL_ADC_MULTI_DUAL_REG_INTERL_def
  LL_ADC_INJ_TRIG_INDEPENDENT_def HAL_MAX_DELAY_def ADC_STOP_CONVERSION_TIMEOUT_def
  DMA_LINKEDLIST_def DMA_SRC_DATAWIDTH_HALFWORD_def DMA_SRC_DATAWIDTH_WORD_def
  NODE_CBR1_DEFAULT_OFFSET_def NODE_CSAR_DEFAULT_OFFSET_def NODE_CDAR_DEFAULT_OFFSET_def

text \<open>Constants the source file defines itself (lines 53-67).\<close>

definition ADC_JSQR_FIELDS :: u32 where
  "ADC_JSQR_FIELDS = (ADC_JSQR_JL OR ADC_JSQR_JEXTSEL OR ADC_JSQR_JEXTEN OR
                      ADC_JSQR_JSQ1 OR ADC_JSQR_JSQ2 OR ADC_JSQR_JSQ3 OR ADC_JSQR_JSQ4)"

definition ADC_CALIBRATION_TIMEOUT :: u32 where
  "ADC_CALIBRATION_TIMEOUT = 633600000"

subsection \<open>Registers, handles and the state of the system\<close>

text \<open>
  The registers of one converter that the functions of the file read or write directly.
  The registers that only accessors of the LL header write (sampling times, offsets,
  single/differential selection, option register, internal measurement paths) are kept
  apart in \<open>aux_regs\<close> of the hardware.
\<close>

record ADC_TypeDef =
  ISR :: u32
  IER :: u32
  CR :: u32
  CFGR :: u32
  CFGR2 :: u32
  JSQR :: u32
  CALFACT :: u32

text \<open>
  The handle: \<open>Init\<close> and \<open>InjectionConfig\<close> are nested structures in C, their fields
  are written here with the structure's name as a prefix.
\<close>

record ADC_HandleTypeDef =
  Instance :: ADC_Instance
  Init_ScanConvMode :: u32
  Init_EOCSelection :: u32
  Init_DMAContinuousRequests :: u32
  Lock :: HAL_LockTypeDef
  State :: u32
  ErrorCode :: u32
  InjectionConfig_ContextQueue :: u32
  InjectionConfig_ChannelCount :: u32

datatype dma_callback = ADC_DMAConvCplt | ADC_DMAHalfConvCplt | ADC_DMAError

record DMA_NodeTypeDef =
  LinkRegisters :: "nat \<Rightarrow> u32"

record DMA_QListTypeDef =
  Head :: "DMA_NodeTypeDef option"

text \<open>The handle of the transfer engine (\<open>hadc->DMA_Handle\<close>); a null pointer is \<open>None\<close>.\<close>

record DMA_HandleTypeDef =
  DMA_Mode :: u32
  DMA_Init_SrcDataWidth :: u32
  LinkedListQueue :: "DMA_QListTypeDef option"
  XferCpltCallback :: "dma_callback option"
  XferHalfCpltCallback :: "dma_callback option"
  XferErrorCallback :: "dma_callback option"
  DMA_State :: nat

text \<open>
  The hardware: the two converters, the common control register (its multimode fields),
  the tick counter read by \<open>HAL_GetTick\<close>, the registers written only through LL
  accessors, and the internal state of the peripheral that no register shows.
\<close>

record hardware =
  ADC :: "ADC_Instance \<Rightarrow> ADC_TypeDef"
  CCR :: u32
  uwTick :: u32
  aux_regs :: nat
  internal :: nat

text \<open>
  A log of what a call did to its collaborators: every call of a helper with the status
  it returned, and every write of the context register JSQR with the value written.
\<close>

datatype event =
    Ev_ADC_Enable ADC_Instance HAL_StatusTypeDef
  | Ev_ADC_Disable ADC_Instance HAL_StatusTypeDef
  | Ev_ADC_ConversionStop ADC_Instance u32 HAL_StatusTypeDef
  | Ev_DMA_Abort HAL_StatusTypeDef
  | Ev_DMA_Start HAL_StatusTypeDef
  | Ev_JSQR_write ADC_Instance u32

record sys =
  hadc :: ADC_HandleTypeDef
  hdma :: DMA_HandleTypeDef
  hw :: hardware
  trace :: "event list"

record ADC_InjectionConfTypeDef =
  InjectedChannel :: u32
  InjectedRank :: u32
  InjectedSamplingTime :: u32
  InjectedSingleDiff :: u32
  InjectedOffsetNumber :: u32
  InjectedOffset :: u32
  InjectedNbrOfConversion :: u32
  InjectedDiscontinuousConvMode :: u32
  AutoInjectedConv :: u32
  QueueInjectedContext :: u32
  ExternalTrigInjecConv :: u32
  ExternalTrigInjecConvEdge :: u32
  InjecOversamplingMode :: u32
  InjecOversampling_Ratio :: u32
  InjecOversampling_RightBitShift :: u32

record ADC_MultiModeTypeDef =
  Mode :: u32
  DMAAccessMode :: u32
  TwoSamplingDelay :: u32

subsection \<open>What the file uses and does not define\<close>

text \<open>
  The helpers \<open>ADC_Enable\<close>, \<open>ADC_Disable\<close> and \<open>ADC_ConversionStop\<close> of the generic
  driver file, the functions of the transfer engine, the macro \<open>ADC_JSQR_RK\<close> and the LL
  accessors of the auxiliary registers are not under src/. They are parameters of the
  model: every function of the file takes a record of them, and the theorems hold for
  every such record unless they say otherwise. \<open>hw_step\<close> is what the hardware does
  between two polls of a busy-wait loop. \<open>stack_garbage\<close> is the content of the
  uninitialised local handle \<open>tmp_hadc_slave\<close>.
\<close>

record extern =
  ADC_Enable :: "ADC_HandleTypeDef \<Rightarrow> hardware \<Rightarrow> HAL_StatusTypeDef \<times> ADC_HandleTypeDef \<times> hardware"
  ADC_Disable :: "ADC_HandleTypeDef \<Rightarrow> hardware \<Rightarrow> HAL_StatusTypeDef \<times> ADC_HandleTypeDef \<times> hardware"
  ADC_ConversionStop ::
    "ADC_HandleTypeDef \<Rightarrow> u32 \<Rightarrow> hardware \<Rightarrow> HAL_StatusTypeDef \<times> ADC_HandleTypeDef \<times> hardware"
  HAL_DMA_Abort :: "DMA_HandleTypeDef \<Rightarrow> hardware \<Rightarrow> HAL_StatusTypeDef \<times> DMA_HandleTypeDef \<times> hardware"
  HAL_DMA_Start_IT ::
    "DMA_HandleTypeDef \<Rightarrow> u32 \<Rightarrow> u32 \<Rightarrow> u32 \<Rightarrow> hardware
       \<Rightarrow> HAL_StatusTypeDef \<times> DMA_HandleTypeDef \<times> hardware"
  HAL_DMAEx_List_Start_IT ::
    "DMA_HandleTypeDef \<Rightarrow> hardware \<Rightarrow> HAL_StatusTypeDef \<times> DMA_HandleTypeDef \<times> hardware"
  HAL_DMAEx_List_GetNodeConfig :: "DMA_NodeTypeDef \<Rightarrow> HAL_StatusTypeDef \<times> u32"
  hw_step :: "hardware \<Rightarrow> hardware"
  ADC_JSQR_RK :: "u32 \<Rightarrow> u32 \<Rightarrow> u32"
  LL_ADC_EnableChannel0_GPIO :: "ADC_Instance \<Rightarrow> hardware \<Rightarrow> nat"
  LL_sampling_time_and_offset ::
    "ADC_Instance \<Rightarrow> ADC_InjectionConfTypeDef \<Rightarrow> hardware \<Rightarrow> nat"
  LL_single_diff :: "ADC_Instance \<Rightarrow> ADC_InjectionConfTypeDef \<Rightarrow> hardware \<Rightarrow> nat"
  LL_internal_channel_path ::
    "ADC_Instance \<Rightarrow> ADC_InjectionConfTypeDef \<Rightarrow> hardware \<Rightarrow> nat"
  stack_garbage :: ADC_HandleTypeDef
  CDR_address :: u32

subsection \<open>State updates\<close>

definition regs :: "sys \<Rightarrow> ADC_TypeDef" where
  "regs s = ADC (hw s) (Instance (hadc s))"

definition upd_reg :: "ADC_Instance \<Rightarrow> (ADC_TypeDef \<Rightarrow> ADC_TypeDef) \<Rightarrow> sys \<Rightarrow> sys" where
  "upd_reg i f s = s\<lparr>hw := (hw s)\<lparr>ADC := (ADC (hw s))(i := f (ADC (hw s) i))\<rparr>\<rparr>"

definition upd_State :: "(u32 \<Rightarrow> u32) \<Rightarrow> sys \<Rightarrow> sys" where
  "upd_State f s = s\<lparr>hadc := (hadc s)\<lparr>State := f (State (hadc s))\<rparr>\<rparr>"

definition upd_ErrorCode :: "(u32 \<Rightarrow> u32) \<Rightarrow> sys \<Rightarrow> sys" where
  "upd_ErrorCode f s = s\<lparr>hadc := (hadc s)\<lparr>ErrorCode := f (ErrorCode (hadc s))\<rparr>\<rparr>"

definition upd_CCR :: "(u32 \<Rightarrow> u32) \<Rightarrow> sys \<Rightarrow> sys" where
  "upd_CCR f s = s\<lparr>hw := (hw s)\<lparr>CCR := f (CCR (hw s))\<rparr>\<rparr>"

definition upd_aux :: "(hardware \<Rightarrow> nat) \<Rightarrow> sys \<Rightarrow> sys" where
  "upd_aux f s = s\<lparr>hw := (hw s)\<lparr>aux_regs := f (hw s)\<rparr>\<rparr>"

definition log_event :: "event \<Rightarrow> sys \<Rightarrow> sys" where
  "log_event e s = s\<lparr>trace := trace s @ [e]\<rparr>"

text \<open>
  Modelled from the spec: the macros \<open>__HAL_LOCK\<close> and \<open>__HAL_UNLOCK\<close> are not under
  src/. The spec (sections 2 and 5) describes a non-reentrant lock per handle: taking a
  lock that is held makes the call return \<open>HAL_BUSY\<close> at once (written out in every
  function below), otherwise the lock is marked held; unlocking marks it free.
\<close>

definition HAL_LOCK :: "sys \<Rightarrow> sys" where
  "HAL_LOCK s = s\<lparr>hadc := (hadc s)\<lparr>Lock := HAL_LOCKED\<rparr>\<rparr>"

definition HAL_UNLOCK :: "sys \<Rightarrow> sys" where
  "HAL_UNLOCK s = s\<lparr>hadc := (hadc s)\<lparr>Lock := HAL_UNLOCKED\<rparr>\<rparr>"

lemmas upd_defs =
  regs_def upd_reg_def upd_State_def upd_ErrorCode_def upd_CCR_def upd_aux_def log_event_def
  HAL_LOCK_def HAL_UNLOCK_def

text \<open>The helper calls, each logged with the status it returned.\<close>

definition call_ADC_Enable :: "extern \<Rightarrow> sys \<Rightarrow> HAL_StatusTypeDef \<times> sys" where
  "call_ADC_Enable P s =
     (case ADC_Enable P (hadc s) (hw s) of
        (st, h, w) \<Rightarrow> (st, s\<lparr>hadc := h, hw := w,
                             trace := trace s @ [Ev_ADC_Enable (Instance (hadc s)) st]\<rparr>))"

definition call_ADC_Disable :: "extern \<Rightarrow> sys \<Rightarrow> HAL_StatusTypeDef \<times> sys" where
  "call_ADC_Disable P s =
     (case ADC_Disable P (hadc s) (hw s) of
        (st, h, w) \<Rightarrow> (st, s\<lparr>hadc := h, hw := w,
                             trace := trace s @ [Ev_ADC_Disable (Instance (hadc s)) st]\<rparr>))"

definition call_ADC_ConversionStop :: "extern \<Rightarrow> u32 \<Rightarrow> sys \<Rightarrow> HAL_StatusTypeDef \<times> sys" where
  "call_ADC_ConversionStop P grp s =
     (case ADC_ConversionStop P (hadc s) grp (hw s) of
        (st, h, w) \<Rightarrow> (st, s\<lparr>hadc := h, hw := w,
                             trace := trace s @ [Ev_ADC_ConversionStop (Instance (hadc s)) grp st]\<rparr>))"

definition call_HAL_DMA_Abort :: "extern \<Rightarrow> sys \<Rightarrow> HAL_StatusTypeDef \<times> sys" where
  "call_HAL_DMA_Abort P s =
     (case HAL_DMA_Abort P (hdma s) (hw s) of
        (st, d, w) \<Rightarrow> (st, s\<lparr>hdma := d, hw := w, trace := trace s @ [Ev_DMA_Abort st]\<rparr>))"

text \<open>
  The temporary handle of the slave: a local variable of which the functions set the state,
  the error code and the instance only (\<open>__HAL_ADC_RESET_HANDLE_STATE\<close>,
  \<open>ADC_CLEAR_ERRORCODE\<close>, \<open>ADC_MULTI_SLAVE\<close>). The helper's changes to it are lost
  when the function returns; its effect on the hardware is kept.
\<close>

definition tmp_hadc_slave :: "extern \<Rightarrow> ADC_Instance \<Rightarrow> ADC_HandleTypeDef" where
  "tmp_hadc_slave P i =
     (stack_garbage P)\<lparr>Instance := i, State := HAL_ADC_STATE_RESET,
                        ErrorCode := HAL_ADC_ERROR_NONE\<rparr>"

definition call_ADC_Enable_slave :: "extern \<Rightarrow> ADC_Instance \<Rightarrow> sys \<Rightarrow> HAL_StatusTypeDef \<times> sys" where
  "call_ADC_Enable_slave P i s =
     (case ADC_Enable P (tmp_hadc_slave P i) (hw s) of
        (st, h, w) \<Rightarrow> (st, s\<lparr>hw := w, trace := trace s @ [Ev_ADC_Enable i st]\<rparr>))"

definition call_ADC_Disable_slave :: "extern \<Rightarrow> ADC_Instance \<Rightarrow> sys \<Rightarrow> HAL_StatusTypeDef \<times> sys" where
  "call_ADC_Disable_slave P i s =
     (case ADC_Disable P (tmp_hadc_slave P i) (hw s) of
        (st, h, w) \<Rightarrow> (st, s\<lparr>hw := w, trace := trace s @ [Ev_ADC_Disable i st]\<rparr>))"

lemmas call_defs =
  call_ADC_Enable_def call_ADC_Disable_def call_ADC_ConversionStop_def call_HAL_DMA_Abort_def
  call_ADC_Enable_slave_def call_ADC_Disable_slave_def

text \<open>
  Modelled from the spec: the macros of the multimode pairing are not under src/. The
  spec (section 3) pairs exactly two instances, the master designated by identity and the
  slave derived from it: the master of ADC2 is ADC1, and only ADC1 has a slave.
\<close>

definition LL_ADC_MULTI_INSTANCE_MASTER :: "ADC_Instance \<Rightarrow> ADC_Instance" where
  "LL_ADC_MULTI_INSTANCE_MASTER i = (if i = ADC2 then ADC1 else i)"

definition ADC_MULTI_SLAVE :: "ADC_HandleTypeDef \<Rightarrow> ADC_Instance option" where
  "ADC_MULTI_SLAVE h = (if Instance h = ADC1 then Some ADC2 else None)"

subsection \<open>Accessors of the LL header\<close>

text \<open>
  Modelled from the spec: the inline accessors of the LL header are not under src/. The
  spec names what each one reads or arms: a group converts while its start bit is set,
  the analog core is enabled while the enable bit is set, calibration runs while the
  calibration bit is set; starting a conversion or a calibration sets the bit and the
  hardware clears it; the completion flags are cleared by writing them.
\<close>

definition LL_ADC_IsEnabled :: "ADC_TypeDef \<Rightarrow> u32" where
  "LL_ADC_IsEnabled r = (if READ_BIT (CR r) ADC_CR_ADEN = ADC_CR_ADEN then 1 else 0)"

definition LL_ADC_REG_IsConversionOngoing :: "ADC_TypeDef \<Rightarrow> u32" where
  "LL_ADC_REG_IsConversionOngoing r =
     (if READ_BIT (CR r) ADC_CR_ADSTART = ADC_CR_ADSTART then 1 else 0)"

definition LL_ADC_INJ_IsConversionOngoing :: "ADC_TypeDef \<Rightarrow> u32" where
  "LL_ADC_INJ_IsConversionOngoing r =
     (if READ_BIT (CR r) ADC_CR_JADSTART = ADC_CR_JADSTART then 1 else 0)"

definition LL_ADC_IsCalibrationOnGoing :: "ADC_TypeDef \<Rightarrow> u32" where
  "LL_ADC_IsCalibrationOnGoing r =
     (if READ_BIT (CR r) ADC_CR_ADCAL = ADC_CR_ADCAL then 1 else 0)"

definition LL_ADC_StartCalibration :: "u32 \<Rightarrow> ADC_TypeDef \<Rightarrow> ADC_TypeDef" where
  "LL_ADC_StartCalibration SingleDiff r =
     r\<lparr>CR := MODIFY_REG (CR r) ADC_CR_ADCALDIF (ADC_CR_ADCAL OR (SingleDiff AND ADC_CR_ADCALDIF))\<rparr>"

definition LL_ADC_INJ_StartConversion :: "ADC_TypeDef \<Rightarrow> ADC_TypeDef" where
  "LL_ADC_INJ_StartConversion r = r\<lparr>CR := SET_BIT (CR r) ADC_CR_JADSTART\<rparr>"

definition LL_ADC_REG_StartConversion :: "ADC_TypeDef \<Rightarrow> ADC_TypeDef" where
  "LL_ADC_REG_StartConversion r = r\<lparr>CR := SET_BIT (CR r) ADC_CR_ADSTART\<rparr>"

definition LL_ADC_GetMultimode :: "hardware \<Rightarrow> u32" where
  "LL_ADC_GetMultimode w = READ_BIT (CCR w) ADC_CCR_DUAL"

definition LL_ADC_INJ_GetTrigAuto :: "ADC_TypeDef \<Rightarrow> u32" where
  "LL_ADC_INJ_GetTrigAuto r = READ_BIT (CFGR r) ADC_CFGR_JAUTO"

definition LL_ADC_INJ_IsTriggerSourceSWStart :: "ADC_TypeDef \<Rightarrow> u32" where
  "LL_ADC_INJ_IsTriggerSourceSWStart r = (if READ_BIT (JSQR r) ADC_JSQR_JEXTEN = 0 then 1 else 0)"

definition LL_ADC_REG_IsTriggerSourceSWStart :: "ADC_TypeDef \<Rightarrow> u32" where
  "LL_ADC_REG_IsTriggerSourceSWStart r = (if READ_BIT (CFGR r) ADC_CFGR_EXTEN = 0 then 1 else 0)"

definition LL_ADC_IS_ENABLED_ALL_COMMON_INSTANCE :: "hardware \<Rightarrow> u32" where
  "LL_ADC_IS_ENABLED_ALL_COMMON_INSTANCE w =
     (LL_ADC_IsEnabled (ADC w ADC1) OR LL_ADC_IsEnabled (ADC w ADC2))"

definition HAL_ADC_CLEAR_FLAG :: "u32 \<Rightarrow> ADC_TypeDef \<Rightarrow> ADC_TypeDef" where
  "HAL_ADC_CLEAR_FLAG flags r = r\<lparr>ISR := ISR r AND NOT flags\<rparr>"

definition HAL_ADC_GET_FLAG :: "ADC_TypeDef \<Rightarrow> u32 \<Rightarrow> bool" where
  "HAL_ADC_GET_FLAG r flag = (ISR r AND flag = flag)"

definition HAL_ADC_ENABLE_IT :: "u32 \<Rightarrow> ADC_TypeDef \<Rightarrow> ADC_TypeDef" where
  "HAL_ADC_ENABLE_IT it r = r\<lparr>IER := IER r OR it\<rparr>"

definition HAL_ADC_DISABLE_IT :: "u32 \<Rightarrow> ADC_TypeDef \<Rightarrow> ADC_TypeDef" where
  "HAL_ADC_DISABLE_IT it r = r\<lparr>IER := IER r AND NOT it\<rparr>"

text \<open>
  Modelled from the spec: the accessors of the calibration factor are not under src/. The
  spec keeps one calibration factor per input mode, each in the 7-bit range. The register
  CALFACT holds the single-ended factor in bits 0 to 6 and the differential factor in
  bits 16 to 22; the input mode constant carries the mask of its own field.
\<close>

definition ADC_SINGLEDIFF_CALIB_FACTOR_MASK :: u32 where
  "ADC_SINGLEDIFF_CALIB_FACTOR_MASK = 0x7F007F"

definition calfact_shift :: "u32 \<Rightarrow> nat" where
  "calfact_shift SingleDiff =
     unat (drop_bit 12 (SingleDiff AND 0x10000) AND NOT (SingleDiff AND 0x7F))"

definition LL_ADC_SetCalibrationFactor :: "u32 \<Rightarrow> u32 \<Rightarrow> ADC_TypeDef \<Rightarrow> ADC_TypeDef" where
  "LL_ADC_SetCalibrationFactor SingleDiff CalibrationFactor r =
     r\<lparr>CALFACT := MODIFY_REG (CALFACT r) (SingleDiff AND ADC_SINGLEDIFF_CALIB_FACTOR_MASK)
                    (push_bit (calfact_shift SingleDiff) CalibrationFactor)\<rparr>"

definition LL_ADC_GetCalibrationFactor :: "ADC_TypeDef \<Rightarrow> u32 \<Rightarrow> u32" where
  "LL_ADC_GetCalibrationFactor r SingleDiff =
     drop_bit (unat (drop_bit 12 (SingleDiff AND 0x10000)))
       (READ_BIT (CALFACT r) (SingleDiff AND ADC_SINGLEDIFF_CALIB_FACTOR_MASK))"

lemmas ll_defs =
  LL_ADC_IsEnabled_def LL_ADC_REG_IsConversionOngoing_def LL_ADC_INJ_IsConversionOngoing_def
  LL_ADC_IsCalibrationOnGoing_def LL_ADC_StartCalibration_def LL_ADC_INJ_StartConversion_def
  LL_ADC_REG_StartConversion_def LL_ADC_GetMultimode_def LL_ADC_INJ_GetTrigAuto_def
  LL_ADC_INJ_IsTriggerSourceSWStart_def LL_ADC_REG_IsTriggerSourceSWStart_def
  LL_ADC_IS_ENABLED_ALL_COMMON_INSTANCE_def HAL_ADC_CLEAR_FLAG_def HAL_ADC_GET_FLAG_def
  HAL_ADC_ENABLE_IT_def HAL_ADC_DISABLE_IT_def LL_ADC_MULTI_INSTANCE_MASTER_def
  ADC_MULTI_SLAVE_def

section \<open>The functions of the file\<close>

subsection \<open>Calibration (source lines 121-259)\<close>

text \<open>
  The busy-wait loop of \<open>HAL_ADCEx_Calibration_Start\<close> (lines 150-165): while the
  calibration bit reads set, the counter is incremented and compared with the bound. The
  result is \<open>False\<close> when the loop returned on the bound and \<open>True\<close> when it was left
  because the bit read clear. The counter is the 32-bit \<open>wait_loop_index\<close>.
\<close>

function calibration_wait :: "extern \<Rightarrow> ADC_Instance \<Rightarrow> u32 \<Rightarrow> hardware \<Rightarrow> bool \<times> hardware" where
  "calibration_wait P i wait_loop_index w =
     (if LL_ADC_IsCalibrationOnGoing (ADC w i) \<noteq> 0 then
        (if wait_loop_index + 1 \<ge> ADC_CALIBRATION_TIMEOUT then (False, w)
         else calibration_wait P i (wait_loop_index + 1) (hw_step P w))
      else (True, w))"
  by pat_completeness auto
termination
proof (relation "measure (\<lambda>(P, i, idx, w).
          if unat idx < 633600000 then 633600000 - unat idx else 633600001)")
  show "wf (measure (\<lambda>(P, i, idx, w).
          if unat (idx :: u32) < 633600000 then 633600000 - unat idx else 633600001))"
    by simp
next
  fix P :: extern and i :: ADC_Instance and wait_loop_index :: u32 and w :: hardware
  assume "\<not> ADC_CALIBRATION_TIMEOUT \<le> wait_loop_index + 1"
  then have lt: "unat (wait_loop_index + 1) < 633600000"
    by (simp add: ADC_CALIBRATION_TIMEOUT_def word_le_nat_alt)
  show "((P, i, wait_loop_index + 1, hw_step P w), (P, i, wait_loop_index, w))
        \<in> measure (\<lambda>(P, i, idx, w).
            if unat idx < 633600000 then 633600000 - unat idx else 633600001)"
  proof (cases "wait_loop_index = - 1")
    case True
    then show ?thesis
      by (simp add: unsigned_minus_1_eq_mask mask_eq_exp_minus_1)
  next
    case False
    then have "unat wait_loop_index \<noteq> unat (- 1 :: u32)"
      by (simp only: word_unat_eq_iff not_False_eq_True)
    moreover have "unat wait_loop_index < 2 ^ 32"
      using unsigned_less [of wait_loop_index, where ?'a = nat] by simp
    ultimately have "unat wait_loop_index + unat (1 :: u32) < 2 ^ LENGTH(32)"
      by (simp add: unsigned_minus_1_eq_mask mask_eq_exp_minus_1)
    then have "unat (wait_loop_index + 1) = unat wait_loop_index + unat (1 :: u32)"
      by (simp only: unat_add_lem)
    with lt show ?thesis by simp
  qed
qed

declare calibration_wait.simps [simp del]

text \<open>The state in which the loop is entered (lines 142-147): calibration armed.\<close>

definition calibration_armed :: "u32 \<Rightarrow> sys \<Rightarrow> sys" where
  "calibration_armed SingleDiff s1 =
     (let s2 = upd_State (\<lambda>x. ADC_STATE_CLR_SET x
                  (HAL_ADC_STATE_REG_BUSY OR HAL_ADC_STATE_INJ_BUSY)
                  HAL_ADC_STATE_BUSY_INTERNAL) s1
      in upd_reg (Instance (hadc s2)) (LL_ADC_StartCalibration SingleDiff) s2)"

definition HAL_ADCEx_Calibration_Start :: "extern \<Rightarrow> u32 \<Rightarrow> sys \<Rightarrow> HAL_StatusTypeDef \<times> sys" where
  "HAL_ADCEx_Calibration_Start P SingleDiff s =
     (if Lock (hadc s) = HAL_LOCKED then (HAL_BUSY, s)
      else
        (case call_ADC_Disable P (HAL_LOCK s) of (tmp_hal_status, s1) \<Rightarrow>
           if tmp_hal_status = HAL_OK then
             (let s3 = calibration_armed SingleDiff s1
              in case calibration_wait P (Instance (hadc s3)) 0 (hw s3) of
                   (completed, w) \<Rightarrow>
                     if \<not> completed then
                       (HAL_ERROR,
                        HAL_UNLOCK (upd_State (\<lambda>x. ADC_STATE_CLR_SET x
                           HAL_ADC_STATE_BUSY_INTERNAL HAL_ADC_STATE_ERROR_INTERNAL) (s3\<lparr>hw := w\<rparr>)))
                     else
                       (tmp_hal_status,
                        HAL_UNLOCK (upd_State (\<lambda>x. ADC_STATE_CLR_SET x
                           HAL_ADC_STATE_BUSY_INTERNAL HAL_ADC_STATE_READY) (s3\<lparr>hw := w\<rparr>))))
           else
             (tmp_hal_status,
              HAL_UNLOCK (upd_State (\<lambda>x. SET_BIT x HAL_ADC_STATE_ERROR_INTERNAL) s1))))"

definition HAL_ADCEx_Calibration_GetValue :: "sys \<Rightarrow> u32 \<Rightarrow> u32" where
  "HAL_ADCEx_Calibration_GetValue s SingleDiff = LL_ADC_GetCalibrationFactor (regs s) SingleDiff"

definition HAL_ADCEx_Calibration_SetValue :: "u32 \<Rightarrow> u32 \<Rightarrow> sys \<Rightarrow> HAL_StatusTypeDef \<times> sys" where
  "HAL_ADCEx_Calibration_SetValue SingleDiff CalibrationFactor s =
     (if Lock (hadc s) = HAL_LOCKED then (HAL_BUSY, s)
      else
        (let s1 = HAL_LOCK s;
             tmp_adc_is_conversion_on_going_regular = LL_ADC_REG_IsConversionOngoing (regs s1);
             tmp_adc_is_conversion_on_going_injected = LL_ADC_INJ_IsConversionOngoing (regs s1)
         in if LL_ADC_IsEnabled (regs s1) \<noteq> 0
               \<and> tmp_adc_is_conversion_on_going_regular = 0
               \<and> tmp_adc_is_conversion_on_going_injected = 0
            then
              (HAL_OK,
               HAL_UNLOCK (upd_reg (Instance (hadc s1))
                             (LL_ADC_SetCalibrationFactor SingleDiff CalibrationFactor) s1))
            else
              (HAL_ERROR,
               HAL_UNLOCK (upd_ErrorCode (\<lambda>x. SET_BIT x HAL_ADC_ERROR_INTERNAL)
                 (upd_State (\<lambda>x. SET_BIT x HAL_ADC_STATE_ERROR_CONFIG) s1)))))"

subsection \<open>Start, stop and poll of the injected group (source lines 272-839)\<close>

definition HAL_ADCEx_InjectedStart :: "extern \<Rightarrow> sys \<Rightarrow> HAL_StatusTypeDef \<times> sys" where
  "HAL_ADCEx_InjectedStart P s =
     (let tmp_multimode_config = LL_ADC_GetMultimode (hw s) in
      if LL_ADC_INJ_IsConversionOngoing (regs s) \<noteq> 0 then (HAL_BUSY, s)
      else
        (let tmp_config_injected_queue = READ_BIT (CFGR (regs s)) ADC_CFGR_JQDIS in
         if READ_BIT (JSQR (regs s)) ADC_JSQR_JEXTEN = 0 \<and> tmp_config_injected_queue = 0 then
           (HAL_ERROR, upd_State (\<lambda>x. SET_BIT x HAL_ADC_STATE_ERROR_CONFIG) s)
         else if Lock (hadc s) = HAL_LOCKED then (HAL_BUSY, s)
         else
           (case call_ADC_Enable P (HAL_LOCK s) of (tmp_hal_status, s1) \<Rightarrow>
              if tmp_hal_status = HAL_OK then
                (let s2 = (if State (hadc s1) AND HAL_ADC_STATE_REG_BUSY \<noteq> 0
                           then upd_ErrorCode (\<lambda>x. CLEAR_BIT x HAL_ADC_ERROR_JQOVF) s1
                           else upd_ErrorCode (\<lambda>x. HAL_ADC_ERROR_NONE) s1);
                     s3 = upd_State (\<lambda>x. ADC_STATE_CLR_SET x
                            (HAL_ADC_STATE_READY OR HAL_ADC_STATE_INJ_EOC) HAL_ADC_STATE_INJ_BUSY) s2;
                     i = Instance (hadc s3);
                     s4 = (if LL_ADC_MULTI_INSTANCE_MASTER i = i
                              \<or> tmp_multimode_config = LL_ADC_MULTI_INDEPENDENT
                           then upd_State (\<lambda>x. CLEAR_BIT x HAL_ADC_STATE_MULTIMODE_SLAVE) s3
                           else s3);
                     s5 = upd_reg i (HAL_ADC_CLEAR_FLAG (ADC_FLAG_JEOC OR ADC_FLAG_JEOS)) s4;
                     s6 = HAL_UNLOCK s5;
                     s7 = (if LL_ADC_MULTI_INSTANCE_MASTER i = i
                              \<or> tmp_multimode_config = LL_ADC_MULTI_INDEPENDENT
                              \<or> tmp_multimode_config = LL_ADC_MULTI_DUAL_REG_SIMULT
                              \<or> tmp_multimode_config = LL_ADC_MULTI_DUAL_REG_INTERL
                           then
                             (if LL_ADC_INJ_GetTrigAuto (regs s6) = LL_ADC_INJ_TRIG_INDEPENDENT
                              then upd_reg i LL_ADC_INJ_StartConversion s6
                              else s6)
                           else upd_State (\<lambda>x. SET_BIT x HAL_ADC_STATE_MULTIMODE_SLAVE) s6)
                 in (tmp_hal_status, s7))
              else (tmp_hal_status, HAL_UNLOCK s1))))"

definition HAL_ADCEx_InjectedStop :: "extern \<Rightarrow> sys \<Rightarrow> HAL_StatusTypeDef \<times> sys" where
  "HAL_ADCEx_InjectedStop P s =
     (if Lock (hadc s) = HAL_LOCKED then (HAL_BUSY, s)
      else
        (case call_ADC_ConversionStop P ADC_INJECTED_GROUP (HAL_LOCK s) of (tmp_hal_status, s1) \<Rightarrow>
           if tmp_hal_status = HAL_OK then
             (if LL_ADC_REG_IsConversionOngoing (regs s1) = 0 then
                (case call_ADC_Disable P s1 of (tmp_hal_status, s2) \<Rightarrow>
                   if tmp_hal_status = HAL_OK then
                     (tmp_hal_status,
                      HAL_UNLOCK (upd_State (\<lambda>x. ADC_STATE_CLR_SET x
                        (HAL_ADC_STATE_REG_BUSY OR HAL_ADC_STATE_INJ_BUSY) HAL_ADC_STATE_READY) s2))
                   else (tmp_hal_status, HAL_UNLOCK s2))
              else
                (tmp_hal_status,
                 HAL_UNLOCK (upd_State (\<lambda>x. CLEAR_BIT x HAL_ADC_STATE_INJ_BUSY) s1)))
           else (tmp_hal_status, HAL_UNLOCK s1)))"

text \<open>
  The polling loop of \<open>HAL_ADCEx_InjectedPollForConversion\<close> (lines 505-525). It can run
  for ever (infinite timeout and a flag that never rises), so it takes fuel: one unit per
  iteration, \<open>None\<close> when the fuel runs out before the loop is left. The result is
  \<open>True\<close> when the flag was seen and \<open>False\<close> on the timeout return.
\<close>

primrec poll_wait ::
  "extern \<Rightarrow> nat \<Rightarrow> ADC_Instance \<Rightarrow> u32 \<Rightarrow> u32 \<Rightarrow> u32 \<Rightarrow> hardware \<Rightarrow> (bool \<times> hardware) option" where
  "poll_wait P 0 i tmp_flag_end Timeout tickstart w = None"
| "poll_wait P (Suc fuel) i tmp_flag_end Timeout tickstart w =
     (if ISR (ADC w i) AND tmp_flag_end = 0 then
        (if Timeout \<noteq> HAL_MAX_DELAY then
           (if uwTick w - tickstart > Timeout \<or> Timeout = 0 then
              (if ISR (ADC w i) AND tmp_flag_end = 0 then Some (False, w)
               else poll_wait P fuel i tmp_flag_end Timeout tickstart (hw_step P w))
            else poll_wait P fuel i tmp_flag_end Timeout tickstart (hw_step P w))
         else poll_wait P fuel i tmp_flag_end Timeout tickstart (hw_step P w))
      else Some (True, w))"

text \<open>The configuration register that the poll function reads after the loop (lines 533-549).\<close>

definition poll_cfgr :: "u32 \<Rightarrow> sys \<Rightarrow> u32" where
  "poll_cfgr tmp_multimode_config s =
     (let i = Instance (hadc s) in
      if LL_ADC_MULTI_INSTANCE_MASTER i = i
         \<or> tmp_multimode_config = LL_ADC_MULTI_INDEPENDENT
         \<or> tmp_multimode_config = LL_ADC_MULTI_DUAL_REG_SIMULT
         \<or> tmp_multimode_config = LL_ADC_MULTI_DUAL_REG_INTERL
      then CFGR (regs s)
      else CFGR (ADC (hw s) (LL_ADC_MULTI_INSTANCE_MASTER i)))"

text \<open>The update of the state word after the loop (lines 551-582).\<close>

definition poll_state_update :: "u32 \<Rightarrow> sys \<Rightarrow> sys" where
  "poll_state_update tmp_cfgr s1 =
     (let tmp_adc_inj_is_trigger_source_sw_start = LL_ADC_INJ_IsTriggerSourceSWStart (regs s1);
          tmp_adc_reg_is_trigger_source_sw_start = LL_ADC_REG_IsTriggerSourceSWStart (regs s1);
          s2 = upd_State (\<lambda>x. SET_BIT x HAL_ADC_STATE_INJ_EOC) s1
      in if tmp_adc_inj_is_trigger_source_sw_start \<noteq> 0
            \<or> (READ_BIT tmp_cfgr ADC_CFGR_JAUTO = 0
                \<and> (tmp_adc_reg_is_trigger_source_sw_start \<noteq> 0
                     \<and> READ_BIT tmp_cfgr ADC_CFGR_CONT = 0))
         then
           (if HAL_ADC_GET_FLAG (regs s2) ADC_FLAG_JEOS then
              (if READ_BIT tmp_cfgr ADC_CFGR_JQM = 0 then
                 (let s2' = upd_State (\<lambda>x. CLEAR_BIT x HAL_ADC_STATE_INJ_BUSY) s2 in
                  if State (hadc s2') AND HAL_ADC_STATE_REG_BUSY = 0
                  then upd_State (\<lambda>x. SET_BIT x HAL_ADC_STATE_READY) s2'
                  else s2')
               else s2)
            else s2)
         else s2)"

text \<open>The clearing of the polled flag (lines 584-599).\<close>

definition poll_clear_flag :: "u32 \<Rightarrow> u32 \<Rightarrow> sys \<Rightarrow> sys" where
  "poll_clear_flag tmp_flag_end tmp_cfgr s3 =
     (if tmp_flag_end = ADC_FLAG_JEOS then
        (if READ_BIT tmp_cfgr ADC_CFGR_AUTDLY = 0
         then upd_reg (Instance (hadc s3)) (HAL_ADC_CLEAR_FLAG (ADC_FLAG_JEOC OR ADC_FLAG_JEOS)) s3
         else s3)
      else upd_reg (Instance (hadc s3)) (HAL_ADC_CLEAR_FLAG ADC_FLAG_JEOC) s3)"

definition HAL_ADCEx_InjectedPollForConversion ::
  "extern \<Rightarrow> nat \<Rightarrow> u32 \<Rightarrow> sys \<Rightarrow> (HAL_StatusTypeDef \<times> sys) option" where
  "HAL_ADCEx_InjectedPollForConversion P fuel Timeout s =
     (let tmp_multimode_config = LL_ADC_GetMultimode (hw s);
          tmp_flag_end = (if Init_EOCSelection (hadc s) = ADC_EOC_SEQ_CONV
                          then ADC_FLAG_JEOS else ADC_FLAG_JEOC);
          tickstart = uwTick (hw s)
      in case poll_wait P fuel (Instance (hadc s)) tmp_flag_end Timeout tickstart (hw s) of
           None \<Rightarrow> None
         | Some (False, w) \<Rightarrow>
             Some (HAL_TIMEOUT,
                   HAL_UNLOCK (upd_State (\<lambda>x. SET_BIT x HAL_ADC_STATE_TIMEOUT) (s\<lparr>hw := w\<rparr>)))
         | Some (True, w) \<Rightarrow>
             (let s1 = s\<lparr>hw := w\<rparr>;
                  tmp_cfgr = poll_cfgr tmp_multimode_config s1
              in Some (HAL_OK,
                       poll_clear_flag tmp_flag_end tmp_cfgr (poll_state_update tmp_cfgr s1))))"

definition HAL_ADCEx_InjectedStart_IT :: "extern \<Rightarrow> sys \<Rightarrow> HAL_StatusTypeDef \<times> sys" where
  "HAL_ADCEx_InjectedStart_IT P s =
     (let tmp_multimode_config = LL_ADC_GetMultimode (hw s) in
      if LL_ADC_INJ_IsConversionOngoing (regs s) \<noteq> 0 then (HAL_BUSY, s)
      else
        (let tmp_config_injected_queue = READ_BIT (CFGR (regs s)) ADC_CFGR_JQDIS in
         if READ_BIT (JSQR (regs s)) ADC_JSQR_JEXTEN = 0 \<and> tmp_config_injected_queue = 0 then
           (HAL_ERROR, upd_State (\<lambda>x. SET_BIT x HAL_ADC_STATE_ERROR_CONFIG) s)
         else if Lock (hadc s) = HAL_LOCKED then (HAL_BUSY, s)
         else
           (case call_ADC_Enable P (HAL_LOCK s) of (tmp_hal_status, s1) \<Rightarrow>
              if tmp_hal_status = HAL_OK then
                (let s2 = (if State (hadc s1) AND HAL_ADC_STATE_REG_BUSY \<noteq> 0
                           then upd_ErrorCode (\<lambda>x. CLEAR_BIT x HAL_ADC_ERROR_JQOVF) s1
                           else upd_ErrorCode (\<lambda>x. HAL_ADC_ERROR_NONE) s1);
                     s3 = upd_State (\<lambda>x. ADC_STATE_CLR_SET x
                            (HAL_ADC_STATE_READY OR HAL_ADC_STATE_INJ_EOC) HAL_ADC_STATE_INJ_BUSY) s2;
                     i = Instance (hadc s3);
                     s4 = (if LL_ADC_MULTI_INSTANCE_MASTER i = i
                              \<or> tmp_multimode_config = LL_ADC_MULTI_INDEPENDENT
                           then upd_State (\<lambda>x. CLEAR_BIT x HAL_ADC_STATE_MULTIMODE_SLAVE) s3
                           else s3);
                     s5 = upd_reg i (HAL_ADC_CLEAR_FLAG (ADC_FLAG_JEOC OR ADC_FLAG_JEOS)) s4;
                     s6 = HAL_UNLOCK s5;
                     s7 = (if CFGR (regs s6) AND ADC_CFGR_JQM \<noteq> 0
                           then upd_reg i (HAL_ADC_ENABLE_IT ADC_FLAG_JQOVF) s6
                           else s6);
                     s8 = (if Init_EOCSelection (hadc s7) = ADC_EOC_SEQ_CONV
                           then upd_reg i (HAL_ADC_ENABLE_IT ADC_IT_JEOS)
                                  (upd_reg i (HAL_ADC_DISABLE_IT ADC_IT_JEOC) s7)
                           else upd_reg i (HAL_ADC_ENABLE_IT ADC_IT_JEOC)
                                  (upd_reg i (HAL_ADC_DISABLE_IT ADC_IT_JEOS) s7));
                     s9 = (if LL_ADC_MULTI_INSTANCE_MASTER i = i
                              \<or> tmp_multimode_config = LL_ADC_MULTI_INDEPENDENT
                              \<or> tmp_multimode_config = LL_ADC_MULTI_DUAL_REG_SIMULT
                              \<or> tmp_multimode_config = LL_ADC_MULTI_DUAL_REG_INTERL
                           then
                             (if LL_ADC_INJ_GetTrigAuto (regs s8) = LL_ADC_INJ_TRIG_INDEPENDENT
                              then upd_reg i LL_ADC_INJ_StartConversion s8
                              else s8)
                           else upd_State (\<lambda>x. SET_BIT x HAL_ADC_STATE_MULTIMODE_SLAVE) s8)
                 in (tmp_hal_status, s9))
              else (tmp_hal_status, HAL_UNLOCK s1))))"

definition HAL_ADCEx_InjectedStop_IT :: "extern \<Rightarrow> sys \<Rightarrow> HAL_StatusTypeDef \<times> sys" where
  "HAL_ADCEx_InjectedStop_IT P s =
     (if Lock (hadc s) = HAL_LOCKED then (HAL_BUSY, s)
      else
        (case call_ADC_ConversionStop P ADC_INJECTED_GROUP (HAL_LOCK s) of (tmp_hal_status, s1) \<Rightarrow>
           if tmp_hal_status = HAL_OK then
             (let s1' = upd_reg (Instance (hadc s1))
                          (HAL_ADC_DISABLE_IT (ADC_IT_JEOC OR ADC_IT_JEOS OR ADC_FLAG_JQOVF)) s1 in
              if LL_ADC_REG_IsConversionOngoing (regs s1') = 0 then
                (case call_ADC_Disable P s1' of (tmp_hal_status, s2) \<Rightarrow>
                   if tmp_hal_status = HAL_OK then
                     (tmp_hal_status,
                      HAL_UNLOCK (upd_State (\<lambda>x. ADC_STATE_CLR_SET x
                        (HAL_ADC_STATE_REG_BUSY OR HAL_ADC_STATE_INJ_BUSY) HAL_ADC_STATE_READY) s2))
                   else (tmp_hal_status, HAL_UNLOCK s2))
              else
                (tmp_hal_status,
                 HAL_UNLOCK (upd_State (\<lambda>x. CLEAR_BIT x HAL_ADC_STATE_INJ_BUSY) s1')))
           else (tmp_hal_status, HAL_UNLOCK s1)))"

subsection \<open>Multimode transfer start and stop (source lines 857-1154)\<close>

definition call_HAL_DMA_Start_IT ::
  "extern \<Rightarrow> u32 \<Rightarrow> u32 \<Rightarrow> u32 \<Rightarrow> sys \<Rightarrow> HAL_StatusTypeDef \<times> sys" where
  "call_HAL_DMA_Start_IT P src dst len s =
     (case HAL_DMA_Start_IT P (hdma s) src dst len (hw s) of
        (st, d, w) \<Rightarrow> (st, s\<lparr>hdma := d, hw := w, trace := trace s @ [Ev_DMA_Start st]\<rparr>))"

definition call_HAL_DMAEx_List_Start_IT :: "extern \<Rightarrow> sys \<Rightarrow> HAL_StatusTypeDef \<times> sys" where
  "call_HAL_DMAEx_List_Start_IT P s =
     (case HAL_DMAEx_List_Start_IT P (hdma s) (hw s) of
        (st, d, w) \<Rightarrow> (st, s\<lparr>hdma := d, hw := w, trace := trace s @ [Ev_DMA_Start st]\<rparr>))"

text \<open>The length in bytes for a source data width (lines 956-970 and 986-1000).\<close>

definition length_bytes_of :: "u32 \<Rightarrow> u32 \<Rightarrow> u32" where
  "length_bytes_of SrcDataWidth Length =
     (if SrcDataWidth = DMA_SRC_DATAWIDTH_WORD then Length * 4
      else if SrcDataWidth = DMA_SRC_DATAWIDTH_HALFWORD then Length * 2
      else Length)"

definition HAL_ADCEx_MultiModeStart_DMA ::
  "extern \<Rightarrow> u32 \<Rightarrow> u32 \<Rightarrow> sys \<Rightarrow> HAL_StatusTypeDef \<times> sys" where
  "HAL_ADCEx_MultiModeStart_DMA P pData Length s =
     (if LL_ADC_REG_IsConversionOngoing (regs s) \<noteq> 0 then (HAL_BUSY, s)
      else if Lock (hadc s) = HAL_LOCKED then (HAL_BUSY, s)
      else
        (let s0 = HAL_LOCK s in
         case ADC_MULTI_SLAVE (hadc s0) of
           None \<Rightarrow>
             (HAL_ERROR, HAL_UNLOCK (upd_State (\<lambda>x. SET_BIT x HAL_ADC_STATE_ERROR_CONFIG) s0))
         | Some slave \<Rightarrow>
             (case call_ADC_Enable P s0 of (st_master, s1) \<Rightarrow>
              case (if st_master = HAL_OK then call_ADC_Enable_slave P slave s1
                    else (st_master, s1)) of (tmp_hal_status, s2) \<Rightarrow>
                if tmp_hal_status = HAL_OK then
                  (let s3 = upd_State (\<lambda>x. ADC_STATE_CLR_SET x
                              (HAL_ADC_STATE_READY OR HAL_ADC_STATE_REG_EOC OR HAL_ADC_STATE_REG_OVR
                               OR HAL_ADC_STATE_REG_EOSMP) HAL_ADC_STATE_REG_BUSY) s2;
                       s4 = upd_ErrorCode (\<lambda>x. HAL_ADC_ERROR_NONE) s3;
                       s5 = s4\<lparr>hdma := (hdma s4)\<lparr>XferCpltCallback := Some ADC_DMAConvCplt,
                                                   XferHalfCpltCallback := Some ADC_DMAHalfConvCplt,
                                                   XferErrorCallback := Some ADC_DMAError\<rparr>\<rparr>;
                       i = Instance (hadc s5);
                       s6 = upd_reg i (HAL_ADC_CLEAR_FLAG
                              (ADC_FLAG_EOC OR ADC_FLAG_EOS OR ADC_FLAG_OVR)) s5;
                       s7 = HAL_UNLOCK s6;
                       s8 = upd_reg i (HAL_ADC_ENABLE_IT ADC_IT_OVR) s7
                   in
                     if DMA_Mode (hdma s8) AND DMA_LINKEDLIST = DMA_LINKEDLIST then
                       (case LinkedListQueue (hdma s8) of
                          None \<Rightarrow> (HAL_ERROR, s8)
                        | Some q \<Rightarrow>
                            (case Head q of
                               None \<Rightarrow> (HAL_ERROR, s8)
                             | Some node \<Rightarrow>
                                 (case HAL_DMAEx_List_GetNodeConfig P node of
                                    (st_node, node_conf_SrcDataWidth) \<Rightarrow>
                                      if st_node \<noteq> HAL_OK then (HAL_ERROR, s8)
                                      else
                                        (let length_bytes =
                                               length_bytes_of node_conf_SrcDataWidth Length;
                                             node' = node\<lparr>LinkRegisters := (LinkRegisters node)
                                                (NODE_CBR1_DEFAULT_OFFSET := length_bytes,
                                                 NODE_CSAR_DEFAULT_OFFSET := CDR_address P,
                                                 NODE_CDAR_DEFAULT_OFFSET := pData)\<rparr>;
                                             s9 = s8\<lparr>hdma := (hdma s8)\<lparr>LinkedListQueue :=
                                                     Some (q\<lparr>Head := Some node'\<rparr>)\<rparr>\<rparr>
                                         in case call_HAL_DMAEx_List_Start_IT P s9 of
                                              (tmp_hal_status, s10) \<Rightarrow>
                                                (tmp_hal_status,
                                                 upd_reg (Instance (hadc s10))
                                                   LL_ADC_REG_StartConversion s10)))))
                     else
                       (let length_bytes =
                              length_bytes_of (DMA_Init_SrcDataWidth (hdma s8)) Length
                        in case call_HAL_DMA_Start_IT P (CDR_address P) pData length_bytes s8 of
                             (tmp_hal_status, s9) \<Rightarrow>
                               (tmp_hal_status,
                                upd_reg (Instance (hadc s9)) LL_ADC_REG_StartConversion s9)))
                else (tmp_hal_status, HAL_UNLOCK s2))))"

text \<open>
  The wait for both converters idle (lines 1080-1106, and again 1576-1602). The tick
  may not advance and the start bits may come and go, so the loop takes fuel. \<open>True\<close>:
  both were seen idle; \<open>False\<close>: the timeout return.
\<close>

primrec multimode_wait ::
  "extern \<Rightarrow> nat \<Rightarrow> ADC_Instance \<Rightarrow> ADC_Instance \<Rightarrow> u32 \<Rightarrow> u32 \<Rightarrow> hardware
     \<Rightarrow> (bool \<times> hardware) option" where
  "multimode_wait P 0 master slave tickstart tmp_hadc_slave_conversion_on_going w = None"
| "multimode_wait P (Suc fuel) master slave tickstart tmp_hadc_slave_conversion_on_going w =
     (if LL_ADC_REG_IsConversionOngoing (ADC w master) = 1
         \<or> tmp_hadc_slave_conversion_on_going = 1 then
        (if uwTick w - tickstart > ADC_STOP_CONVERSION_TIMEOUT then
           (if LL_ADC_REG_IsConversionOngoing (ADC w master) = 1
               \<or> LL_ADC_REG_IsConversionOngoing (ADC w slave) = 1
            then Some (False, w)
            else multimode_wait P fuel master slave tickstart
                   (LL_ADC_REG_IsConversionOngoing (ADC (hw_step P w) slave)) (hw_step P w))
         else multimode_wait P fuel master slave tickstart
                (LL_ADC_REG_IsConversionOngoing (ADC (hw_step P w) slave)) (hw_step P w))
      else Some (True, w))"

text \<open>
  The cleanup of \<open>HAL_ADCEx_MultiModeStop_DMA\<close> once both converters are idle (lines
  1108-1146): abort of the transfer, then disable of both converters.
\<close>

definition multimode_stop_cleanup :: "extern \<Rightarrow> ADC_Instance \<Rightarrow> sys \<Rightarrow> HAL_StatusTypeDef \<times> sys" where
  "multimode_stop_cleanup P slave s1 =
     (case call_HAL_DMA_Abort P s1 of (tmp_hal_status, s2) \<Rightarrow>
        (let s3 = (if tmp_hal_status = HAL_ERROR
                   then upd_State (\<lambda>x. SET_BIT x HAL_ADC_STATE_ERROR_DMA) s2
                   else s2);
             s4 = upd_reg (Instance (hadc s3)) (HAL_ADC_DISABLE_IT ADC_IT_OVR) s3
         in
           if tmp_hal_status = HAL_OK then
             (case call_ADC_Disable_slave P slave s4 of
                (tmp_hadc_slave_disable_status, s5) \<Rightarrow>
              case call_ADC_Disable P s5 of (st_master, s6) \<Rightarrow>
                ((if st_master = HAL_OK \<and> tmp_hadc_slave_disable_status = HAL_OK
                  then HAL_OK else tmp_hal_status),
                 HAL_UNLOCK (upd_State (\<lambda>x. ADC_STATE_CLR_SET x
                   (HAL_ADC_STATE_REG_BUSY OR HAL_ADC_STATE_INJ_BUSY) HAL_ADC_STATE_READY) s6)))
           else
             (case call_ADC_Disable P s4 of (st_master, s5) \<Rightarrow>
              case call_ADC_Disable_slave P slave s5 of (st_slave, s6) \<Rightarrow>
                (tmp_hal_status,
                 HAL_UNLOCK (upd_State (\<lambda>x. ADC_STATE_CLR_SET x
                   (HAL_ADC_STATE_REG_BUSY OR HAL_ADC_STATE_INJ_BUSY) HAL_ADC_STATE_READY) s6)))))"

definition HAL_ADCEx_MultiModeStop_DMA ::
  "extern \<Rightarrow> nat \<Rightarrow> sys \<Rightarrow> (HAL_StatusTypeDef \<times> sys) option" where
  "HAL_ADCEx_MultiModeStop_DMA P fuel s =
     (if Lock (hadc s) = HAL_LOCKED then Some (HAL_BUSY, s)
      else
        (case call_ADC_ConversionStop P ADC_REGULAR_INJECTED_GROUP (HAL_LOCK s) of
           (tmp_hal_status, s1) \<Rightarrow>
             if tmp_hal_status = HAL_OK then
               (case ADC_MULTI_SLAVE (hadc s1) of
                  None \<Rightarrow>
                    Some (HAL_ERROR,
                          HAL_UNLOCK (upd_State (\<lambda>x. SET_BIT x HAL_ADC_STATE_ERROR_CONFIG) s1))
                | Some slave \<Rightarrow>
                    (case multimode_wait P fuel (Instance (hadc s1)) slave (uwTick (hw s1))
                            (LL_ADC_REG_IsConversionOngoing (ADC (hw s1) slave)) (hw s1) of
                       None \<Rightarrow> None
                     | Some (False, w) \<Rightarrow>
                         Some (HAL_ERROR,
                               HAL_UNLOCK (upd_State (\<lambda>x. SET_BIT x HAL_ADC_STATE_ERROR_INTERNAL)
                                             (s1\<lparr>hw := w\<rparr>)))
                     | Some (True, w) \<Rightarrow> Some (multimode_stop_cleanup P slave (s1\<lparr>hw := w\<rparr>))))
             else Some (tmp_hal_status, HAL_UNLOCK s1)))"

subsection \<open>Stop of the regular group (source lines 1325-1657)\<close>

definition HAL_ADCEx_RegularStop :: "extern \<Rightarrow> sys \<Rightarrow> HAL_StatusTypeDef \<times> sys" where
  "HAL_ADCEx_RegularStop P s =
     (if Lock (hadc s) = HAL_LOCKED then (HAL_BUSY, s)
      else
        (case call_ADC_ConversionStop P ADC_REGULAR_GROUP (HAL_LOCK s) of (tmp_hal_status, s1) \<Rightarrow>
           if tmp_hal_status = HAL_OK then
             (let s2 = upd_State (\<lambda>x. CLEAR_BIT x HAL_ADC_STATE_REG_BUSY) s1 in
              if LL_ADC_INJ_IsConversionOngoing (regs s2) = 0 then
                (case call_ADC_Disable P s2 of (tmp_hal_status, s3) \<Rightarrow>
                   if tmp_hal_status = HAL_OK then
                     (tmp_hal_status,
                      HAL_UNLOCK (upd_State (\<lambda>x. ADC_STATE_CLR_SET x
                        HAL_ADC_STATE_INJ_BUSY HAL_ADC_STATE_READY) s3))
                   else (tmp_hal_status, HAL_UNLOCK s3))
              else
                (tmp_hal_status,
                 HAL_UNLOCK (upd_State (\<lambda>x. SET_BIT x HAL_ADC_STATE_INJ_BUSY) s2)))
           else (tmp_hal_status, HAL_UNLOCK s1)))"

definition HAL_ADCEx_RegularStop_IT :: "extern \<Rightarrow> sys \<Rightarrow> HAL_StatusTypeDef \<times> sys" where
  "HAL_ADCEx_RegularStop_IT P s =
     (if Lock (hadc s) = HAL_LOCKED then (HAL_BUSY, s)
      else
        (case call_ADC_ConversionStop P ADC_REGULAR_GROUP (HAL_LOCK s) of (tmp_hal_status, s1) \<Rightarrow>
           if tmp_hal_status = HAL_OK then
             (let s2 = upd_State (\<lambda>x. CLEAR_BIT x HAL_ADC_STATE_REG_BUSY) s1;
                  s2' = upd_reg (Instance (hadc s2))
                          (HAL_ADC_DISABLE_IT (ADC_IT_EOC OR ADC_IT_EOS OR ADC_IT_OVR)) s2 in
              if LL_ADC_INJ_IsConversionOngoing (regs s2') = 0 then
                (case call_ADC_Disable P s2' of (tmp_hal_status, s3) \<Rightarrow>
                   if tmp_hal_status = HAL_OK then
                     (tmp_hal_status,
                      HAL_UNLOCK (upd_State (\<lambda>x. ADC_STATE_CLR_SET x
                        HAL_ADC_STATE_INJ_BUSY HAL_ADC_STATE_READY) s3))
                   else (tmp_hal_status, HAL_UNLOCK s3))
              else
                (tmp_hal_status,
                 HAL_UNLOCK (upd_State (\<lambda>x. SET_BIT x HAL_ADC_STATE_INJ_BUSY) s2')))
           else (tmp_hal_status, HAL_UNLOCK s1)))"

definition HAL_ADCEx_RegularStop_DMA :: "extern \<Rightarrow> sys \<Rightarrow> HAL_StatusTypeDef \<times> sys" where
  "HAL_ADCEx_RegularStop_DMA P s =
     (if Lock (hadc s) = HAL_LOCKED then (HAL_BUSY, s)
      else
        (case call_ADC_ConversionStop P ADC_REGULAR_GROUP (HAL_LOCK s) of (tmp_hal_status, s1) \<Rightarrow>
           if tmp_hal_status = HAL_OK then
             (let s2 = upd_State (\<lambda>x. CLEAR_BIT x HAL_ADC_STATE_REG_BUSY) s1;
                  s3 = upd_reg (Instance (hadc s2))
                         (\<lambda>r. r\<lparr>CFGR := CLEAR_BIT (CFGR r) ADC_CFGR_DMAEN\<rparr>) s2
              in case call_HAL_DMA_Abort P s3 of (tmp_hal_status, s4) \<Rightarrow>
                (let s5 = (if tmp_hal_status \<noteq> HAL_OK
                           then upd_State (\<lambda>x. SET_BIT x HAL_ADC_STATE_ERROR_DMA) s4
                           else s4);
                     s6 = upd_reg (Instance (hadc s5)) (HAL_ADC_DISABLE_IT ADC_IT_OVR) s5
                 in
                   if LL_ADC_INJ_IsConversionOngoing (regs s6) = 0 then
                     (case call_ADC_Disable P s6 of (st_disable, s7) \<Rightarrow>
                        (let tmp_hal_status = (if tmp_hal_status = HAL_OK then st_disable
                                               else tmp_hal_status)
                         in if tmp_hal_status = HAL_OK then
                              (tmp_hal_status,
                               HAL_UNLOCK (upd_State (\<lambda>x. ADC_STATE_CLR_SET x
                                 HAL_ADC_STATE_INJ_BUSY HAL_ADC_STATE_READY) s7))
                            else (tmp_hal_status, HAL_UNLOCK s7)))
                   else
                     (tmp_hal_status,
                      HAL_UNLOCK (upd_State (\<lambda>x. SET_BIT x HAL_ADC_STATE_INJ_BUSY) s6))))
           else (tmp_hal_status, HAL_UNLOCK s1)))"

definition HAL_ADCEx_RegularMultiModeStop_DMA ::
  "extern \<Rightarrow> nat \<Rightarrow> sys \<Rightarrow> (HAL_StatusTypeDef \<times> sys) option" where
  "HAL_ADCEx_RegularMultiModeStop_DMA P fuel s =
     (if Lock (hadc s) = HAL_LOCKED then Some (HAL_BUSY, s)
      else
        (case call_ADC_ConversionStop P ADC_REGULAR_GROUP (HAL_LOCK s) of (tmp_hal_status, s1) \<Rightarrow>
           if tmp_hal_status = HAL_OK then
             (let s1' = upd_State (\<lambda>x. CLEAR_BIT x HAL_ADC_STATE_REG_BUSY) s1 in
              case ADC_MULTI_SLAVE (hadc s1') of
                None \<Rightarrow>
                  Some (HAL_ERROR,
                        HAL_UNLOCK (upd_State (\<lambda>x. SET_BIT x HAL_ADC_STATE_ERROR_CONFIG) s1'))
              | Some slave \<Rightarrow>
                  (case multimode_wait P fuel (Instance (hadc s1')) slave (uwTick (hw s1'))
                          (LL_ADC_REG_IsConversionOngoing (ADC (hw s1') slave)) (hw s1') of
                     None \<Rightarrow> None
                   | Some (False, w) \<Rightarrow>
                       Some (HAL_ERROR,
                             HAL_UNLOCK (upd_State (\<lambda>x. SET_BIT x HAL_ADC_STATE_ERROR_INTERNAL)
                                           (s1'\<lparr>hw := w\<rparr>)))
                   | Some (True, w) \<Rightarrow>
                       (case call_HAL_DMA_Abort P (s1'\<lparr>hw := w\<rparr>) of (tmp_hal_status, s2) \<Rightarrow>
                          (let s3 = (if tmp_hal_status \<noteq> HAL_OK
                                     then upd_State (\<lambda>x. SET_BIT x HAL_ADC_STATE_ERROR_DMA) s2
                                     else s2);
                               s4 = upd_reg (Instance (hadc s3)) (HAL_ADC_DISABLE_IT ADC_IT_OVR) s3
                           in
                             if tmp_hal_status = HAL_OK then
                               (case (if LL_ADC_INJ_IsConversionOngoing (regs s4) = 0 then
                                        (case call_ADC_Disable P s4 of (st_master, s5) \<Rightarrow>
                                           if st_master = HAL_OK then
                                             (if LL_ADC_INJ_IsConversionOngoing (ADC (hw s5) slave) = 0
                                              then call_ADC_Disable_slave P slave s5
                                              else (st_master, s5))
                                           else (st_master, s5))
                                      else (tmp_hal_status, s4)) of
                                  (tmp_hal_status, s6) \<Rightarrow>
                                    if tmp_hal_status = HAL_OK then
                                      Some (tmp_hal_status,
                                            HAL_UNLOCK (upd_State (\<lambda>x. ADC_STATE_CLR_SET x
                                              HAL_ADC_STATE_INJ_BUSY HAL_ADC_STATE_READY) s6))
                                    else Some (tmp_hal_status, HAL_UNLOCK s6))
                             else Some (tmp_hal_status, HAL_UNLOCK s4)))))
           else Some (tmp_hal_status, HAL_UNLOCK s1)))"

subsection \<open>Configuration of the injected group and of multimode (source lines 1716-2291)\<close>

text \<open>
  A write of the context register: \<open>MODIFY_REG(hadc->Instance->JSQR, ADC_JSQR_FIELDS, v)\<close>,
  logged with the value that the register receives.
\<close>

definition write_JSQR :: "ADC_Instance \<Rightarrow> u32 \<Rightarrow> sys \<Rightarrow> sys" where
  "write_JSQR i v s =
     log_event (Ev_JSQR_write i (MODIFY_REG (JSQR (ADC (hw s) i)) ADC_JSQR_FIELDS v))
       (upd_reg i (\<lambda>r. r\<lparr>JSQR := MODIFY_REG (JSQR r) ADC_JSQR_FIELDS v\<rparr>) s)"

text \<open>
  Modelled from the spec: the two macros that place the queue and discontinuous-mode
  settings in the configuration register are not under src/; each shifts the functional
  state to the position of its bit (JQM is bit 21, JDISCEN is bit 20).
\<close>

definition ADC_CFGR_INJECT_CONTEXT_QUEUE :: "u32 \<Rightarrow> u32" where
  "ADC_CFGR_INJECT_CONTEXT_QUEUE x = push_bit 21 x"

definition ADC_CFGR_INJECT_DISCCONTINUOUS :: "u32 \<Rightarrow> u32" where
  "ADC_CFGR_INJECT_DISCCONTINUOUS x = push_bit 20 x"

text \<open>
  The sequencer part of \<open>HAL_ADCEx_InjectedConfigChannel\<close> (lines 1796-1899): the
  context is written at once when scan mode is disabled or the context has one rank,
  otherwise it is staged in the handle and written when the channel count reaches 0.
\<close>

definition injected_sequencer :: "extern \<Rightarrow> ADC_InjectionConfTypeDef \<Rightarrow> sys \<Rightarrow> sys" where
  "injected_sequencer P c s =
     (let i = Instance (hadc s) in
      if Init_ScanConvMode (hadc s) = ADC_SCAN_DISABLE \<or> InjectedNbrOfConversion c = 1 then
        (if InjectedRank c = ADC_INJECTED_RANK_1 then
           (let tmp_jsqr_context_queue_being_built =
                  (if ExternalTrigInjecConv c \<noteq> ADC_INJECTED_SOFTWARE_START
                   then ADC_JSQR_RK P (InjectedChannel c) ADC_INJECTED_RANK_1
                        OR (ExternalTrigInjecConv c AND ADC_JSQR_JEXTSEL)
                        OR ExternalTrigInjecConvEdge c
                   else ADC_JSQR_RK P (InjectedChannel c) ADC_INJECTED_RANK_1);
                s1 = write_JSQR i tmp_jsqr_context_queue_being_built s
            in s1\<lparr>hadc := (hadc s1)\<lparr>InjectionConfig_ContextQueue :=
                                        tmp_jsqr_context_queue_being_built\<rparr>\<rparr>)
         else s)
      else
        (let first_call = (InjectionConfig_ChannelCount (hadc s) = 0);
             s1 = (if first_call
                   then s\<lparr>hadc := (hadc s)\<lparr>InjectionConfig_ChannelCount := InjectedNbrOfConversion c,
                                            InjectionConfig_ContextQueue := 0\<rparr>\<rparr>
                   else s);
             q0 = (if first_call then
                     (if ExternalTrigInjecConv c \<noteq> ADC_INJECTED_SOFTWARE_START
                      then (InjectedNbrOfConversion c - 1)
                           OR (ExternalTrigInjecConv c AND ADC_JSQR_JEXTSEL)
                           OR ExternalTrigInjecConvEdge c
                      else InjectedNbrOfConversion c - 1)
                   else 0);
             q1 = q0 AND NOT (ADC_JSQR_RK P ADC_SQR3_SQ10 (InjectedRank c));
             tmp_jsqr_context_queue_being_built =
               q1 OR ADC_JSQR_RK P (InjectedChannel c) (InjectedRank c);
             s2 = s1\<lparr>hadc := (hadc s1)\<lparr>InjectionConfig_ChannelCount :=
                                         InjectionConfig_ChannelCount (hadc s1) - 1\<rparr>\<rparr>;
             s3 = s2\<lparr>hadc := (hadc s2)\<lparr>InjectionConfig_ContextQueue :=
                        InjectionConfig_ContextQueue (hadc s2)
                        OR tmp_jsqr_context_queue_being_built\<rparr>\<rparr>
         in if InjectionConfig_ChannelCount (hadc s3) = 0
            then write_JSQR i (InjectionConfig_ContextQueue (hadc s3)) s3
            else s3))"

text \<open>
  The parameters that depend on the state of the converter (lines 1908-2160). The writes
  to CFGR and CFGR2 and the configuration error are in the source; the sampling time, the
  offset, the single/differential mode and the internal channel paths are set through LL
  accessors on the auxiliary registers (the loop that waits for the temperature sensor
  changes no state and is part of \<open>LL_internal_channel_path\<close>).
\<close>

definition injected_parameters ::
  "extern \<Rightarrow> ADC_InjectionConfTypeDef \<Rightarrow> sys \<Rightarrow> HAL_StatusTypeDef \<times> sys" where
  "injected_parameters P c s1 =
     (let i = Instance (hadc s1);
          s2 = (if LL_ADC_INJ_IsConversionOngoing (regs s1) = 0 then
                  (let sa = (if InjectedChannel c = ADC_CHANNEL_0
                                \<or> (InjectedChannel c = ADC_CHANNEL_1
                                    \<and> InjectedSingleDiff c = ADC_DIFFERENTIAL_ENDED)
                             then upd_aux (LL_ADC_EnableChannel0_GPIO P i) s1
                             else s1)
                   in if AutoInjectedConv c = DISABLE then
                        upd_reg i (\<lambda>r. r\<lparr>CFGR := MODIFY_REG (CFGR r)
                          (ADC_CFGR_JQM OR ADC_CFGR_JDISCEN)
                          (ADC_CFGR_INJECT_CONTEXT_QUEUE (QueueInjectedContext c)
                           OR ADC_CFGR_INJECT_DISCCONTINUOUS (InjectedDiscontinuousConvMode c))\<rparr>) sa
                      else
                        upd_reg i (\<lambda>r. r\<lparr>CFGR := MODIFY_REG (CFGR r)
                          (ADC_CFGR_JQM OR ADC_CFGR_JDISCEN)
                          (ADC_CFGR_INJECT_CONTEXT_QUEUE (QueueInjectedContext c))\<rparr>) sa)
                else s1);
          tmp_adc_is_conversion_on_going_regular = LL_ADC_REG_IsConversionOngoing (regs s2);
          tmp_adc_is_conversion_on_going_injected = LL_ADC_INJ_IsConversionOngoing (regs s2)
      in case
           (if tmp_adc_is_conversion_on_going_regular = 0
               \<and> tmp_adc_is_conversion_on_going_injected = 0 then
              (case
                 (if ExternalTrigInjecConv c = ADC_INJECTED_SOFTWARE_START
                     \<or> ExternalTrigInjecConvEdge c = ADC_EXTERNALTRIGINJECCONV_EDGE_NONE then
                    (if AutoInjectedConv c = ENABLE
                     then (HAL_OK, upd_reg i (\<lambda>r. r\<lparr>CFGR := SET_BIT (CFGR r) ADC_CFGR_JAUTO\<rparr>) s2)
                     else (HAL_OK, upd_reg i (\<lambda>r. r\<lparr>CFGR := CLEAR_BIT (CFGR r) ADC_CFGR_JAUTO\<rparr>) s2))
                  else
                    (if AutoInjectedConv c = ENABLE
                     then (HAL_ERROR, upd_State (\<lambda>x. SET_BIT x HAL_ADC_STATE_ERROR_CONFIG) s2)
                     else (HAL_OK, upd_reg i (\<lambda>r. r\<lparr>CFGR := CLEAR_BIT (CFGR r) ADC_CFGR_JAUTO\<rparr>) s2)))
               of (tmp_hal_status, sb) \<Rightarrow>
                 (let sc = (if InjecOversamplingMode c = ENABLE
                            then upd_reg i (\<lambda>r. r\<lparr>CFGR2 := MODIFY_REG (CFGR2 r)
                                   (ADC_CFGR2_JOVSE OR ADC_CFGR2_OVSR OR ADC_CFGR2_OVSS)
                                   (ADC_CFGR2_JOVSE OR InjecOversampling_Ratio c
                                    OR InjecOversampling_RightBitShift c)\<rparr>) sb
                            else upd_reg i (\<lambda>r. r\<lparr>CFGR2 := CLEAR_BIT (CFGR2 r) ADC_CFGR2_JOVSE\<rparr>) sb)
                  in (tmp_hal_status, upd_aux (LL_sampling_time_and_offset P i c) sc)))
            else (HAL_OK, s2))
         of (tmp_hal_status, s3) \<Rightarrow>
           (let s4 = (if LL_ADC_IsEnabled (regs s3) = 0
                      then upd_aux (LL_single_diff P i c) s3
                      else s3);
                s5 = upd_aux (LL_internal_channel_path P i c) s4
            in (tmp_hal_status, s5)))"

definition HAL_ADCEx_InjectedConfigChannel ::
  "extern \<Rightarrow> ADC_InjectionConfTypeDef \<Rightarrow> sys \<Rightarrow> HAL_StatusTypeDef \<times> sys" where
  "HAL_ADCEx_InjectedConfigChannel P pConfigInjected s =
     (if Lock (hadc s) = HAL_LOCKED then (HAL_BUSY, s)
      else
        (case injected_parameters P pConfigInjected
                (injected_sequencer P pConfigInjected (HAL_LOCK s)) of
           (tmp_hal_status, s1) \<Rightarrow> (tmp_hal_status, HAL_UNLOCK s1)))"

text \<open>
  Modelled from the spec: the macro that places the DMA continuous-request setting in the
  common control register is not under src/; it shifts the functional state to the
  position of DMACFG (bit 13).
\<close>

definition ADC_CCR_MULTI_DMACONTREQ :: "u32 \<Rightarrow> u32" where
  "ADC_CCR_MULTI_DMACONTREQ x = push_bit 13 x"

definition HAL_ADCEx_MultiModeConfigChannel ::
  "ADC_MultiModeTypeDef \<Rightarrow> sys \<Rightarrow> HAL_StatusTypeDef \<times> sys" where
  "HAL_ADCEx_MultiModeConfigChannel pMultimode s =
     (if Lock (hadc s) = HAL_LOCKED then (HAL_BUSY, s)
      else
        (let s1 = HAL_LOCK s in
         case ADC_MULTI_SLAVE (hadc s1) of
           None \<Rightarrow>
             (HAL_ERROR, HAL_UNLOCK (upd_State (\<lambda>x. SET_BIT x HAL_ADC_STATE_ERROR_CONFIG) s1))
         | Some slave \<Rightarrow>
             (let tmp_hadc_slave_conversion_on_going =
                    LL_ADC_REG_IsConversionOngoing (ADC (hw s1) slave)
              in if LL_ADC_REG_IsConversionOngoing (regs s1) = 0
                    \<and> tmp_hadc_slave_conversion_on_going = 0 then
                   (if Mode pMultimode \<noteq> ADC_MODE_INDEPENDENT then
                      (let s2 = upd_CCR (\<lambda>x. MODIFY_REG x (ADC_CCR_MDMA OR ADC_CCR_DMACFG)
                                   (DMAAccessMode pMultimode
                                    OR ADC_CCR_MULTI_DMACONTREQ
                                         (Init_DMAContinuousRequests (hadc s1)))) s1;
                           s3 = (if LL_ADC_IS_ENABLED_ALL_COMMON_INSTANCE (hw s2) = 0
                                 then upd_CCR (\<lambda>x. MODIFY_REG x (ADC_CCR_DUAL OR ADC_CCR_DELAY)
                                        (Mode pMultimode OR TwoSamplingDelay pMultimode)) s2
                                 else s2)
                       in (HAL_OK, HAL_UNLOCK s3))
                    else
                      (let s2 = upd_CCR (\<lambda>x. CLEAR_BIT x (ADC_CCR_MDMA OR ADC_CCR_DMACFG)) s1;
                           s3 = (if LL_ADC_IS_ENABLED_ALL_COMMON_INSTANCE (hw s2) = 0
                                 then upd_CCR (\<lambda>x. CLEAR_BIT x (ADC_CCR_DUAL OR ADC_CCR_DELAY)) s2
                                 else s2)
                       in (HAL_OK, HAL_UNLOCK s3)))
                 else
                   (HAL_ERROR,
                    HAL_UNLOCK (upd_State (\<lambda>x. SET_BIT x HAL_ADC_STATE_ERROR_CONFIG) s1)))))"

section \<open>Sequences of calls\<close>

text \<open>
  The four start and stop calls of the injected group, and a run of them on one handle.
  Between two calls the hardware may change in any way (a conversion ends, a trigger
  arrives): a run is a list of calls and of hardware changes. The run returns the calls
  made with the status each returned, in order.
\<close>

datatype inj_call = InjectedStart | InjectedStart_IT | InjectedStop | InjectedStop_IT

definition inj_exec :: "extern \<Rightarrow> inj_call \<Rightarrow> sys \<Rightarrow> HAL_StatusTypeDef \<times> sys" where
  "inj_exec P c s =
     (case c of
        InjectedStart \<Rightarrow> HAL_ADCEx_InjectedStart P s
      | InjectedStart_IT \<Rightarrow> HAL_ADCEx_InjectedStart_IT P s
      | InjectedStop \<Rightarrow> HAL_ADCEx_InjectedStop P s
      | InjectedStop_IT \<Rightarrow> HAL_ADCEx_InjectedStop_IT P s)"

datatype step = Call inj_call | Hardware "hardware \<Rightarrow> hardware"

fun run_steps ::
  "extern \<Rightarrow> step list \<Rightarrow> sys \<Rightarrow> (inj_call \<times> HAL_StatusTypeDef) list \<times> sys" where
  "run_steps P [] s = ([], s)"
| "run_steps P (Hardware f # rest) s = run_steps P rest (s\<lparr>hw := f (hw s)\<rparr>)"
| "run_steps P (Call c # rest) s =
     (case inj_exec P c s of
        (st, s1) \<Rightarrow> (case run_steps P rest s1 of (log, s2) \<Rightarrow> ((c, st) # log, s2)))"

definition is_start :: "inj_call \<Rightarrow> bool" where
  "is_start c = (c = InjectedStart \<or> c = InjectedStart_IT)"

definition is_stop :: "inj_call \<Rightarrow> bool" where
  "is_stop c = (c = InjectedStop \<or> c = InjectedStop_IT)"

text \<open>
  The claim's words: a start call has returned success and no later stop call has
  completed successfully.
\<close>

definition started_and_not_stopped :: "(inj_call \<times> HAL_StatusTypeDef) list \<Rightarrow> bool" where
  "started_and_not_stopped log =
     (\<exists>k < length log. is_start (fst (log ! k)) \<and> snd (log ! k) = HAL_OK
        \<and> \<not> (\<exists>j < length log. k < j \<and> is_stop (fst (log ! j)) \<and> snd (log ! j) = HAL_OK))"

text \<open>No fault injected: every helper call of the log returned \<open>HAL_OK\<close>.\<close>

fun helper_ok :: "event \<Rightarrow> bool" where
  "helper_ok (Ev_ADC_Enable i st) = (st = HAL_OK)"
| "helper_ok (Ev_ADC_Disable i st) = (st = HAL_OK)"
| "helper_ok (Ev_ADC_ConversionStop i g st) = (st = HAL_OK)"
| "helper_ok (Ev_DMA_Abort st) = (st = HAL_OK)"
| "helper_ok (Ev_DMA_Start st) = (st = HAL_OK)"
| "helper_ok (Ev_JSQR_write i v) = True"

definition no_faults :: "event list \<Rightarrow> bool" where
  "no_faults evs = list_all helper_ok evs"

text \<open>A run of configuration calls of the injected group, with the status of each.\<close>

fun config_run ::
  "extern \<Rightarrow> ADC_InjectionConfTypeDef list \<Rightarrow> sys \<Rightarrow> HAL_StatusTypeDef list \<times> sys" where
  "config_run P [] s = ([], s)"
| "config_run P (c # cs) s =
     (case HAL_ADCEx_InjectedConfigChannel P c s of
        (st, s1) \<Rightarrow> (case config_run P cs s1 of (sts, s2) \<Rightarrow> (st # sts, s2)))"

fun is_JSQR_write :: "event \<Rightarrow> bool" where
  "is_JSQR_write (Ev_JSQR_write i v) = True"
| "is_JSQR_write e = False"

text \<open>
  The public functions of the file that take the lock of the handle, with their
  arguments. The functions with a loop that may not end take the fuel of the call.
\<close>

datatype api_call =
    Calibration_Start u32
  | Calibration_SetValue u32 u32
  | API_InjectedStart
  | API_InjectedStop
  | API_InjectedStart_IT
  | API_InjectedStop_IT
  | MultiModeStart_DMA u32 u32
  | MultiModeStop_DMA
  | RegularStop
  | RegularStop_IT
  | RegularStop_DMA
  | RegularMultiModeStop_DMA
  | InjectedConfigChannel ADC_InjectionConfTypeDef
  | MultiModeConfigChannel ADC_MultiModeTypeDef

definition api_exec ::
  "extern \<Rightarrow> nat \<Rightarrow> api_call \<Rightarrow> sys \<Rightarrow> (HAL_StatusTypeDef \<times> sys) option" where
  "api_exec P fuel c s =
     (case c of
        Calibration_Start sd \<Rightarrow> Some (HAL_ADCEx_Calibration_Start P sd s)
      | Calibration_SetValue sd v \<Rightarrow> Some (HAL_ADCEx_Calibration_SetValue sd v s)
      | API_InjectedStart \<Rightarrow> Some (HAL_ADCEx_InjectedStart P s)
      | API_InjectedStop \<Rightarrow> Some (HAL_ADCEx_InjectedStop P s)
      | API_InjectedStart_IT \<Rightarrow> Some (HAL_ADCEx_InjectedStart_IT P s)
      | API_InjectedStop_IT \<Rightarrow> Some (HAL_ADCEx_InjectedStop_IT P s)
      | MultiModeStart_DMA pData len \<Rightarrow> Some (HAL_ADCEx_MultiModeStart_DMA P pData len s)
      | MultiModeStop_DMA \<Rightarrow> HAL_ADCEx_MultiModeStop_DMA P fuel s
      | RegularStop \<Rightarrow> Some (HAL_ADCEx_RegularStop P s)
      | RegularStop_IT \<Rightarrow> Some (HAL_ADCEx_RegularStop_IT P s)
      | RegularStop_DMA \<Rightarrow> Some (HAL_ADCEx_RegularStop_DMA P s)
      | RegularMultiModeStop_DMA \<Rightarrow> HAL_ADCEx_RegularMultiModeStop_DMA P fuel s
      | InjectedConfigChannel cfg \<Rightarrow> Some (HAL_ADCEx_InjectedConfigChannel P cfg s)
      | MultiModeConfigChannel m \<Rightarrow> Some (HAL_ADCEx_MultiModeConfigChannel m s))"

section \<open>A reference platform\<close>

text \<open>
  Modelled from the spec: a concrete record of the collaborators that are not under src/,
  used to run the functions on concrete inputs. Following section 4.1 of the spec,
  \<open>ADC_Disable\<close> fails with Busy while a group converts, otherwise disables the core;
  \<open>ADC_Enable\<close> arms the core; both report Timeout and mark the handle internally
  errored when the hardware does not confirm. Following section 4.4,
  \<open>ADC_ConversionStop\<close> requests the stop of the groups named and waits for it. The
  internal state of the hardware says how it behaves: 0, it answers at once; 1, it
  accepts commands but nothing in progress ever ends (a running calibration or a
  conversion of the other converter goes on); 2 or more, it confirms nothing.
\<close>

definition sim_fail :: "HAL_StatusTypeDef \<Rightarrow> ADC_HandleTypeDef \<Rightarrow> ADC_HandleTypeDef" where
  "sim_fail st h =
     h\<lparr>State := SET_BIT (State h) HAL_ADC_STATE_ERROR_INTERNAL,
       ErrorCode := SET_BIT (ErrorCode h) HAL_ADC_ERROR_INTERNAL\<rparr>"

definition sim_upd :: "ADC_Instance \<Rightarrow> (u32 \<Rightarrow> u32) \<Rightarrow> hardware \<Rightarrow> hardware" where
  "sim_upd i f w = w\<lparr>ADC := (ADC w)(i := (ADC w i)\<lparr>CR := f (CR (ADC w i))\<rparr>)\<rparr>"

definition sim_ADC_Enable ::
  "ADC_HandleTypeDef \<Rightarrow> hardware \<Rightarrow> HAL_StatusTypeDef \<times> ADC_HandleTypeDef \<times> hardware" where
  "sim_ADC_Enable h w =
     (if internal w \<ge> 2 then (HAL_TIMEOUT, sim_fail HAL_TIMEOUT h, w)
      else (HAL_OK, h, sim_upd (Instance h) (\<lambda>x. SET_BIT x ADC_CR_ADEN) w))"

definition sim_ADC_Disable ::
  "ADC_HandleTypeDef \<Rightarrow> hardware \<Rightarrow> HAL_StatusTypeDef \<times> ADC_HandleTypeDef \<times> hardware" where
  "sim_ADC_Disable h w =
     (if CR (ADC w (Instance h)) AND (ADC_CR_ADSTART OR ADC_CR_JADSTART) \<noteq> 0
      then (HAL_BUSY, sim_fail HAL_BUSY h, w)
      else if internal w \<ge> 2 then (HAL_TIMEOUT, sim_fail HAL_TIMEOUT h, w)
      else (HAL_OK, h, sim_upd (Instance h) (\<lambda>x. CLEAR_BIT x ADC_CR_ADEN) w))"

definition sim_ADC_ConversionStop ::
  "ADC_HandleTypeDef \<Rightarrow> u32 \<Rightarrow> hardware \<Rightarrow> HAL_StatusTypeDef \<times> ADC_HandleTypeDef \<times> hardware" where
  "sim_ADC_ConversionStop h grp w =
     (if internal w \<ge> 2 then (HAL_TIMEOUT, sim_fail HAL_TIMEOUT h, w)
      else (HAL_OK, h,
            sim_upd (Instance h)
              (\<lambda>x. CLEAR_BIT x
                 ((if grp \<noteq> ADC_INJECTED_GROUP then ADC_CR_ADSTART else 0)
                  OR (if grp \<noteq> ADC_REGULAR_GROUP then ADC_CR_JADSTART else 0))) w))"

definition sim_hw_step :: "hardware \<Rightarrow> hardware" where
  "sim_hw_step w =
     (if internal w = 0
      then w\<lparr>uwTick := uwTick w + 1,
             ADC := (\<lambda>i. (ADC w i)\<lparr>CR := CLEAR_BIT (CR (ADC w i)) ADC_CR_ADCAL\<rparr>)\<rparr>
      else w\<lparr>uwTick := uwTick w + 1\<rparr>)"

definition sim_garbage :: ADC_HandleTypeDef where
  "sim_garbage =
     \<lparr>Instance = ADC2, Init_ScanConvMode = 0, Init_EOCSelection = 0,
      Init_DMAContinuousRequests = 0, Lock = HAL_UNLOCKED, State = 0, ErrorCode = 0,
      InjectionConfig_ContextQueue = 0, InjectionConfig_ChannelCount = 0\<rparr>"

definition sim :: extern where
  "sim =
     \<lparr>ADC_Enable = sim_ADC_Enable,
      ADC_Disable = sim_ADC_Disable,
      ADC_ConversionStop = sim_ADC_ConversionStop,
      HAL_DMA_Abort = (\<lambda>d w. (HAL_OK, d\<lparr>DMA_State := 0\<rparr>, w)),
      HAL_DMA_Start_IT = (\<lambda>d src dst len w. (HAL_OK, d\<lparr>DMA_State := 1\<rparr>, w)),
      HAL_DMAEx_List_Start_IT = (\<lambda>d w. (HAL_OK, d\<lparr>DMA_State := 1\<rparr>, w)),
      HAL_DMAEx_List_GetNodeConfig = (\<lambda>n. (HAL_OK, DMA_SRC_DATAWIDTH_WORD)),
      hw_step = sim_hw_step,
      ADC_JSQR_RK = (\<lambda>ch rk. push_bit (unat (rk AND 0x1F)) (drop_bit 26 (ch AND 0x7C000000))),
      LL_ADC_EnableChannel0_GPIO = (\<lambda>i w. aux_regs w),
      LL_sampling_time_and_offset = (\<lambda>i c w. aux_regs w),
      LL_single_diff = (\<lambda>i c w. aux_regs w),
      LL_internal_channel_path = (\<lambda>i c w. aux_regs w),
      stack_garbage = sim_garbage,
      CDR_address = 0x4202830C\<rparr>"

text \<open>Concrete states: registers all zero but for the control register of each converter.\<close>

definition regs0 :: "u32 \<Rightarrow> ADC_TypeDef" where
  "regs0 cr = \<lparr>ISR = 0, IER = 0, CR = cr, CFGR = 0, CFGR2 = 0, JSQR = 0, CALFACT = 0\<rparr>"

definition hw0 :: "u32 \<Rightarrow> u32 \<Rightarrow> nat \<Rightarrow> hardware" where
  "hw0 cr1 cr2 mode =
     \<lparr>ADC = (\<lambda>i. if i = ADC1 then regs0 cr1 else regs0 cr2), CCR = 0, uwTick = 0,
      aux_regs = 0, internal = mode\<rparr>"

definition hadc0 :: "ADC_Instance \<Rightarrow> u32 \<Rightarrow> ADC_HandleTypeDef" where
  "hadc0 i st =
     \<lparr>Instance = i, Init_ScanConvMode = 1, Init_EOCSelection = ADC_EOC_SEQ_CONV,
      Init_DMAContinuousRequests = 0, Lock = HAL_UNLOCKED, State = st, ErrorCode = 0,
      InjectionConfig_ContextQueue = 0, InjectionConfig_ChannelCount = 0\<rparr>"

definition hdma0 :: DMA_HandleTypeDef where
  "hdma0 =
     \<lparr>DMA_Mode = 0, DMA_Init_SrcDataWidth = DMA_SRC_DATAWIDTH_WORD, LinkedListQueue = None,
      XferCpltCallback = None, XferHalfCpltCallback = None, XferErrorCallback = None,
      DMA_State = 1\<rparr>"

definition sys0 :: "ADC_Instance \<Rightarrow> u32 \<Rightarrow> hardware \<Rightarrow> sys" where
  "sys0 i st w = \<lparr>hadc = hadc0 i st, hdma = hdma0, hw = w, trace = []\<rparr>"

lemmas sim_defs =
  sim_def sim_fail_def sim_upd_def sim_ADC_Enable_def sim_ADC_Disable_def
  sim_ADC_ConversionStop_def sim_hw_step_def sim_garbage_def regs0_def hw0_def hadc0_def
  hdma0_def sys0_def

text \<open>A hardware state for the poll function: both completion flags raised, CFGR as given.\<close>

definition poll_hw :: "u32 \<Rightarrow> hardware" where
  "poll_hw cfgr = (hw0 1 0 0)\<lparr>ADC := (\<lambda>i. (regs0 1)\<lparr>ISR := 0x60, CFGR := cfgr\<rparr>)\<rparr>"

text \<open>
  For the multimode configuration: the parameters are valid when each lies within its
  field (what the parameter assertions of lines 2195-2200 require) and the DMA
  continuous-request setting of the handle is a functional state; the values that the
  function writes to the two DMA fields and to the mode and delay fields of the common
  control register.
\<close>

definition multimode_params_valid :: "ADC_MultiModeTypeDef \<Rightarrow> ADC_HandleTypeDef \<Rightarrow> bool" where
  "multimode_params_valid m h =
     (Mode m AND NOT ADC_CCR_DUAL = 0 \<and> TwoSamplingDelay m AND NOT ADC_CCR_DELAY = 0
      \<and> DMAAccessMode m AND NOT ADC_CCR_MDMA = 0 \<and> (Init_DMAContinuousRequests h = DISABLE \<or> Init_DMAContinuousRequests h = ENABLE))"

definition dma_fields_requested :: "ADC_MultiModeTypeDef \<Rightarrow> ADC_HandleTypeDef \<Rightarrow> u32" where
  "dma_fields_requested m h =
     (if Mode m \<noteq> ADC_MODE_INDEPENDENT
      then DMAAccessMode m OR ADC_CCR_MULTI_DMACONTREQ (Init_DMAContinuousRequests h) else 0)"

definition mode_fields_requested :: "ADC_MultiModeTypeDef \<Rightarrow> u32" where
  "mode_fields_requested m =
     (if Mode m \<noteq> ADC_MODE_INDEPENDENT then Mode m OR TwoSamplingDelay m else 0)"

text \<open>A dual-mode configuration request, used on concrete states.\<close>

definition dual_cfg :: ADC_MultiModeTypeDef where
  "dual_cfg = \<lparr>Mode = 0x6, DMAAccessMode = 0x8000, TwoSamplingDelay = 0x100\<rparr>"

text \<open>
  What the properties of the multimode stop ask of the helpers that are not in the file:
  \<open>ADC_ConversionStop\<close> leaves the handle's instance alone, and \<open>ADC_Disable\<close> leaves the
  DMA-error bit of the state alone.
\<close>

definition stop_keeps_Instance :: "extern \<Rightarrow> bool" where
  "stop_keeps_Instance P =
     (\<forall>h g w. Instance (fst (snd (ADC_ConversionStop P h g w))) = Instance h)"

definition disable_keeps_ERROR_DMA :: "extern \<Rightarrow> bool" where
  "disable_keeps_ERROR_DMA P =
     (\<forall>h w. State (fst (snd (ADC_Disable P h w))) AND HAL_ADC_STATE_ERROR_DMA
            = State h AND HAL_ADC_STATE_ERROR_DMA)"

text \<open>The reference platform with a transfer engine whose abort fails.\<close>

definition faulty_dma :: extern where
  "faulty_dma = sim\<lparr>HAL_DMA_Abort := (\<lambda>d w. (HAL_ERROR, d, w))\<rparr>"

text \<open>
  What the sequencer part of the configuration reads and writes: the log, the context
  register of the handle's converter, and the handle's instance, scan mode and count of
  channels still to configure.
\<close>

definition sequencer_view :: "sys \<Rightarrow> event list \<times> u32 \<times> ADC_Instance \<times> u32 \<times> u32" where
  "sequencer_view s =
     (trace s, JSQR (regs s), Instance (hadc s), Init_ScanConvMode (hadc s),
      InjectionConfig_ChannelCount (hadc s))"

text \<open>A configuration request for one rank of a context of two ranks, software start.\<close>

definition two_rank_cfg :: "u32 \<Rightarrow> ADC_InjectionConfTypeDef" where
  "two_rank_cfg rk =
     \<lparr>InjectedChannel = ADC_CHANNEL_1, InjectedRank = rk, InjectedSamplingTime = 0,
      InjectedSingleDiff = ADC_SINGLE_ENDED, InjectedOffsetNumber = 0, InjectedOffset = 0,
      InjectedNbrOfConversion = 2, InjectedDiscontinuousConvMode = DISABLE,
      AutoInjectedConv = DISABLE, QueueInjectedContext = DISABLE,
      ExternalTrigInjecConv = ADC_INJECTED_SOFTWARE_START,
      ExternalTrigInjecConvEdge = ADC_EXTERNALTRIGINJECCONV_EDGE_NONE,
      InjecOversamplingMode = DISABLE, InjecOversampling_Ratio = 0,
      InjecOversampling_RightBitShift = 0\<rparr>"

text \<open>The injected-busy bit of the handle's state word is set.\<close>

definition injected_busy :: "sys \<Rightarrow> bool" where
  "injected_busy s = (State (hadc s) AND HAL_ADC_STATE_INJ_BUSY \<noteq> 0)"

text \<open>
  Both converters enabled and idle, with the queue of injected contexts disabled (JQDIS set,
  its reset value), so that a start of the injected group passes the queue check.
\<close>

definition queue_off_hw :: hardware where
  "queue_off_hw = (hw0 1 0 0)\<lparr>ADC := (\<lambda>i. (regs0 1)\<lparr>CFGR := ADC_CFGR_JQDIS\<rparr>)\<rparr>"

section \<open>Properties\<close>

subsection \<open>State updates\<close>

lemma upd_sel [simp]:
  "hadc (upd_reg i f s) = hadc s" "hdma (upd_reg i f s) = hdma s" "trace (upd_reg i f s) = trace s"
  "hw (upd_State g s) = hw s" "hdma (upd_State g s) = hdma s" "trace (upd_State g s) = trace s"
  "hw (upd_ErrorCode g s) = hw s" "hdma (upd_ErrorCode g s) = hdma s"
  "trace (upd_ErrorCode g s) = trace s"
  "hadc (upd_CCR g s) = hadc s" "hdma (upd_CCR g s) = hdma s" "trace (upd_CCR g s) = trace s"
  "hadc (upd_aux a s) = hadc s" "hdma (upd_aux a s) = hdma s" "trace (upd_aux a s) = trace s"
  "hw (HAL_LOCK s) = hw s" "hdma (HAL_LOCK s) = hdma s" "trace (HAL_LOCK s) = trace s"
  "hw (HAL_UNLOCK s) = hw s" "hdma (HAL_UNLOCK s) = hdma s" "trace (HAL_UNLOCK s) = trace s"
  "hadc (log_event e s) = hadc s" "hw (log_event e s) = hw s" "hdma (log_event e s) = hdma s"
  by (simp_all add: upd_defs)

lemma upd_hadc_sel [simp]:
  "Instance (hadc (upd_State g s)) = Instance (hadc s)"
  "Instance (hadc (upd_ErrorCode g s)) = Instance (hadc s)"
  "Instance (hadc (HAL_LOCK s)) = Instance (hadc s)"
  "Instance (hadc (HAL_UNLOCK s)) = Instance (hadc s)"
  "Lock (hadc (upd_State g s)) = Lock (hadc s)"
  "Lock (hadc (upd_ErrorCode g s)) = Lock (hadc s)"
  "Lock (hadc (HAL_LOCK s)) = HAL_LOCKED"
  "Lock (hadc (HAL_UNLOCK s)) = HAL_UNLOCKED"
  "State (hadc (upd_State g s)) = g (State (hadc s))"
  "State (hadc (upd_ErrorCode g s)) = State (hadc s)"
  "State (hadc (HAL_LOCK s)) = State (hadc s)"
  "State (hadc (HAL_UNLOCK s)) = State (hadc s)"
  by (simp_all add: upd_defs)

subsection \<open>Bit masks\<close>

lemma set_bit_is_set: "m \<noteq> 0 \<Longrightarrow> SET_BIT x m AND m \<noteq> 0"
  by (simp add: SET_BIT_def)

lemma clear_bit_is_clear: "CLEAR_BIT x m AND m = 0"
  unfolding reg_macros by (rule bit_eqI) (auto simp: bit_simps)

lemma clr_set_clears: "r AND m = 0 \<Longrightarrow> ADC_STATE_CLR_SET x m r AND m = 0"
  unfolding reg_macros by (rule bit_eqI) (auto simp: bit_simps bit_eq_iff)

lemma clr_set_sets: "ADC_STATE_CLR_SET x m r AND r = r"
  unfolding reg_macros by (rule bit_eqI) (auto simp: bit_simps)

lemma clear_bit_frame: "k AND m = 0 \<Longrightarrow> CLEAR_BIT x m AND k = x AND k"
  unfolding reg_macros by (rule bit_eqI) (auto simp: bit_simps bit_eq_iff)

lemma set_bit_frame: "k AND m = 0 \<Longrightarrow> SET_BIT x m AND k = x AND k"
  unfolding reg_macros by (rule bit_eqI) (auto simp: bit_simps bit_eq_iff)

lemma clr_set_frame: "k AND m = 0 \<Longrightarrow> k AND r = 0 \<Longrightarrow> ADC_STATE_CLR_SET x m r AND k = x AND k"
  unfolding reg_macros by (rule bit_eqI) (auto simp: bit_simps bit_eq_iff)

subsection \<open>Stop of the injected group\<close>

text \<open>
  Claim C4. \<open>HAL_ADCEx_InjectedStop\<close>, once the helper has confirmed the stop of the
  injected conversion, disables the converter only if no regular conversion is ongoing:
  then \<open>ADC_Disable\<close> is called (the log gains its event, the status and the hardware are
  the helper's) and, when it succeeds, both busy bits are cleared and the ready bit is set.
  If a regular conversion is ongoing, the function returns \<open>HAL_OK\<close>, clears the
  injected-busy bit only (the regular-busy bit is kept), calls no helper and leaves the
  hardware, hence the enable bit, as the stop left it.
\<close>

theorem injected_stop_disables_only_if_regular_idle:
  assumes unlocked: "Lock (hadc s) = HAL_UNLOCKED"
    and stopped: "call_ADC_ConversionStop P ADC_INJECTED_GROUP (HAL_LOCK s) = (HAL_OK, s1)"
    and result: "HAL_ADCEx_InjectedStop P s = (st, s')"
  shows "(LL_ADC_REG_IsConversionOngoing (regs s1) \<noteq> 0 \<longrightarrow>
            st = HAL_OK \<and> hw s' = hw s1 \<and> trace s' = trace s1
            \<and> State (hadc s') = CLEAR_BIT (State (hadc s1)) HAL_ADC_STATE_INJ_BUSY
            \<and> State (hadc s') AND HAL_ADC_STATE_INJ_BUSY = 0
            \<and> State (hadc s') AND HAL_ADC_STATE_REG_BUSY = State (hadc s1) AND HAL_ADC_STATE_REG_BUSY)
       \<and> (LL_ADC_REG_IsConversionOngoing (regs s1) = 0 \<longrightarrow>
            st = fst (call_ADC_Disable P s1)
            \<and> hw s' = hw (snd (call_ADC_Disable P s1))
            \<and> trace s' = trace s1 @ [Ev_ADC_Disable (Instance (hadc s1)) st]
            \<and> (st = HAL_OK \<longrightarrow>
                  State (hadc s') AND HAL_ADC_STATE_REG_BUSY = 0
                  \<and> State (hadc s') AND HAL_ADC_STATE_INJ_BUSY = 0
                  \<and> State (hadc s') AND HAL_ADC_STATE_READY \<noteq> 0))"
proof (intro conjI impI)
  assume on: "LL_ADC_REG_IsConversionOngoing (regs s1) \<noteq> 0"
  have eq: "HAL_ADCEx_InjectedStop P s
            = (HAL_OK, HAL_UNLOCK (upd_State (\<lambda>x. CLEAR_BIT x HAL_ADC_STATE_INJ_BUSY) s1))"
    using unlocked stopped on by (simp add: HAL_ADCEx_InjectedStop_def)
  with result have st: "st = HAL_OK"
    and s': "s' = HAL_UNLOCK (upd_State (\<lambda>x. CLEAR_BIT x HAL_ADC_STATE_INJ_BUSY) s1)"
    by simp_all
  show "st = HAL_OK" by (rule st)
  show "hw s' = hw s1" "trace s' = trace s1"
    "State (hadc s') = CLEAR_BIT (State (hadc s1)) HAL_ADC_STATE_INJ_BUSY"
    by (simp_all add: s' upd_defs)
  show "State (hadc s') AND HAL_ADC_STATE_INJ_BUSY = 0"
    by (simp add: s' upd_defs clear_bit_is_clear)
  show "State (hadc s') AND HAL_ADC_STATE_REG_BUSY = State (hadc s1) AND HAL_ADC_STATE_REG_BUSY"
    by (simp add: s' upd_defs clear_bit_frame state_consts)
next
  assume off: "LL_ADC_REG_IsConversionOngoing (regs s1) = 0"
  obtain st2 s2 where dis: "call_ADC_Disable P s1 = (st2, s2)"
    by (cases "call_ADC_Disable P s1")
  have eq: "HAL_ADCEx_InjectedStop P s
            = (st2, HAL_UNLOCK (if st2 = HAL_OK
                 then upd_State (\<lambda>x. ADC_STATE_CLR_SET x
                        (HAL_ADC_STATE_REG_BUSY OR HAL_ADC_STATE_INJ_BUSY) HAL_ADC_STATE_READY) s2
                 else s2))"
    using unlocked stopped off dis by (simp add: HAL_ADCEx_InjectedStop_def)
  with result have st: "st = st2"
    and s': "s' = HAL_UNLOCK (if st2 = HAL_OK
                 then upd_State (\<lambda>x. ADC_STATE_CLR_SET x
                        (HAL_ADC_STATE_REG_BUSY OR HAL_ADC_STATE_INJ_BUSY) HAL_ADC_STATE_READY) s2
                 else s2)"
    by auto
  show "st = fst (call_ADC_Disable P s1)" "hw s' = hw (snd (call_ADC_Disable P s1))"
    by (simp_all add: st s' dis upd_defs)
  show "trace s' = trace s1 @ [Ev_ADC_Disable (Instance (hadc s1)) st]"
    using dis by (auto simp: st s' upd_defs call_ADC_Disable_def split: prod.splits)
  {
    assume ok: "st = HAL_OK"
    have m1: "HAL_ADC_STATE_READY AND (HAL_ADC_STATE_REG_BUSY OR HAL_ADC_STATE_INJ_BUSY) = 0"
      by (simp add: state_consts)
    have z: "State (hadc s') AND (HAL_ADC_STATE_REG_BUSY OR HAL_ADC_STATE_INJ_BUSY) = 0"
      using ok by (simp add: st s' upd_defs clr_set_clears m1)
    then show "State (hadc s') AND HAL_ADC_STATE_REG_BUSY = 0"
      by (metis and.assoc and.commute and_zero_eq bit.conj_disj_distrib or_eq_0_iff)
    from z show "State (hadc s') AND HAL_ADC_STATE_INJ_BUSY = 0"
      by (metis and.assoc and.commute and_zero_eq bit.conj_disj_distrib or_eq_0_iff)
    have "State (hadc s') AND HAL_ADC_STATE_READY = HAL_ADC_STATE_READY"
      using ok by (simp add: st s' upd_defs clr_set_sets)
    then show "State (hadc s') AND HAL_ADC_STATE_READY \<noteq> 0"
      by (simp add: state_consts)
  }
qed

theorem injected_stop_disables_only_if_regular_idle_witness:
  "LL_ADC_REG_IsConversionOngoing
      (regs (snd (call_ADC_ConversionStop sim ADC_INJECTED_GROUP
                    (HAL_LOCK (sys0 ADC1 0x1100 (hw0 0xD 0 0)))))) \<noteq> 0
   \<and> fst (HAL_ADCEx_InjectedStop sim (sys0 ADC1 0x1100 (hw0 0xD 0 0))) = HAL_OK
   \<and> State (hadc (snd (HAL_ADCEx_InjectedStop sim (sys0 ADC1 0x1100 (hw0 0xD 0 0)))))
        AND HAL_ADC_STATE_INJ_BUSY = 0
   \<and> trace (snd (HAL_ADCEx_InjectedStop sim (sys0 ADC1 0x1100 (hw0 0xD 0 0))))
        = [Ev_ADC_ConversionStop ADC1 ADC_INJECTED_GROUP HAL_OK]
   \<and> CR (regs (snd (HAL_ADCEx_InjectedStop sim (sys0 ADC1 0x1100 (hw0 0xD 0 0))))) = 5
   \<and> LL_ADC_REG_IsConversionOngoing
      (regs (snd (call_ADC_ConversionStop sim ADC_INJECTED_GROUP
                    (HAL_LOCK (sys0 ADC1 0x1000 (hw0 9 0 0)))))) = 0
   \<and> fst (HAL_ADCEx_InjectedStop sim (sys0 ADC1 0x1000 (hw0 9 0 0))) = HAL_OK
   \<and> trace (snd (HAL_ADCEx_InjectedStop sim (sys0 ADC1 0x1000 (hw0 9 0 0))))
        = [Ev_ADC_ConversionStop ADC1 ADC_INJECTED_GROUP HAL_OK, Ev_ADC_Disable ADC1 HAL_OK]
   \<and> State (hadc (snd (HAL_ADCEx_InjectedStop sim (sys0 ADC1 0x1000 (hw0 9 0 0)))))
        AND HAL_ADC_STATE_READY \<noteq> 0"
proof -
  let ?a = "sys0 ADC1 0x1100 (hw0 0xD 0 0)"
  let ?a1 = "snd (call_ADC_ConversionStop sim ADC_INJECTED_GROUP (HAL_LOCK ?a))"
  let ?b = "sys0 ADC1 0x1000 (hw0 9 0 0)"
  let ?b1 = "snd (call_ADC_ConversionStop sim ADC_INJECTED_GROUP (HAL_LOCK ?b))"
  have ua: "Lock (hadc ?a) = HAL_UNLOCKED" and ub: "Lock (hadc ?b) = HAL_UNLOCKED"
    by (simp_all add: sim_defs)
  have sa: "call_ADC_ConversionStop sim ADC_INJECTED_GROUP (HAL_LOCK ?a) = (HAL_OK, ?a1)"
    by (simp add: call_defs sim_defs upd_defs)
  have sb: "call_ADC_ConversionStop sim ADC_INJECTED_GROUP (HAL_LOCK ?b) = (HAL_OK, ?b1)"
    by (simp add: call_defs sim_defs upd_defs)
  have ra: "HAL_ADCEx_InjectedStop sim ?a
            = (fst (HAL_ADCEx_InjectedStop sim ?a), snd (HAL_ADCEx_InjectedStop sim ?a))"
    and rb: "HAL_ADCEx_InjectedStop sim ?b
            = (fst (HAL_ADCEx_InjectedStop sim ?b), snd (HAL_ADCEx_InjectedStop sim ?b))"
    by simp_all
  have on: "LL_ADC_REG_IsConversionOngoing (regs ?a1) \<noteq> 0"
    by (simp add: call_defs sim_defs upd_defs ll_defs reg_macros reg_consts par_consts)
  have off: "LL_ADC_REG_IsConversionOngoing (regs ?b1) = 0"
    by (simp add: call_defs sim_defs upd_defs ll_defs reg_macros reg_consts par_consts)
  have ta: "trace ?a1 = [Ev_ADC_ConversionStop ADC1 ADC_INJECTED_GROUP HAL_OK]"
    and ha: "CR (ADC (hw ?a1) ADC1) = 5"
    and ia: "Instance (hadc (snd (HAL_ADCEx_InjectedStop sim ?a))) = ADC1"
    by (simp_all add: HAL_ADCEx_InjectedStop_def call_defs sim_defs upd_defs ll_defs reg_macros
        reg_consts par_consts)
  have tb: "trace ?b1 = [Ev_ADC_ConversionStop ADC1 ADC_INJECTED_GROUP HAL_OK]"
    and ib: "Instance (hadc ?b1) = ADC1"
    and db: "fst (call_ADC_Disable sim ?b1) = HAL_OK"
    by (simp_all add: call_defs sim_defs upd_defs ll_defs reg_macros reg_consts par_consts)
  note A = injected_stop_disables_only_if_regular_idle [OF ua sa ra]
  note B = injected_stop_disables_only_if_regular_idle [OF ub sb rb]
  from A on have A': "fst (HAL_ADCEx_InjectedStop sim ?a) = HAL_OK"
    "hw (snd (HAL_ADCEx_InjectedStop sim ?a)) = hw ?a1"
    "trace (snd (HAL_ADCEx_InjectedStop sim ?a)) = trace ?a1"
    "State (hadc (snd (HAL_ADCEx_InjectedStop sim ?a))) AND HAL_ADC_STATE_INJ_BUSY = 0"
    by blast+
  from B off have B': "fst (HAL_ADCEx_InjectedStop sim ?b) = fst (call_ADC_Disable sim ?b1)"
    "trace (snd (HAL_ADCEx_InjectedStop sim ?b))
       = trace ?b1 @ [Ev_ADC_Disable (Instance (hadc ?b1)) (fst (HAL_ADCEx_InjectedStop sim ?b))]"
    "fst (HAL_ADCEx_InjectedStop sim ?b) = HAL_OK \<longrightarrow>
       State (hadc (snd (HAL_ADCEx_InjectedStop sim ?b))) AND HAL_ADC_STATE_READY \<noteq> 0"
    by blast+
  have c5: "CR (regs (snd (HAL_ADCEx_InjectedStop sim ?a))) = 5"
    by (simp add: regs_def A'(2) ia ha)
  show ?thesis
    using on off A'(1,3,4) c5 B' ta tb ib db by simp
qed

subsection \<open>Start of the injected group\<close>

text \<open>
  Claim C5 (amended). When no injected conversion is ongoing (JADSTART reads clear), the
  queue-disable bit JQDIS is clear and the trigger-enable field JEXTEN of the context
  register is zero, \<open>HAL_ADCEx_InjectedStart\<close> and \<open>HAL_ADCEx_InjectedStart_IT\<close> return
  \<open>HAL_ERROR\<close> and change nothing but the state word, in which they set the
  configuration-error bit: the hardware is untouched (the converter is not enabled, no
  conversion is started) and no helper is called. While an injected conversion is ongoing,
  whatever the queue setting, both return \<open>HAL_BUSY\<close> and change nothing at all: no error
  bit is set.
\<close>

theorem injected_start_config_error:
  "(LL_ADC_INJ_IsConversionOngoing (regs s) = 0
      \<and> READ_BIT (CFGR (regs s)) ADC_CFGR_JQDIS = 0
      \<and> READ_BIT (JSQR (regs s)) ADC_JSQR_JEXTEN = 0 \<longrightarrow>
        HAL_ADCEx_InjectedStart P s
           = (HAL_ERROR, upd_State (\<lambda>x. SET_BIT x HAL_ADC_STATE_ERROR_CONFIG) s)
       \<and> HAL_ADCEx_InjectedStart_IT P s
           = (HAL_ERROR, upd_State (\<lambda>x. SET_BIT x HAL_ADC_STATE_ERROR_CONFIG) s)
       \<and> State (hadc (upd_State (\<lambda>x. SET_BIT x HAL_ADC_STATE_ERROR_CONFIG) s))
           AND HAL_ADC_STATE_ERROR_CONFIG \<noteq> 0
       \<and> hw (upd_State (\<lambda>x. SET_BIT x HAL_ADC_STATE_ERROR_CONFIG) s) = hw s
       \<and> trace (upd_State (\<lambda>x. SET_BIT x HAL_ADC_STATE_ERROR_CONFIG) s) = trace s)
   \<and> (LL_ADC_INJ_IsConversionOngoing (regs s) \<noteq> 0 \<longrightarrow>
        HAL_ADCEx_InjectedStart P s = (HAL_BUSY, s)
       \<and> HAL_ADCEx_InjectedStart_IT P s = (HAL_BUSY, s))"
  by (simp add: HAL_ADCEx_InjectedStart_def HAL_ADCEx_InjectedStart_IT_def Let_def
      upd_State_def set_bit_is_set HAL_ADC_STATE_ERROR_CONFIG_def)

text \<open>
  The witness: an enabled converter with an empty context, idle (the configuration error)
  and with an injected conversion ongoing (the busy return).
\<close>

theorem injected_start_config_error_witness:
  "HAL_ADCEx_InjectedStart sim (sys0 ADC1 0 (hw0 1 0 0))
     = (HAL_ERROR, sys0 ADC1 HAL_ADC_STATE_ERROR_CONFIG (hw0 1 0 0))
   \<and> HAL_ADCEx_InjectedStart_IT sim (sys0 ADC1 0 (hw0 1 0 0))
     = (HAL_ERROR, sys0 ADC1 HAL_ADC_STATE_ERROR_CONFIG (hw0 1 0 0))
   \<and> LL_ADC_INJ_IsConversionOngoing (regs (sys0 ADC1 HAL_ADC_STATE_INJ_BUSY (hw0 9 1 0))) \<noteq> 0
   \<and> HAL_ADCEx_InjectedStart sim (sys0 ADC1 HAL_ADC_STATE_INJ_BUSY (hw0 9 1 0))
     = (HAL_BUSY, sys0 ADC1 HAL_ADC_STATE_INJ_BUSY (hw0 9 1 0))
   \<and> HAL_ADCEx_InjectedStart_IT sim (sys0 ADC1 HAL_ADC_STATE_INJ_BUSY (hw0 9 1 0))
     = (HAL_BUSY, sys0 ADC1 HAL_ADC_STATE_INJ_BUSY (hw0 9 1 0))"
proof -
  have a: "LL_ADC_INJ_IsConversionOngoing (regs (sys0 ADC1 0 (hw0 1 0 0))) = 0"
    by (simp add: sim_defs upd_defs ll_defs reg_macros reg_consts)
  have b: "READ_BIT (CFGR (regs (sys0 ADC1 0 (hw0 1 0 0)))) ADC_CFGR_JQDIS = 0"
    by (simp add: sim_defs upd_defs reg_macros)
  have c: "READ_BIT (JSQR (regs (sys0 ADC1 0 (hw0 1 0 0)))) ADC_JSQR_JEXTEN = 0"
    by (simp add: sim_defs upd_defs reg_macros)
  have d: "upd_State (\<lambda>x. SET_BIT x HAL_ADC_STATE_ERROR_CONFIG) (sys0 ADC1 0 (hw0 1 0 0))
           = sys0 ADC1 HAL_ADC_STATE_ERROR_CONFIG (hw0 1 0 0)"
    by (simp add: sim_defs upd_defs reg_macros)
  have e: "LL_ADC_INJ_IsConversionOngoing (regs (sys0 ADC1 HAL_ADC_STATE_INJ_BUSY (hw0 9 1 0))) \<noteq> 0"
    by (simp add: sim_defs upd_defs ll_defs reg_macros reg_consts)
  from injected_start_config_error [of "sys0 ADC1 0 (hw0 1 0 0)" sim] a b c
  have "HAL_ADCEx_InjectedStart sim (sys0 ADC1 0 (hw0 1 0 0))
           = (HAL_ERROR, upd_State (\<lambda>x. SET_BIT x HAL_ADC_STATE_ERROR_CONFIG) (sys0 ADC1 0 (hw0 1 0 0)))
       \<and> HAL_ADCEx_InjectedStart_IT sim (sys0 ADC1 0 (hw0 1 0 0))
           = (HAL_ERROR, upd_State (\<lambda>x. SET_BIT x HAL_ADC_STATE_ERROR_CONFIG) (sys0 ADC1 0 (hw0 1 0 0)))"
    by blast
  then have first: "HAL_ADCEx_InjectedStart sim (sys0 ADC1 0 (hw0 1 0 0))
     = (HAL_ERROR, sys0 ADC1 HAL_ADC_STATE_ERROR_CONFIG (hw0 1 0 0))
   \<and> HAL_ADCEx_InjectedStart_IT sim (sys0 ADC1 0 (hw0 1 0 0))
     = (HAL_ERROR, sys0 ADC1 HAL_ADC_STATE_ERROR_CONFIG (hw0 1 0 0))"
    by (simp only: d)
  from injected_start_config_error [of "sys0 ADC1 HAL_ADC_STATE_INJ_BUSY (hw0 9 1 0)" sim] e
  have second: "HAL_ADCEx_InjectedStart sim (sys0 ADC1 HAL_ADC_STATE_INJ_BUSY (hw0 9 1 0))
     = (HAL_BUSY, sys0 ADC1 HAL_ADC_STATE_INJ_BUSY (hw0 9 1 0))
   \<and> HAL_ADCEx_InjectedStart_IT sim (sys0 ADC1 HAL_ADC_STATE_INJ_BUSY (hw0 9 1 0))
     = (HAL_BUSY, sys0 ADC1 HAL_ADC_STATE_INJ_BUSY (hw0 9 1 0))"
    by blast
  from first e second show ?thesis
    by blast
qed

text \<open>
  The claim as stated, without the condition on JADSTART, fails: with an injected
  conversion ongoing, JQDIS clear and JEXTEN zero, the start returns \<open>HAL_BUSY\<close> and
  leaves the state word, and with it the configuration-error bit, as it was.
\<close>

theorem injected_start_busy_counterexample:
  "READ_BIT (CFGR (regs (sys0 ADC1 HAL_ADC_STATE_INJ_BUSY (hw0 9 0 0)))) ADC_CFGR_JQDIS = 0
   \<and> READ_BIT (JSQR (regs (sys0 ADC1 HAL_ADC_STATE_INJ_BUSY (hw0 9 0 0)))) ADC_JSQR_JEXTEN = 0
   \<and> HAL_ADCEx_InjectedStart sim (sys0 ADC1 HAL_ADC_STATE_INJ_BUSY (hw0 9 0 0))
       = (HAL_BUSY, sys0 ADC1 HAL_ADC_STATE_INJ_BUSY (hw0 9 0 0))
   \<and> HAL_ADCEx_InjectedStart_IT sim (sys0 ADC1 HAL_ADC_STATE_INJ_BUSY (hw0 9 0 0))
       = (HAL_BUSY, sys0 ADC1 HAL_ADC_STATE_INJ_BUSY (hw0 9 0 0))
   \<and> State (hadc (sys0 ADC1 HAL_ADC_STATE_INJ_BUSY (hw0 9 0 0))) AND HAL_ADC_STATE_ERROR_CONFIG = 0"
  by (simp add: HAL_ADCEx_InjectedStart_def HAL_ADCEx_InjectedStart_IT_def Let_def sim_defs
      upd_defs ll_defs reg_macros reg_consts state_consts par_consts)

subsection \<open>Calibration factor\<close>

lemma field_roundtrip:
  fixes v c :: u32
  assumes "v \<le> 0x7F" and "k + 7 \<le> 32"
  shows "drop_bit k (((c AND NOT (push_bit k (mask 7))) OR push_bit k v) AND push_bit k (mask 7)) = v"
proof -
  have "v < 2 ^ 7"
    using assms(1) by (simp add: word_le_nat_alt word_less_nat_alt)
  then have tb: "v AND mask 7 = v"
    by (rule less_mask_eq)
  have bv: "n < 7" if "bit v n" for n
  proof -
    from that tb have "bit (v AND mask 7) n" by simp
    then show ?thesis by (simp add: bit_simps)
  qed
  show ?thesis
    using assms(2) by (rule_tac bit_eqI) (auto simp: bit_simps dest: bv)
qed

lemma calfact_get_set:
  assumes "mode = ADC_SINGLE_ENDED \<or> mode = ADC_DIFFERENTIAL_ENDED" and "v \<le> 0x7F"
  shows "LL_ADC_GetCalibrationFactor (LL_ADC_SetCalibrationFactor mode v r) mode = v"
proof -
  from assms(1) show ?thesis
  proof
    assume m: "mode = ADC_SINGLE_ENDED"
    have sh: "calfact_shift mode = 0" and gs: "unat (drop_bit 12 (mode AND 0x10000)) = 0"
      and mk: "mode AND ADC_SINGLEDIFF_CALIB_FACTOR_MASK = push_bit 0 (mask 7)"
      by (simp_all add: m calfact_shift_def ADC_SINGLE_ENDED_def
          ADC_SINGLEDIFF_CALIB_FACTOR_MASK_def mask_eq_exp_minus_1)
    show ?thesis
      unfolding LL_ADC_GetCalibrationFactor_def LL_ADC_SetCalibrationFactor_def
        READ_BIT_def MODIFY_REG_def sh gs mk
      using field_roundtrip [OF assms(2), of 0 "CALFACT r"] by simp
  next
    assume m: "mode = ADC_DIFFERENTIAL_ENDED"
    have sh: "calfact_shift mode = 16" and gs: "unat (drop_bit 12 (mode AND 0x10000)) = 16"
      and mk: "mode AND ADC_SINGLEDIFF_CALIB_FACTOR_MASK = push_bit 16 (mask 7)"
      by (simp_all add: m calfact_shift_def ADC_DIFFERENTIAL_ENDED_def
          ADC_SINGLEDIFF_CALIB_FACTOR_MASK_def mask_eq_exp_minus_1)
    show ?thesis
      unfolding LL_ADC_GetCalibrationFactor_def LL_ADC_SetCalibrationFactor_def
        READ_BIT_def MODIFY_REG_def sh gs mk
      using field_roundtrip [OF assms(2), of 16 "CALFACT r"] by simp
  qed
qed

text \<open>
  Claim C8. On a handle that no other call holds locked, for an input mode (single-ended
  or differential) and a calibration factor \<open>v\<close> in the 7-bit range: when the converter
  is enabled and neither group converts, \<open>HAL_ADCEx_Calibration_SetValue\<close> returns
  \<open>HAL_OK\<close> and \<open>HAL_ADCEx_Calibration_GetValue\<close> of the same mode then returns \<open>v\<close>;
  otherwise (converter disabled or a conversion ongoing) it returns \<open>HAL_ERROR\<close>, sets the
  configuration-error bit of the state, and leaves the register of the calibration
  factors, hence the value read back, unchanged.
\<close>

theorem calibration_factor_roundtrip:
  assumes unlocked: "Lock (hadc s) = HAL_UNLOCKED"
    and mode: "mode = ADC_SINGLE_ENDED \<or> mode = ADC_DIFFERENTIAL_ENDED"
    and range: "v \<le> 0x7F"
  shows "(LL_ADC_IsEnabled (regs s) \<noteq> 0 \<and> LL_ADC_REG_IsConversionOngoing (regs s) = 0
            \<and> LL_ADC_INJ_IsConversionOngoing (regs s) = 0 \<longrightarrow>
          fst (HAL_ADCEx_Calibration_SetValue mode v s) = HAL_OK
          \<and> HAL_ADCEx_Calibration_GetValue (snd (HAL_ADCEx_Calibration_SetValue mode v s)) mode = v)
       \<and> (\<not> (LL_ADC_IsEnabled (regs s) \<noteq> 0 \<and> LL_ADC_REG_IsConversionOngoing (regs s) = 0
               \<and> LL_ADC_INJ_IsConversionOngoing (regs s) = 0) \<longrightarrow>
          fst (HAL_ADCEx_Calibration_SetValue mode v s) = HAL_ERROR
          \<and> State (hadc (snd (HAL_ADCEx_Calibration_SetValue mode v s)))
               AND HAL_ADC_STATE_ERROR_CONFIG \<noteq> 0
          \<and> CALFACT (regs (snd (HAL_ADCEx_Calibration_SetValue mode v s))) = CALFACT (regs s)
          \<and> HAL_ADCEx_Calibration_GetValue (snd (HAL_ADCEx_Calibration_SetValue mode v s)) mode
               = HAL_ADCEx_Calibration_GetValue s mode)"
proof (intro conjI impI)
  assume idle: "LL_ADC_IsEnabled (regs s) \<noteq> 0 \<and> LL_ADC_REG_IsConversionOngoing (regs s) = 0
            \<and> LL_ADC_INJ_IsConversionOngoing (regs s) = 0"
  have eq: "HAL_ADCEx_Calibration_SetValue mode v s
            = (HAL_OK, HAL_UNLOCK (upd_reg (Instance (hadc s))
                 (LL_ADC_SetCalibrationFactor mode v) (HAL_LOCK s)))"
    using unlocked idle by (simp add: HAL_ADCEx_Calibration_SetValue_def Let_def upd_defs)
  show "fst (HAL_ADCEx_Calibration_SetValue mode v s) = HAL_OK"
    by (simp add: eq)
  show "HAL_ADCEx_Calibration_GetValue (snd (HAL_ADCEx_Calibration_SetValue mode v s)) mode = v"
    by (simp add: eq HAL_ADCEx_Calibration_GetValue_def upd_defs calfact_get_set [OF mode range])
next
  assume busy: "\<not> (LL_ADC_IsEnabled (regs s) \<noteq> 0 \<and> LL_ADC_REG_IsConversionOngoing (regs s) = 0
               \<and> LL_ADC_INJ_IsConversionOngoing (regs s) = 0)"
  have eq: "HAL_ADCEx_Calibration_SetValue mode v s
            = (HAL_ERROR, HAL_UNLOCK (upd_ErrorCode (\<lambda>x. SET_BIT x HAL_ADC_ERROR_INTERNAL)
                 (upd_State (\<lambda>x. SET_BIT x HAL_ADC_STATE_ERROR_CONFIG) (HAL_LOCK s))))"
    using unlocked busy by (auto simp: HAL_ADCEx_Calibration_SetValue_def Let_def upd_defs)
  show "fst (HAL_ADCEx_Calibration_SetValue mode v s) = HAL_ERROR"
    by (simp add: eq)
  show "State (hadc (snd (HAL_ADCEx_Calibration_SetValue mode v s)))
               AND HAL_ADC_STATE_ERROR_CONFIG \<noteq> 0"
    by (simp add: eq upd_defs SET_BIT_def HAL_ADC_STATE_ERROR_CONFIG_def)
  show "CALFACT (regs (snd (HAL_ADCEx_Calibration_SetValue mode v s))) = CALFACT (regs s)"
    by (simp add: eq upd_defs)
  show "HAL_ADCEx_Calibration_GetValue (snd (HAL_ADCEx_Calibration_SetValue mode v s)) mode
               = HAL_ADCEx_Calibration_GetValue s mode"
    by (simp add: eq upd_defs HAL_ADCEx_Calibration_GetValue_def)
qed

theorem calibration_factor_roundtrip_witness:
  "HAL_ADCEx_Calibration_GetValue
      (snd (HAL_ADCEx_Calibration_SetValue ADC_DIFFERENTIAL_ENDED 0x55 (sys0 ADC1 1 (hw0 1 0 0))))
      ADC_DIFFERENTIAL_ENDED = 0x55
   \<and> fst (HAL_ADCEx_Calibration_SetValue ADC_DIFFERENTIAL_ENDED 0x55 (sys0 ADC1 1 (hw0 1 0 0)))
       = HAL_OK
   \<and> fst (HAL_ADCEx_Calibration_SetValue ADC_SINGLE_ENDED 0x55 (sys0 ADC1 0x1000 (hw0 9 0 0)))
       = HAL_ERROR
   \<and> HAL_ADCEx_Calibration_GetValue
      (snd (HAL_ADCEx_Calibration_SetValue ADC_SINGLE_ENDED 0x55 (sys0 ADC1 0x1000 (hw0 9 0 0))))
      ADC_SINGLE_ENDED = 0"
proof -
  let ?a = "sys0 ADC1 1 (hw0 1 0 0)" and ?b = "sys0 ADC1 0x1000 (hw0 9 0 0)"
  have ua: "Lock (hadc ?a) = HAL_UNLOCKED" and ub: "Lock (hadc ?b) = HAL_UNLOCKED"
    by (simp_all add: sim_defs)
  have r: "(0x55 :: u32) \<le> 0x7F" by simp
  have idle: "LL_ADC_IsEnabled (regs ?a) \<noteq> 0 \<and> LL_ADC_REG_IsConversionOngoing (regs ?a) = 0
            \<and> LL_ADC_INJ_IsConversionOngoing (regs ?a) = 0"
    by (simp add: sim_defs upd_defs ll_defs reg_macros reg_consts)
  have busy: "\<not> (LL_ADC_IsEnabled (regs ?b) \<noteq> 0 \<and> LL_ADC_REG_IsConversionOngoing (regs ?b) = 0
            \<and> LL_ADC_INJ_IsConversionOngoing (regs ?b) = 0)"
    by (simp add: sim_defs upd_defs ll_defs reg_macros reg_consts)
  have g0: "HAL_ADCEx_Calibration_GetValue ?b ADC_SINGLE_ENDED = 0"
    by (simp add: HAL_ADCEx_Calibration_GetValue_def LL_ADC_GetCalibrationFactor_def sim_defs
        upd_defs reg_macros)
  note A = calibration_factor_roundtrip [OF ua disjI2 [OF refl] r]
  note B = calibration_factor_roundtrip [OF ub disjI1 [OF refl] r]
  from A idle have "fst (HAL_ADCEx_Calibration_SetValue ADC_DIFFERENTIAL_ENDED 0x55 ?a) = HAL_OK
    \<and> HAL_ADCEx_Calibration_GetValue
         (snd (HAL_ADCEx_Calibration_SetValue ADC_DIFFERENTIAL_ENDED 0x55 ?a))
         ADC_DIFFERENTIAL_ENDED = 0x55"
    by blast
  moreover from B busy have "fst (HAL_ADCEx_Calibration_SetValue ADC_SINGLE_ENDED 0x55 ?b) = HAL_ERROR
    \<and> HAL_ADCEx_Calibration_GetValue
         (snd (HAL_ADCEx_Calibration_SetValue ADC_SINGLE_ENDED 0x55 ?b)) ADC_SINGLE_ENDED
       = HAL_ADCEx_Calibration_GetValue ?b ADC_SINGLE_ENDED"
    by blast
  ultimately show ?thesis by (simp add: g0)
qed

subsection \<open>Poll of the injected group\<close>

lemma poll_wait_flag:
  "poll_wait P fuel i flag Timeout tickstart w = Some (True, w') \<Longrightarrow> ISR (ADC w' i) AND flag \<noteq> 0"
  by (induction fuel arbitrary: w) (auto split: if_splits)
lemma and_not_or_right: "((x :: u32) AND NOT (a OR b)) AND b = 0"
  by (rule bit_eqI) (auto simp: bit_simps)

lemma poll_state_update_frame [simp]:
  "hw (poll_state_update c s) = hw s"
  "Instance (hadc (poll_state_update c s)) = Instance (hadc s)"
  by (simp_all add: poll_state_update_def Let_def)

text \<open>
  Claim C9. When \<open>HAL_ADCEx_InjectedPollForConversion\<close> returns \<open>HAL_OK\<close> after polling
  the end-of-sequence flag JEOS (end-of-conversion selection set to sequence), and the
  auto-wait bit AUTDLY is set in the configuration register that the function reads (the
  converter's own, or the master's for a slave in an injected multimode), the function
  writes nothing to the hardware after the loop: JEOS is still raised on return. When
  AUTDLY is clear, JEOS is cleared on return.
\<close>

theorem injected_poll_keeps_JEOS_under_autowait:
  assumes ret: "HAL_ADCEx_InjectedPollForConversion P fuel Timeout s = Some (HAL_OK, s')"
    and seq: "Init_EOCSelection (hadc s) = ADC_EOC_SEQ_CONV"
  shows "(READ_BIT (poll_cfgr (LL_ADC_GetMultimode (hw s)) s') ADC_CFGR_AUTDLY \<noteq> 0 \<longrightarrow>
            poll_wait P fuel (Instance (hadc s)) ADC_FLAG_JEOS Timeout (uwTick (hw s)) (hw s)
              = Some (True, hw s')
            \<and> ISR (regs s') AND ADC_FLAG_JEOS \<noteq> 0)
       \<and> (READ_BIT (poll_cfgr (LL_ADC_GetMultimode (hw s)) s') ADC_CFGR_AUTDLY = 0 \<longrightarrow>
            ISR (regs s') AND ADC_FLAG_JEOS = 0)"
proof -
  let ?mm = "LL_ADC_GetMultimode (hw s)"
  obtain w where pw: "poll_wait P fuel (Instance (hadc s)) ADC_FLAG_JEOS Timeout
                        (uwTick (hw s)) (hw s) = Some (True, w)"
    and s': "s' = poll_clear_flag ADC_FLAG_JEOS (poll_cfgr ?mm (s\<lparr>hw := w\<rparr>))
                    (poll_state_update (poll_cfgr ?mm (s\<lparr>hw := w\<rparr>)) (s\<lparr>hw := w\<rparr>))"
    using ret seq
    by (auto simp: HAL_ADCEx_InjectedPollForConversion_def Let_def
        split: option.splits prod.splits bool.splits)
  have flag: "ISR (ADC w (Instance (hadc s))) AND ADC_FLAG_JEOS \<noteq> 0"
    using pw by (rule poll_wait_flag)
  have inst: "Instance (hadc s') = Instance (hadc s)"
    by (simp add: s' poll_clear_flag_def)
  have cfgr: "CFGR (ADC (hw s') j) = CFGR (ADC w j)" for j
    by (simp add: s' poll_clear_flag_def upd_reg_def HAL_ADC_CLEAR_FLAG_def)
  have cf: "poll_cfgr ?mm s' = poll_cfgr ?mm (s\<lparr>hw := w\<rparr>)"
    by (simp add: poll_cfgr_def Let_def regs_def inst cfgr)
  show ?thesis
  proof (intro conjI impI)
    assume "READ_BIT (poll_cfgr ?mm s') ADC_CFGR_AUTDLY \<noteq> 0"
    then have a: "READ_BIT (poll_cfgr ?mm (s\<lparr>hw := w\<rparr>)) ADC_CFGR_AUTDLY \<noteq> 0"
      by (simp add: cf)
    have h: "hw s' = w"
      using a by (simp add: s' poll_clear_flag_def)
    show "poll_wait P fuel (Instance (hadc s)) ADC_FLAG_JEOS Timeout (uwTick (hw s)) (hw s)
              = Some (True, hw s')"
      by (simp add: pw h)
    show "ISR (regs s') AND ADC_FLAG_JEOS \<noteq> 0"
      using flag by (simp add: regs_def h inst)
  next
    assume "READ_BIT (poll_cfgr ?mm s') ADC_CFGR_AUTDLY = 0"
    then have a: "READ_BIT (poll_cfgr ?mm (s\<lparr>hw := w\<rparr>)) ADC_CFGR_AUTDLY = 0"
      by (simp add: cf)
    have "ISR (regs s') = ISR (ADC w (Instance (hadc s))) AND NOT (ADC_FLAG_JEOC OR ADC_FLAG_JEOS)"
      using a by (simp add: s' poll_clear_flag_def regs_def upd_reg_def HAL_ADC_CLEAR_FLAG_def)
    then show "ISR (regs s') AND ADC_FLAG_JEOS = 0"
      by (simp only: and_not_or_right)
  qed
qed
theorem injected_poll_keeps_JEOS_under_autowait_witness:
  "fst (the (HAL_ADCEx_InjectedPollForConversion sim 1 10 (sys0 ADC1 0x1000 (poll_hw 0x4000))))
     = HAL_OK
   \<and> ISR (regs (snd (the (HAL_ADCEx_InjectedPollForConversion sim 1 10
                             (sys0 ADC1 0x1000 (poll_hw 0x4000)))))) AND ADC_FLAG_JEOS \<noteq> 0
   \<and> fst (the (HAL_ADCEx_InjectedPollForConversion sim 1 10 (sys0 ADC1 0x1000 (poll_hw 0))))
     = HAL_OK
   \<and> ISR (regs (snd (the (HAL_ADCEx_InjectedPollForConversion sim 1 10
                             (sys0 ADC1 0x1000 (poll_hw 0)))))) AND ADC_FLAG_JEOS = 0"
proof -
  let ?a = "sys0 ADC1 0x1000 (poll_hw 0x4000)" and ?b = "sys0 ADC1 0x1000 (poll_hw 0)"
  let ?ra = "HAL_ADCEx_InjectedPollForConversion sim 1 10 ?a"
  let ?rb = "HAL_ADCEx_InjectedPollForConversion sim 1 10 ?b"
  have sa: "Init_EOCSelection (hadc ?a) = ADC_EOC_SEQ_CONV"
    and sb: "Init_EOCSelection (hadc ?b) = ADC_EOC_SEQ_CONV"
    by (simp_all add: sim_defs)
  have ea: "?ra = Some (HAL_OK, snd (the ?ra))"
    by (simp add: HAL_ADCEx_InjectedPollForConversion_def Let_def poll_hw_def poll_cfgr_def
        poll_state_update_def poll_clear_flag_def sim_defs upd_defs ll_defs reg_macros reg_consts state_consts par_consts)
  have eb: "?rb = Some (HAL_OK, snd (the ?rb))"
    by (simp add: HAL_ADCEx_InjectedPollForConversion_def Let_def poll_hw_def poll_cfgr_def
        poll_state_update_def poll_clear_flag_def sim_defs upd_defs ll_defs reg_macros reg_consts state_consts par_consts)
  have ca: "READ_BIT (poll_cfgr (LL_ADC_GetMultimode (hw ?a)) (snd (the ?ra))) ADC_CFGR_AUTDLY \<noteq> 0"
    by (simp add: HAL_ADCEx_InjectedPollForConversion_def Let_def poll_hw_def poll_cfgr_def
        poll_state_update_def poll_clear_flag_def sim_defs upd_defs ll_defs reg_macros reg_consts state_consts par_consts)
  have cb: "READ_BIT (poll_cfgr (LL_ADC_GetMultimode (hw ?b)) (snd (the ?rb))) ADC_CFGR_AUTDLY = 0"
    by (simp add: HAL_ADCEx_InjectedPollForConversion_def Let_def poll_hw_def poll_cfgr_def
        poll_state_update_def poll_clear_flag_def sim_defs upd_defs ll_defs reg_macros reg_consts state_consts par_consts)
  from injected_poll_keeps_JEOS_under_autowait [OF ea sa] ca
  have A: "ISR (regs (snd (the ?ra))) AND ADC_FLAG_JEOS \<noteq> 0" by blast
  from injected_poll_keeps_JEOS_under_autowait [OF eb sb] cb
  have B: "ISR (regs (snd (the ?rb))) AND ADC_FLAG_JEOS = 0" by blast
  have fa: "fst (the ?ra) = HAL_OK" using ea by (metis fst_conv option.sel)
  have fb: "fst (the ?rb) = HAL_OK" using eb by (metis fst_conv option.sel)
  show ?thesis using A B fa fb by blast
qed

subsection \<open>Calibration timeout\<close>

lemma unat_succ_below_timeout:
  fixes idx :: u32
  assumes "unat idx < unat ADC_CALIBRATION_TIMEOUT"
  shows "unat (idx + 1) = unat idx + 1"
proof -
  have "unat idx + unat (1 :: u32) < 2 ^ LENGTH(32)"
    using assms by (simp add: ADC_CALIBRATION_TIMEOUT_def)
  then have "unat (idx + 1) = unat idx + unat (1 :: u32)"
    by (simp only: unat_add_lem)
  then show ?thesis by simp
qed

lemma calibration_wait_timeout:
  assumes "unat idx + n = unat ADC_CALIBRATION_TIMEOUT" and "0 < n"
    and "\<forall>k < n. LL_ADC_IsCalibrationOnGoing (ADC ((hw_step P ^^ k) w) i) \<noteq> 0"
  shows "calibration_wait P i idx w = (False, (hw_step P ^^ (n - 1)) w)"
  using assms
proof (induction n arbitrary: idx w)
  case 0
  then show ?case by simp
next
  case (Suc n)
  have on: "LL_ADC_IsCalibrationOnGoing (ADC w i) \<noteq> 0"
    using Suc.prems(3) by (metis funpow_0 zero_less_Suc)
  have lt: "unat idx < unat ADC_CALIBRATION_TIMEOUT"
    using Suc.prems(1) by simp
  have su: "unat (idx + 1) = unat idx + 1"
    using lt by (rule unat_succ_below_timeout)
  show ?case
  proof (cases n)
    case 0
    then have "ADC_CALIBRATION_TIMEOUT \<le> idx + 1"
      using Suc.prems(1) su by (simp add: word_le_nat_alt)
    then show ?thesis using on 0 by (subst calibration_wait.simps) simp
  next
    case (Suc m)
    then have nle: "\<not> ADC_CALIBRATION_TIMEOUT \<le> idx + 1"
      using Suc.prems(1) su by (simp add: word_le_nat_alt)
    have st: "\<forall>k < n. LL_ADC_IsCalibrationOnGoing (ADC ((hw_step P ^^ k) (hw_step P w)) i) \<noteq> 0"
    proof (intro allI impI)
      fix k assume "k < n"
      then have "LL_ADC_IsCalibrationOnGoing (ADC ((hw_step P ^^ Suc k) w) i) \<noteq> 0"
        using Suc.prems(3) by (metis Suc_less_eq)
      then show "LL_ADC_IsCalibrationOnGoing (ADC ((hw_step P ^^ k) (hw_step P w)) i) \<noteq> 0"
        by (simp add: funpow_swap1)
    qed
    have "calibration_wait P i (idx + 1) (hw_step P w) = (False, (hw_step P ^^ (n - 1)) (hw_step P w))"
      using Suc.IH [of "idx + 1" "hw_step P w"] Suc.prems(1) su st Suc by simp
    then show ?thesis
      using on nle Suc by (subst calibration_wait.simps) (simp add: funpow_swap1)
  qed
qed

lemma calibration_start_on_timeout:
  assumes unlocked: "Lock (hadc s) = HAL_UNLOCKED"
    and disabled: "call_ADC_Disable P (HAL_LOCK s) = (HAL_OK, s1)"
    and stuck: "\<forall>k < unat ADC_CALIBRATION_TIMEOUT.
                  LL_ADC_IsCalibrationOnGoing
                    (ADC ((hw_step P ^^ k) (hw (calibration_armed SingleDiff s1)))
                       (Instance (hadc s1))) \<noteq> 0"
  shows "HAL_ADCEx_Calibration_Start P SingleDiff s
           = (HAL_ERROR,
              HAL_UNLOCK (upd_State (\<lambda>x. ADC_STATE_CLR_SET x
                 HAL_ADC_STATE_BUSY_INTERNAL HAL_ADC_STATE_ERROR_INTERNAL)
                 ((calibration_armed SingleDiff s1)
                    \<lparr>hw := (hw_step P ^^ (unat ADC_CALIBRATION_TIMEOUT - 1))
                              (hw (calibration_armed SingleDiff s1))\<rparr>)))"
proof -
  let ?s3 = "calibration_armed SingleDiff s1"
  have inst: "Instance (hadc ?s3) = Instance (hadc s1)"
    by (simp add: calibration_armed_def Let_def)
  have pos: "0 < unat ADC_CALIBRATION_TIMEOUT"
    by (simp add: ADC_CALIBRATION_TIMEOUT_def)
  have st: "\<forall>k < unat ADC_CALIBRATION_TIMEOUT.
              LL_ADC_IsCalibrationOnGoing
                (ADC ((hw_step P ^^ k) (hw ?s3)) (Instance (hadc ?s3))) \<noteq> 0"
    using stuck by (simp add: inst)
  have z: "unat (0 :: u32) + unat ADC_CALIBRATION_TIMEOUT = unat ADC_CALIBRATION_TIMEOUT"
    by simp
  have w: "calibration_wait P (Instance (hadc ?s3)) 0 (hw ?s3)
           = (False, (hw_step P ^^ (unat ADC_CALIBRATION_TIMEOUT - 1)) (hw ?s3))"
    by (rule calibration_wait_timeout [OF z pos st])
  show ?thesis
    using unlocked disabled w
    by (simp add: HAL_ADCEx_Calibration_Start_def Let_def)
qed
lemma sim_hw_step_eq: "hw_step sim = sim_hw_step"
  by (simp add: sim_def)

lemma sim_frozen:
  "internal w \<noteq> 0 \<Longrightarrow> (sim_hw_step ^^ k) w = w\<lparr>uwTick := uwTick w + of_nat k\<rparr>"
  by (induction k) (simp_all add: sim_hw_step_def)
lemma sim_frozen_ADC: "internal w \<noteq> 0 \<Longrightarrow> ADC ((hw_step sim ^^ k) w) = ADC w"
  by (simp add: sim_hw_step_eq sim_frozen)

text \<open>
  Claim C2 (amended). On a handle that no other call holds locked, when \<open>ADC_Disable\<close>
  has succeeded and the calibration bit still reads set at each of the
  \<open>ADC_CALIBRATION_TIMEOUT\<close> polls of the loop, \<open>HAL_ADCEx_Calibration_Start\<close> returns
  \<open>HAL_ERROR\<close> (so never \<open>HAL_OK\<close>), with the internal-error bit of the state set, the
  calibration-busy bit clear, and the lock released.
\<close>

theorem calibration_timeout_is_error:
  assumes unlocked: "Lock (hadc s) = HAL_UNLOCKED"
    and disabled: "call_ADC_Disable P (HAL_LOCK s) = (HAL_OK, s1)"
    and stuck: "\<forall>k < unat ADC_CALIBRATION_TIMEOUT.
                  LL_ADC_IsCalibrationOnGoing
                    (ADC ((hw_step P ^^ k) (hw (calibration_armed SingleDiff s1)))
                       (Instance (hadc s1))) \<noteq> 0"
  shows "fst (HAL_ADCEx_Calibration_Start P SingleDiff s) = HAL_ERROR
       \<and> State (hadc (snd (HAL_ADCEx_Calibration_Start P SingleDiff s)))
            AND HAL_ADC_STATE_ERROR_INTERNAL \<noteq> 0
       \<and> State (hadc (snd (HAL_ADCEx_Calibration_Start P SingleDiff s)))
            AND HAL_ADC_STATE_BUSY_INTERNAL = 0
       \<and> Lock (hadc (snd (HAL_ADCEx_Calibration_Start P SingleDiff s))) = HAL_UNLOCKED"
proof -
  note eq = calibration_start_on_timeout [OF unlocked disabled stuck]
  have st: "State (hadc (snd (HAL_ADCEx_Calibration_Start P SingleDiff s)))
            = ADC_STATE_CLR_SET
                (ADC_STATE_CLR_SET (State (hadc s1))
                   (HAL_ADC_STATE_REG_BUSY OR HAL_ADC_STATE_INJ_BUSY) HAL_ADC_STATE_BUSY_INTERNAL)
                HAL_ADC_STATE_BUSY_INTERNAL HAL_ADC_STATE_ERROR_INTERNAL"
    by (simp add: eq calibration_armed_def Let_def upd_defs)
  have a: "HAL_ADC_STATE_ERROR_INTERNAL AND HAL_ADC_STATE_BUSY_INTERNAL = 0"
    and b: "HAL_ADC_STATE_ERROR_INTERNAL \<noteq> 0"
    by (simp_all add: state_consts)
  have e: "State (hadc (snd (HAL_ADCEx_Calibration_Start P SingleDiff s)))
            AND HAL_ADC_STATE_ERROR_INTERNAL = HAL_ADC_STATE_ERROR_INTERNAL"
    unfolding st by (rule clr_set_sets)
  show ?thesis
    using e b by (simp add: eq) (simp add: st clr_set_clears a)
qed
theorem calibration_timeout_is_error_witness:
  "fst (HAL_ADCEx_Calibration_Start sim ADC_SINGLE_ENDED (sys0 ADC1 1 (hw0 0 0 (Suc 0)))) = HAL_ERROR
   \<and> State (hadc (snd (HAL_ADCEx_Calibration_Start sim ADC_SINGLE_ENDED (sys0 ADC1 1 (hw0 0 0 (Suc 0))))))
        AND HAL_ADC_STATE_ERROR_INTERNAL \<noteq> 0
   \<and> Lock (hadc (snd (HAL_ADCEx_Calibration_Start sim ADC_SINGLE_ENDED (sys0 ADC1 1 (hw0 0 0 (Suc 0))))))
        = HAL_UNLOCKED"
proof -
  let ?s = "sys0 ADC1 1 (hw0 0 0 (Suc 0))"
  let ?s1 = "snd (call_ADC_Disable sim (HAL_LOCK ?s))"
  have u: "Lock (hadc ?s) = HAL_UNLOCKED"
    by (simp add: sim_defs)
  have d: "call_ADC_Disable sim (HAL_LOCK ?s) = (HAL_OK, ?s1)"
    by (simp add: call_defs sim_defs upd_defs reg_macros reg_consts)
  have i: "internal (hw (calibration_armed ADC_SINGLE_ENDED ?s1)) \<noteq> 0"
    and c: "LL_ADC_IsCalibrationOnGoing
              (ADC (hw (calibration_armed ADC_SINGLE_ENDED ?s1)) (Instance (hadc ?s1))) \<noteq> 0"
    by (simp_all add: calibration_armed_def Let_def call_defs sim_defs upd_defs ll_defs
        reg_macros reg_consts par_consts)
  have "LL_ADC_IsCalibrationOnGoing
          (ADC ((hw_step sim ^^ k) (hw (calibration_armed ADC_SINGLE_ENDED ?s1)))
             (Instance (hadc ?s1))) \<noteq> 0" for k
    unfolding sim_frozen_ADC [OF i] by (rule c)
  then have stuck: "\<forall>k < unat ADC_CALIBRATION_TIMEOUT.
                  LL_ADC_IsCalibrationOnGoing
                    (ADC ((hw_step sim ^^ k) (hw (calibration_armed ADC_SINGLE_ENDED ?s1)))
                       (Instance (hadc ?s1))) \<noteq> 0"
    by blast
  from calibration_timeout_is_error [OF u d stuck] show ?thesis by blast
qed

text \<open>
  The claim as stated asks for a Timeout result. On hardware that accepts the commands
  and never ends the calibration, the status returned is \<open>HAL_ERROR\<close>, which is not
  \<open>HAL_TIMEOUT\<close>.
\<close>

theorem calibration_timeout_not_HAL_TIMEOUT_counterexample:
  "\<not> (\<exists>k < unat ADC_CALIBRATION_TIMEOUT.
      LL_ADC_IsCalibrationOnGoing
        (ADC ((hw_step sim ^^ k)
               (hw (calibration_armed ADC_SINGLE_ENDED
                      (snd (call_ADC_Disable sim (HAL_LOCK (sys0 ADC1 1 (hw0 0 0 (Suc 0)))))))))
           ADC1) = 0)
   \<and> fst (HAL_ADCEx_Calibration_Start sim ADC_SINGLE_ENDED (sys0 ADC1 1 (hw0 0 0 (Suc 0)))) = HAL_ERROR
   \<and> fst (HAL_ADCEx_Calibration_Start sim ADC_SINGLE_ENDED (sys0 ADC1 1 (hw0 0 0 (Suc 0)))) \<noteq> HAL_TIMEOUT"
proof -
  let ?s = "sys0 ADC1 1 (hw0 0 0 (Suc 0))"
  let ?s1 = "snd (call_ADC_Disable sim (HAL_LOCK ?s))"
  have u: "Lock (hadc ?s) = HAL_UNLOCKED"
    by (simp add: sim_defs)
  have d: "call_ADC_Disable sim (HAL_LOCK ?s) = (HAL_OK, ?s1)"
    by (simp add: call_defs sim_defs upd_defs reg_macros reg_consts)
  have i: "internal (hw (calibration_armed ADC_SINGLE_ENDED ?s1)) \<noteq> 0"
    and c: "LL_ADC_IsCalibrationOnGoing
              (ADC (hw (calibration_armed ADC_SINGLE_ENDED ?s1)) ADC1) \<noteq> 0"
    and n: "Instance (hadc ?s1) = ADC1"
    by (simp_all add: calibration_armed_def Let_def call_defs sim_defs upd_defs ll_defs
        reg_macros reg_consts par_consts)
  have "LL_ADC_IsCalibrationOnGoing
          (ADC ((hw_step sim ^^ k) (hw (calibration_armed ADC_SINGLE_ENDED ?s1))) ADC1) \<noteq> 0" for k
    unfolding sim_frozen_ADC [OF i] by (rule c)
  then have stuck: "\<forall>k < unat ADC_CALIBRATION_TIMEOUT.
                  LL_ADC_IsCalibrationOnGoing
                    (ADC ((hw_step sim ^^ k) (hw (calibration_armed ADC_SINGLE_ENDED ?s1)))
                       ADC1) \<noteq> 0"
    by blast
  then have stuck': "\<forall>k < unat ADC_CALIBRATION_TIMEOUT.
                  LL_ADC_IsCalibrationOnGoing
                    (ADC ((hw_step sim ^^ k) (hw (calibration_armed ADC_SINGLE_ENDED ?s1)))
                       (Instance (hadc ?s1))) \<noteq> 0"
    by (simp only: n)
  have "fst (HAL_ADCEx_Calibration_Start sim ADC_SINGLE_ENDED ?s) = HAL_ERROR"
    by (simp add: calibration_start_on_timeout [OF u d stuck'])
  with stuck show ?thesis by auto
qed

subsection \<open>Configuration of multimode\<close>

lemma modify_reg_field: "v AND NOT m = 0 \<Longrightarrow> MODIFY_REG x m v AND m = v"
  unfolding reg_macros by (rule bit_eqI) (auto simp: bit_simps bit_eq_iff)

lemma modify_reg_frame: "v AND k = 0 \<Longrightarrow> m AND k = 0 \<Longrightarrow> MODIFY_REG x m v AND k = x AND k"
  unfolding reg_macros by (rule bit_eqI) (auto simp: bit_simps bit_eq_iff)

lemma in_field_disjoint: "v AND NOT m = 0 \<Longrightarrow> m AND k = 0 \<Longrightarrow> v AND k = (0 :: u32)"
  by (rule bit_eqI) (auto simp: bit_simps bit_eq_iff)

lemma or_in_field: "a AND NOT m = 0 \<Longrightarrow> b AND NOT n = 0 \<Longrightarrow> (a OR b) AND NOT (m OR n) = (0 :: u32)"
  by (rule bit_eqI) (auto simp: bit_simps bit_eq_iff)

lemma dmacontreq_in_field:
  assumes "d = DISABLE \<or> d = ENABLE"
  shows "ADC_CCR_MULTI_DMACONTREQ d AND NOT ADC_CCR_DMACFG = 0"
  using assms by (auto simp: ADC_CCR_MULTI_DMACONTREQ_def ADC_CCR_DMACFG_def DISABLE_def ENABLE_def)
lemma multimode_config_converting:
  assumes "Lock (hadc s) = HAL_UNLOCKED" and "Instance (hadc s) = ADC1"
    and "LL_ADC_REG_IsConversionOngoing (ADC (hw s) ADC1) \<noteq> 0
         \<or> LL_ADC_REG_IsConversionOngoing (ADC (hw s) ADC2) \<noteq> 0"
  shows "HAL_ADCEx_MultiModeConfigChannel m s
         = (HAL_ERROR, HAL_UNLOCK (upd_State (\<lambda>x. SET_BIT x HAL_ADC_STATE_ERROR_CONFIG) (HAL_LOCK s)))"
  using assms
  by (auto simp: HAL_ADCEx_MultiModeConfigChannel_def Let_def ADC_MULTI_SLAVE_def regs_def)

lemma multimode_config_idle:
  assumes "Lock (hadc s) = HAL_UNLOCKED" and "Instance (hadc s) = ADC1"
    and "LL_ADC_REG_IsConversionOngoing (ADC (hw s) ADC1) = 0"
    and "LL_ADC_REG_IsConversionOngoing (ADC (hw s) ADC2) = 0"
  shows "HAL_ADCEx_MultiModeConfigChannel m s
         = (HAL_OK,
            HAL_UNLOCK
              ((if LL_ADC_IS_ENABLED_ALL_COMMON_INSTANCE (hw s) = 0
                then upd_CCR (\<lambda>x. MODIFY_REG x (ADC_CCR_DUAL OR ADC_CCR_DELAY) (mode_fields_requested m))
                else (\<lambda>x. x))
                 (upd_CCR (\<lambda>x. MODIFY_REG x (ADC_CCR_MDMA OR ADC_CCR_DMACFG)
                                  (dma_fields_requested m (hadc s))) (HAL_LOCK s))))"
  using assms
  by (auto simp: HAL_ADCEx_MultiModeConfigChannel_def Let_def ADC_MULTI_SLAVE_def regs_def
      mode_fields_requested_def dma_fields_requested_def reg_macros
      LL_ADC_IS_ENABLED_ALL_COMMON_INSTANCE_def upd_defs)

text \<open>
  Claim C6 (amended). For \<open>HAL_ADCEx_MultiModeConfigChannel\<close> on the master handle, not
  locked by another call, with valid parameters: if a regular conversion is ongoing on
  either converter, the call returns \<open>HAL_ERROR\<close>, sets the configuration-error bit and
  writes nothing to the hardware; otherwise it returns \<open>HAL_OK\<close> and the DMA fields
  (MDMA, DMACFG) of the common control register hold the requested value; the mode and
  delay fields (DUAL, DELAY) hold the requested value if both converters are disabled, and
  are left as they were if one of them is enabled. The lock is released in every case.
\<close>

theorem multimode_config_field_guards:
  assumes unlocked: "Lock (hadc s) = HAL_UNLOCKED"
    and master: "Instance (hadc s) = ADC1"
    and valid: "multimode_params_valid m (hadc s)"
    and result: "HAL_ADCEx_MultiModeConfigChannel m s = (st, s')"
  shows "(LL_ADC_REG_IsConversionOngoing (ADC (hw s) ADC1) \<noteq> 0
          \<or> LL_ADC_REG_IsConversionOngoing (ADC (hw s) ADC2) \<noteq> 0 \<longrightarrow>
            st = HAL_ERROR \<and> State (hadc s') AND HAL_ADC_STATE_ERROR_CONFIG \<noteq> 0
            \<and> hw s' = hw s)
       \<and> (LL_ADC_REG_IsConversionOngoing (ADC (hw s) ADC1) = 0
          \<and> LL_ADC_REG_IsConversionOngoing (ADC (hw s) ADC2) = 0 \<longrightarrow>
            st = HAL_OK
            \<and> CCR (hw s') AND (ADC_CCR_MDMA OR ADC_CCR_DMACFG) = dma_fields_requested m (hadc s)
            \<and> (LL_ADC_IS_ENABLED_ALL_COMMON_INSTANCE (hw s) = 0 \<longrightarrow>
                  CCR (hw s') AND (ADC_CCR_DUAL OR ADC_CCR_DELAY) = mode_fields_requested m)
            \<and> (LL_ADC_IS_ENABLED_ALL_COMMON_INSTANCE (hw s) \<noteq> 0 \<longrightarrow>
                  CCR (hw s') AND (ADC_CCR_DUAL OR ADC_CCR_DELAY)
                    = CCR (hw s) AND (ADC_CCR_DUAL OR ADC_CCR_DELAY)))
       \<and> Lock (hadc s') = HAL_UNLOCKED"
proof -
  let ?F = "ADC_CCR_MDMA OR ADC_CCR_DMACFG" and ?G = "ADC_CCR_DUAL OR ADC_CCR_DELAY"
  let ?d = "dma_fields_requested m (hadc s)" and ?r = "mode_fields_requested m"
  have FG: "?F AND ?G = 0" and GF: "?G AND ?F = 0"
    by (simp_all add: reg_consts)
  have v1: "Mode m AND NOT ADC_CCR_DUAL = 0" and v2: "TwoSamplingDelay m AND NOT ADC_CCR_DELAY = 0"
    and v3: "DMAAccessMode m AND NOT ADC_CCR_MDMA = 0"
    and v4: "Init_DMAContinuousRequests (hadc s) = DISABLE
             \<or> Init_DMAContinuousRequests (hadc s) = ENABLE"
    using valid by (simp_all add: multimode_params_valid_def)
  have dF: "?d AND NOT ?F = 0"
  proof (cases "Mode m = ADC_MODE_INDEPENDENT")
    case True
    then show ?thesis by (simp add: dma_fields_requested_def)
  next
    case False
    then have "?d = DMAAccessMode m OR ADC_CCR_MULTI_DMACONTREQ (Init_DMAContinuousRequests (hadc s))"
      by (simp add: dma_fields_requested_def)
    then show ?thesis
      using or_in_field [OF v3 dmacontreq_in_field [OF v4]] by (simp only:)
  qed
  have rG: "?r AND NOT ?G = 0"
  proof (cases "Mode m = ADC_MODE_INDEPENDENT")
    case True
    then show ?thesis by (simp add: mode_fields_requested_def)
  next
    case False
    then have "?r = Mode m OR TwoSamplingDelay m"
      by (simp add: mode_fields_requested_def)
    then show ?thesis
      using or_in_field [OF v1 v2] by (simp only:)
  qed
  have dG: "?d AND ?G = 0" by (rule in_field_disjoint [OF dF FG])
  have rF: "?r AND ?F = 0" by (rule in_field_disjoint [OF rG GF])
  show ?thesis
  proof (intro conjI impI)
    assume on: "LL_ADC_REG_IsConversionOngoing (ADC (hw s) ADC1) \<noteq> 0
                \<or> LL_ADC_REG_IsConversionOngoing (ADC (hw s) ADC2) \<noteq> 0"
    note eq = multimode_config_converting [OF unlocked master on, of m]
    from result eq show "st = HAL_ERROR" by simp
    from result eq show "State (hadc s') AND HAL_ADC_STATE_ERROR_CONFIG \<noteq> 0"
      by (auto simp: SET_BIT_def HAL_ADC_STATE_ERROR_CONFIG_def)
    from result eq show "hw s' = hw s" by auto
  next
    assume idle: "LL_ADC_REG_IsConversionOngoing (ADC (hw s) ADC1) = 0
                  \<and> LL_ADC_REG_IsConversionOngoing (ADC (hw s) ADC2) = 0"
    note eq = multimode_config_idle [OF unlocked master conjunct1 [OF idle] conjunct2 [OF idle], of m]
    from result eq show "st = HAL_OK" by simp
    have ccr: "CCR (hw s')
               = (if LL_ADC_IS_ENABLED_ALL_COMMON_INSTANCE (hw s) = 0
                  then MODIFY_REG (MODIFY_REG (CCR (hw s)) ?F ?d) ?G ?r
                  else MODIFY_REG (CCR (hw s)) ?F ?d)"
      using result eq by (auto simp: upd_defs)
    show "CCR (hw s') AND ?F = ?d"
      by (simp add: ccr modify_reg_frame [OF rF GF] modify_reg_field [OF dF])
    {
      assume "LL_ADC_IS_ENABLED_ALL_COMMON_INSTANCE (hw s) = 0"
      then show "CCR (hw s') AND ?G = ?r"
        by (simp add: ccr modify_reg_field [OF rG])
    }
    {
      assume "LL_ADC_IS_ENABLED_ALL_COMMON_INSTANCE (hw s) \<noteq> 0"
      then show "CCR (hw s') AND ?G = CCR (hw s) AND ?G"
        by (simp add: ccr modify_reg_frame [OF dG FG])
    }
  next
    show "Lock (hadc s') = HAL_UNLOCKED"
    proof (cases "LL_ADC_REG_IsConversionOngoing (ADC (hw s) ADC1) = 0
                  \<and> LL_ADC_REG_IsConversionOngoing (ADC (hw s) ADC2) = 0")
      case True
      from result multimode_config_idle [OF unlocked master conjunct1 [OF True] conjunct2 [OF True], of m]
      show ?thesis by (auto simp: upd_defs)
    next
      case False
      then have "LL_ADC_REG_IsConversionOngoing (ADC (hw s) ADC1) \<noteq> 0
                \<or> LL_ADC_REG_IsConversionOngoing (ADC (hw s) ADC2) \<noteq> 0" by blast
      from result multimode_config_converting [OF unlocked master this, of m]
      show ?thesis by auto
    qed
  qed
qed
theorem multimode_config_field_guards_witness:
  "fst (HAL_ADCEx_MultiModeConfigChannel dual_cfg (sys0 ADC1 1 (hw0 4 0 0))) = HAL_ERROR
   \<and> hw (snd (HAL_ADCEx_MultiModeConfigChannel dual_cfg (sys0 ADC1 1 (hw0 4 0 0)))) = hw0 4 0 0
   \<and> fst (HAL_ADCEx_MultiModeConfigChannel dual_cfg (sys0 ADC1 1 (hw0 0 0 0))) = HAL_OK
   \<and> CCR (hw (snd (HAL_ADCEx_MultiModeConfigChannel dual_cfg (sys0 ADC1 1 (hw0 0 0 0)))))
        AND (ADC_CCR_MDMA OR ADC_CCR_DMACFG) = 0x8000
   \<and> CCR (hw (snd (HAL_ADCEx_MultiModeConfigChannel dual_cfg (sys0 ADC1 1 (hw0 0 0 0)))))
        AND (ADC_CCR_DUAL OR ADC_CCR_DELAY) = 0x106
   \<and> fst (HAL_ADCEx_MultiModeConfigChannel dual_cfg (sys0 ADC1 1 (hw0 1 0 0))) = HAL_OK
   \<and> CCR (hw (snd (HAL_ADCEx_MultiModeConfigChannel dual_cfg (sys0 ADC1 1 (hw0 1 0 0)))))
        AND (ADC_CCR_DUAL OR ADC_CCR_DELAY) = 0"
proof -
  let ?a = "sys0 ADC1 1 (hw0 4 0 0)" and ?b = "sys0 ADC1 1 (hw0 0 0 0)"
    and ?c = "sys0 ADC1 1 (hw0 1 0 0)"
  have u: "Lock (hadc ?a) = HAL_UNLOCKED" "Lock (hadc ?b) = HAL_UNLOCKED"
    "Lock (hadc ?c) = HAL_UNLOCKED"
    and i: "Instance (hadc ?a) = ADC1" "Instance (hadc ?b) = ADC1" "Instance (hadc ?c) = ADC1"
    by (simp_all add: sim_defs)
  have v: "multimode_params_valid dual_cfg (hadc ?a)" "multimode_params_valid dual_cfg (hadc ?b)"
    "multimode_params_valid dual_cfg (hadc ?c)"
    by (simp_all add: multimode_params_valid_def dual_cfg_def sim_defs reg_consts par_consts)
  have r: "HAL_ADCEx_MultiModeConfigChannel dual_cfg x
           = (fst (HAL_ADCEx_MultiModeConfigChannel dual_cfg x),
              snd (HAL_ADCEx_MultiModeConfigChannel dual_cfg x))" for x
    by simp
  have on: "LL_ADC_REG_IsConversionOngoing (ADC (hw ?a) ADC1) \<noteq> 0
            \<or> LL_ADC_REG_IsConversionOngoing (ADC (hw ?a) ADC2) \<noteq> 0"
    by (simp add: sim_defs ll_defs reg_macros reg_consts)
  have idle_b: "LL_ADC_REG_IsConversionOngoing (ADC (hw ?b) ADC1) = 0
                \<and> LL_ADC_REG_IsConversionOngoing (ADC (hw ?b) ADC2) = 0"
    and dis_b: "LL_ADC_IS_ENABLED_ALL_COMMON_INSTANCE (hw ?b) = 0"
    and idle_c: "LL_ADC_REG_IsConversionOngoing (ADC (hw ?c) ADC1) = 0
                \<and> LL_ADC_REG_IsConversionOngoing (ADC (hw ?c) ADC2) = 0"
    and en_c: "LL_ADC_IS_ENABLED_ALL_COMMON_INSTANCE (hw ?c) \<noteq> 0"
    by (simp_all add: sim_defs ll_defs reg_macros reg_consts)
  have vals: "dma_fields_requested dual_cfg (hadc ?b) = 0x8000"
    "mode_fields_requested dual_cfg = 0x106"
    "CCR (hw ?c) AND (ADC_CCR_DUAL OR ADC_CCR_DELAY) = 0" "hw ?a = hw0 4 0 0"
    by (simp_all add: dma_fields_requested_def mode_fields_requested_def dual_cfg_def sim_defs
        par_consts ADC_CCR_MULTI_DMACONTREQ_def)
  from multimode_config_field_guards [OF u(1) i(1) v(1) r] on
  have A: "fst (HAL_ADCEx_MultiModeConfigChannel dual_cfg ?a) = HAL_ERROR"
    "hw (snd (HAL_ADCEx_MultiModeConfigChannel dual_cfg ?a)) = hw ?a"
    by blast+
  from multimode_config_field_guards [OF u(2) i(2) v(2) r] idle_b dis_b
  have B: "fst (HAL_ADCEx_MultiModeConfigChannel dual_cfg ?b) = HAL_OK"
    "CCR (hw (snd (HAL_ADCEx_MultiModeConfigChannel dual_cfg ?b)))
       AND (ADC_CCR_MDMA OR ADC_CCR_DMACFG) = dma_fields_requested dual_cfg (hadc ?b)"
    "CCR (hw (snd (HAL_ADCEx_MultiModeConfigChannel dual_cfg ?b)))
       AND (ADC_CCR_DUAL OR ADC_CCR_DELAY) = mode_fields_requested dual_cfg"
    by blast+
  from multimode_config_field_guards [OF u(3) i(3) v(3) r] idle_c en_c
  have C: "fst (HAL_ADCEx_MultiModeConfigChannel dual_cfg ?c) = HAL_OK"
    "CCR (hw (snd (HAL_ADCEx_MultiModeConfigChannel dual_cfg ?c)))
       AND (ADC_CCR_DUAL OR ADC_CCR_DELAY) = CCR (hw ?c) AND (ADC_CCR_DUAL OR ADC_CCR_DELAY)"
    by blast+
  show ?thesis
    using A B C by (simp only: vals)
qed

text \<open>
  The claim as stated has every violation rejected as a whole. With the master enabled
  and no conversion ongoing, a dual-mode request violates the constraint of the mode and
  delay fields, yet the call returns \<open>HAL_OK\<close>, sets no error bit and updates the DMA
  field alone: the common control register goes from 0 to 0x8000.
\<close>

theorem multimode_config_partial_update_counterexample:
  "LL_ADC_IS_ENABLED_ALL_COMMON_INSTANCE (hw (sys0 ADC1 1 (hw0 1 0 0))) \<noteq> 0
   \<and> fst (HAL_ADCEx_MultiModeConfigChannel dual_cfg (sys0 ADC1 1 (hw0 1 0 0))) = HAL_OK
   \<and> State (hadc (snd (HAL_ADCEx_MultiModeConfigChannel dual_cfg (sys0 ADC1 1 (hw0 1 0 0)))))
        AND HAL_ADC_STATE_ERROR_CONFIG = 0
   \<and> CCR (hw (sys0 ADC1 1 (hw0 1 0 0))) = 0
   \<and> CCR (hw (snd (HAL_ADCEx_MultiModeConfigChannel dual_cfg (sys0 ADC1 1 (hw0 1 0 0))))) = 0x8000"
  by (simp add: HAL_ADCEx_MultiModeConfigChannel_def Let_def dual_cfg_def sim_defs upd_defs ll_defs
      reg_macros reg_consts state_consts par_consts ADC_CCR_MULTI_DMACONTREQ_def)

subsection \<open>Stop of the multimode conversion\<close>

text \<open>Each helper call adds its event, with its status, to the log.\<close>

lemma call_trace [simp]:
  "trace (snd (call_ADC_Enable P s)) = trace s @ [Ev_ADC_Enable (Instance (hadc s)) (fst (call_ADC_Enable P s))]"
  "trace (snd (call_ADC_Disable P s)) = trace s @ [Ev_ADC_Disable (Instance (hadc s)) (fst (call_ADC_Disable P s))]"
  "trace (snd (call_ADC_ConversionStop P g s))
     = trace s @ [Ev_ADC_ConversionStop (Instance (hadc s)) g (fst (call_ADC_ConversionStop P g s))]"
  "trace (snd (call_HAL_DMA_Abort P s)) = trace s @ [Ev_DMA_Abort (fst (call_HAL_DMA_Abort P s))]"
  "trace (snd (call_ADC_Enable_slave P i s)) = trace s @ [Ev_ADC_Enable i (fst (call_ADC_Enable_slave P i s))]"
  "trace (snd (call_ADC_Disable_slave P i s)) = trace s @ [Ev_ADC_Disable i (fst (call_ADC_Disable_slave P i s))]"
  by (simp_all add: call_defs split: prod.splits)

lemma call_slave_hadc [simp]:
  "hadc (snd (call_ADC_Enable_slave P i s)) = hadc s"
  "hadc (snd (call_ADC_Disable_slave P i s)) = hadc s"
  "hadc (snd (call_HAL_DMA_Abort P s)) = hadc s"
  by (simp_all add: call_defs split: prod.splits)

lemma multimode_stop_failed_stop:
  assumes "Lock (hadc s) = HAL_UNLOCKED"
    and "fst (call_ADC_ConversionStop P ADC_REGULAR_INJECTED_GROUP (HAL_LOCK s)) \<noteq> HAL_OK"
  shows "HAL_ADCEx_MultiModeStop_DMA P fuel s
         = Some (fst (call_ADC_ConversionStop P ADC_REGULAR_INJECTED_GROUP (HAL_LOCK s)),
                 HAL_UNLOCK (snd (call_ADC_ConversionStop P ADC_REGULAR_INJECTED_GROUP (HAL_LOCK s))))"
  using assms by (auto simp: HAL_ADCEx_MultiModeStop_DMA_def split: prod.splits)

lemma multimode_stop_wait_timeout:
  assumes "Lock (hadc s) = HAL_UNLOCKED"
    and "call_ADC_ConversionStop P ADC_REGULAR_INJECTED_GROUP (HAL_LOCK s) = (HAL_OK, s1)"
    and "ADC_MULTI_SLAVE (hadc s1) = Some slave"
    and "multimode_wait P fuel (Instance (hadc s1)) slave (uwTick (hw s1))
           (LL_ADC_REG_IsConversionOngoing (ADC (hw s1) slave)) (hw s1) = Some (False, w)"
  shows "HAL_ADCEx_MultiModeStop_DMA P fuel s
         = Some (HAL_ERROR,
                 HAL_UNLOCK (upd_State (\<lambda>x. SET_BIT x HAL_ADC_STATE_ERROR_INTERNAL) (s1\<lparr>hw := w\<rparr>)))"
  using assms by (simp add: HAL_ADCEx_MultiModeStop_DMA_def)

lemma multimode_stop_idle:
  assumes "Lock (hadc s) = HAL_UNLOCKED"
    and "call_ADC_ConversionStop P ADC_REGULAR_INJECTED_GROUP (HAL_LOCK s) = (HAL_OK, s1)"
    and "ADC_MULTI_SLAVE (hadc s1) = Some slave"
    and "multimode_wait P fuel (Instance (hadc s1)) slave (uwTick (hw s1))
           (LL_ADC_REG_IsConversionOngoing (ADC (hw s1) slave)) (hw s1) = Some (True, w)"
  shows "HAL_ADCEx_MultiModeStop_DMA P fuel s = Some (multimode_stop_cleanup P slave (s1\<lparr>hw := w\<rparr>))"
  using assms by (simp add: HAL_ADCEx_MultiModeStop_DMA_def)

lemma cleanup_abort_ok:
  assumes a: "call_HAL_DMA_Abort P s1 = (HAL_OK, s2)"
  shows "\<exists>d_slave d_master s6.
           multimode_stop_cleanup P slave s1
             = (HAL_OK,
                HAL_UNLOCK (upd_State (\<lambda>x. ADC_STATE_CLR_SET x
                   (HAL_ADC_STATE_REG_BUSY OR HAL_ADC_STATE_INJ_BUSY) HAL_ADC_STATE_READY) s6))
           \<and> trace s6 = trace s1 @ [Ev_DMA_Abort HAL_OK, Ev_ADC_Disable slave d_slave,
                                     Ev_ADC_Disable (Instance (hadc s1)) d_master]"
proof -
  let ?s4 = "upd_reg (Instance (hadc s2)) (HAL_ADC_DISABLE_IT ADC_IT_OVR) s2"
  obtain d1 s5 where b: "call_ADC_Disable_slave P slave ?s4 = (d1, s5)"
    by (cases "call_ADC_Disable_slave P slave ?s4")
  obtain d2 s6 where c: "call_ADC_Disable P s5 = (d2, s6)"
    by (cases "call_ADC_Disable P s5")
  have h2: "hadc s2 = hadc s1" and t2: "trace s2 = trace s1 @ [Ev_DMA_Abort HAL_OK]"
    using call_slave_hadc(3) [of P s1] call_trace(4) [of P s1] a by simp_all
  have h5: "hadc s5 = hadc s2" and t5: "trace s5 = trace s2 @ [Ev_ADC_Disable slave d1]"
    using call_slave_hadc(2) [of P slave ?s4] call_trace(6) [of P slave ?s4] b by simp_all
  have t6: "trace s6 = trace s5 @ [Ev_ADC_Disable (Instance (hadc s5)) d2]"
    using call_trace(2) [of P s5] c by simp
  have "multimode_stop_cleanup P slave s1
        = (HAL_OK, HAL_UNLOCK (upd_State (\<lambda>x. ADC_STATE_CLR_SET x
                   (HAL_ADC_STATE_REG_BUSY OR HAL_ADC_STATE_INJ_BUSY) HAL_ADC_STATE_READY) s6))"
    by (simp add: multimode_stop_cleanup_def a b c Let_def)
  moreover have "trace s6 = trace s1 @ [Ev_DMA_Abort HAL_OK, Ev_ADC_Disable slave d1,
                                     Ev_ADC_Disable (Instance (hadc s1)) d2]"
    by (simp add: t6 t5 t2 h5 h2)
  ultimately show ?thesis by blast
qed

lemma call_ADC_Disable_hadc:
  "hadc (snd (call_ADC_Disable P s)) = fst (snd (ADC_Disable P (hadc s) (hw s)))"
  by (simp add: call_defs split: prod.splits)


lemma cleanup_abort_failed:
  assumes a: "call_HAL_DMA_Abort P s1 = (sta, s2)" and f: "sta \<noteq> HAL_OK"
    and keeps: "disable_keeps_ERROR_DMA P"
  shows "\<exists>d_slave d_master s6.
           multimode_stop_cleanup P slave s1
             = (sta,
                HAL_UNLOCK (upd_State (\<lambda>x. ADC_STATE_CLR_SET x
                   (HAL_ADC_STATE_REG_BUSY OR HAL_ADC_STATE_INJ_BUSY) HAL_ADC_STATE_READY) s6))
           \<and> trace s6 = trace s1 @ [Ev_DMA_Abort sta, Ev_ADC_Disable (Instance (hadc s1)) d_master,
                                     Ev_ADC_Disable slave d_slave]
           \<and> (sta = HAL_ERROR \<longrightarrow> State (hadc s6) AND HAL_ADC_STATE_ERROR_DMA \<noteq> 0)"
proof -
  let ?s3 = "if sta = HAL_ERROR then upd_State (\<lambda>x. SET_BIT x HAL_ADC_STATE_ERROR_DMA) s2 else s2"
  let ?s4 = "upd_reg (Instance (hadc ?s3)) (HAL_ADC_DISABLE_IT ADC_IT_OVR) ?s3"
  obtain d1 s5 where b: "call_ADC_Disable P ?s4 = (d1, s5)"
    by (cases "call_ADC_Disable P ?s4")
  obtain d2 s6 where c: "call_ADC_Disable_slave P slave s5 = (d2, s6)"
    by (cases "call_ADC_Disable_slave P slave s5")
  have h2: "hadc s2 = hadc s1" and t2: "trace s2 = trace s1 @ [Ev_DMA_Abort sta]"
    using call_slave_hadc(3) [of P s1] call_trace(4) [of P s1] a by simp_all
  have i4: "Instance (hadc ?s4) = Instance (hadc s1)" and t4: "trace ?s4 = trace s2"
    by (simp_all add: h2)
  have t5: "trace s5 = trace ?s4 @ [Ev_ADC_Disable (Instance (hadc ?s4)) d1]"
    using call_trace(2) [of P ?s4] b by simp
  have h6: "hadc s6 = hadc s5" and t6: "trace s6 = trace s5 @ [Ev_ADC_Disable slave d2]"
    using call_slave_hadc(2) [of P slave s5] call_trace(6) [of P slave s5] c by simp_all
  have "multimode_stop_cleanup P slave s1
        = (sta, HAL_UNLOCK (upd_State (\<lambda>x. ADC_STATE_CLR_SET x
                   (HAL_ADC_STATE_REG_BUSY OR HAL_ADC_STATE_INJ_BUSY) HAL_ADC_STATE_READY) s6))"
    using f b c by (simp add: multimode_stop_cleanup_def a Let_def)
  moreover have "trace s6 = trace s1 @ [Ev_DMA_Abort sta, Ev_ADC_Disable (Instance (hadc s1)) d1,
                                     Ev_ADC_Disable slave d2]"
    by (simp only: t6 t5 t4 t2 i4) simp
  moreover have "State (hadc s6) AND HAL_ADC_STATE_ERROR_DMA \<noteq> 0" if e: "sta = HAL_ERROR"
  proof -
    have "hadc s5 = fst (snd (ADC_Disable P (hadc ?s4) (hw ?s4)))"
      using call_ADC_Disable_hadc [of P ?s4] b by simp
    then have "State (hadc s5) AND HAL_ADC_STATE_ERROR_DMA
               = State (hadc ?s4) AND HAL_ADC_STATE_ERROR_DMA"
      using keeps by (simp only: disable_keeps_ERROR_DMA_def)
    also have "\<dots> = SET_BIT (State (hadc s2)) HAL_ADC_STATE_ERROR_DMA AND HAL_ADC_STATE_ERROR_DMA"
      using e by simp
    finally show ?thesis
      by (simp add: h6 SET_BIT_def HAL_ADC_STATE_ERROR_DMA_def)
  qed
  ultimately show ?thesis by blast
qed


lemma call_ADC_ConversionStop_hadc:
  "hadc (snd (call_ADC_ConversionStop P g s)) = fst (snd (ADC_ConversionStop P (hadc s) g (hw s)))"
  by (simp add: call_defs split: prod.splits)

lemma final_state_bits:
  "Lock (hadc (HAL_UNLOCK s)) = HAL_UNLOCKED"
  "trace (HAL_UNLOCK s) = trace s"
  "trace (upd_State f s) = trace s"
  "State (hadc (HAL_UNLOCK (upd_State f s))) = f (State (hadc s))"
  by (simp_all add: upd_defs)

lemma clr_set_busy_ready:
  "ADC_STATE_CLR_SET x (HAL_ADC_STATE_REG_BUSY OR HAL_ADC_STATE_INJ_BUSY) HAL_ADC_STATE_READY
     AND (HAL_ADC_STATE_REG_BUSY OR HAL_ADC_STATE_INJ_BUSY) = 0"
  "ADC_STATE_CLR_SET x (HAL_ADC_STATE_REG_BUSY OR HAL_ADC_STATE_INJ_BUSY) HAL_ADC_STATE_READY
     AND HAL_ADC_STATE_ERROR_DMA = x AND HAL_ADC_STATE_ERROR_DMA"
  "SET_BIT x HAL_ADC_STATE_ERROR_INTERNAL AND HAL_ADC_STATE_ERROR_INTERNAL \<noteq> 0"
proof -
  show "ADC_STATE_CLR_SET x (HAL_ADC_STATE_REG_BUSY OR HAL_ADC_STATE_INJ_BUSY) HAL_ADC_STATE_READY
     AND (HAL_ADC_STATE_REG_BUSY OR HAL_ADC_STATE_INJ_BUSY) = 0"
    by (rule clr_set_clears) (simp add: state_consts)
  show "ADC_STATE_CLR_SET x (HAL_ADC_STATE_REG_BUSY OR HAL_ADC_STATE_INJ_BUSY) HAL_ADC_STATE_READY
     AND HAL_ADC_STATE_ERROR_DMA = x AND HAL_ADC_STATE_ERROR_DMA"
    by (rule clr_set_frame) (simp_all add: state_consts)
  show "SET_BIT x HAL_ADC_STATE_ERROR_INTERNAL AND HAL_ADC_STATE_ERROR_INTERNAL \<noteq> 0"
    by (rule set_bit_is_set) (simp add: state_consts)
qed

lemma call_HAL_DMA_Abort_status:
  "fst (call_HAL_DMA_Abort P s) = fst (HAL_DMA_Abort P (hdma s) (hw s))"
  by (simp add: call_defs split: prod.splits)

lemma multimode_stop_out_of_fuel:
  assumes "Lock (hadc s) = HAL_UNLOCKED"
    and "call_ADC_ConversionStop P ADC_REGULAR_INJECTED_GROUP (HAL_LOCK s) = (HAL_OK, s1)"
    and "ADC_MULTI_SLAVE (hadc s1) = Some slave"
    and "multimode_wait P fuel (Instance (hadc s1)) slave (uwTick (hw s1))
           (LL_ADC_REG_IsConversionOngoing (ADC (hw s1) slave)) (hw s1) = None"
  shows "HAL_ADCEx_MultiModeStop_DMA P fuel s = None"
  using assms by (simp add: HAL_ADCEx_MultiModeStop_DMA_def)

text \<open>
  Claim C7 (amended). \<open>HAL_ADCEx_MultiModeStop_DMA\<close> on the master handle, not locked by
  another call, first asks \<open>ADC_ConversionStop\<close> to stop both groups. (1) If the stop fails,
  its status is returned at once with the lock released: no other helper is called. (2) If
  the stop succeeds and the wait for both converters idle times out, \<open>HAL_ERROR\<close> is
  returned at once with the internal-error bit set and the lock released: the transfer is
  not aborted and no converter is disabled. (3) If the stop succeeds and the wait sees
  both converters idle, the transfer is aborted and both converters are asked to disable,
  whatever the abort returned; a failed abort's status is the one returned, and \<open>HAL_ERROR\<close>
  from the abort sets the DMA-error bit; when the abort and both disables succeed the
  status is \<open>HAL_OK\<close>; both busy bits are cleared and the lock is released. If the wait
  does not end within the fuel, the call does not return.
\<close>

theorem multimode_stop_dma_error_paths:
  assumes u: "Lock (hadc s) = HAL_UNLOCKED"
    and m: "Instance (hadc s) = ADC1"
    and ki: "stop_keeps_Instance P"
    and kd: "disable_keeps_ERROR_DMA P"
    and stop: "call_ADC_ConversionStop P ADC_REGULAR_INJECTED_GROUP (HAL_LOCK s) = (st0, s1)"
  shows "(st0 \<noteq> HAL_OK \<longrightarrow>
            HAL_ADCEx_MultiModeStop_DMA P fuel s = Some (st0, HAL_UNLOCK s1)
            \<and> trace (HAL_UNLOCK s1)
                = trace s @ [Ev_ADC_ConversionStop ADC1 ADC_REGULAR_INJECTED_GROUP st0])
       \<and> (st0 = HAL_OK \<longrightarrow>
            (multimode_wait P fuel ADC1 ADC2 (uwTick (hw s1))
               (LL_ADC_REG_IsConversionOngoing (ADC (hw s1) ADC2)) (hw s1) = None \<longrightarrow>
               HAL_ADCEx_MultiModeStop_DMA P fuel s = None)
          \<and> (\<forall>w. multimode_wait P fuel ADC1 ADC2 (uwTick (hw s1))
                    (LL_ADC_REG_IsConversionOngoing (ADC (hw s1) ADC2)) (hw s1) = Some (False, w) \<longrightarrow>
                (\<exists>s'. HAL_ADCEx_MultiModeStop_DMA P fuel s = Some (HAL_ERROR, s')
                   \<and> s' = HAL_UNLOCK (upd_State (\<lambda>x. SET_BIT x HAL_ADC_STATE_ERROR_INTERNAL)
                                        (s1\<lparr>hw := w\<rparr>))
                   \<and> Lock (hadc s') = HAL_UNLOCKED
                   \<and> State (hadc s') AND HAL_ADC_STATE_ERROR_INTERNAL \<noteq> 0
                   \<and> hw s' = w \<and> hdma s' = hdma s1
                   \<and> trace s' = trace s @ [Ev_ADC_ConversionStop ADC1 ADC_REGULAR_INJECTED_GROUP
                                              HAL_OK]))
          \<and> (\<forall>w. multimode_wait P fuel ADC1 ADC2 (uwTick (hw s1))
                    (LL_ADC_REG_IsConversionOngoing (ADC (hw s1) ADC2)) (hw s1) = Some (True, w) \<longrightarrow>
                (\<exists>st s' dm ds.
                   HAL_ADCEx_MultiModeStop_DMA P fuel s = Some (st, s')
                   \<and> Lock (hadc s') = HAL_UNLOCKED
                   \<and> trace s'
                       = trace s @ [Ev_ADC_ConversionStop ADC1 ADC_REGULAR_INJECTED_GROUP HAL_OK,
                                    Ev_DMA_Abort (fst (HAL_DMA_Abort P (hdma s1) w))]
                          @ (if fst (HAL_DMA_Abort P (hdma s1) w) = HAL_OK
                             then [Ev_ADC_Disable ADC2 ds, Ev_ADC_Disable ADC1 dm]
                             else [Ev_ADC_Disable ADC1 dm, Ev_ADC_Disable ADC2 ds])
                   \<and> (fst (HAL_DMA_Abort P (hdma s1) w) \<noteq> HAL_OK \<longrightarrow>
                        st = fst (HAL_DMA_Abort P (hdma s1) w))
                   \<and> (fst (HAL_DMA_Abort P (hdma s1) w) = HAL_OK \<and> dm = HAL_OK \<and> ds = HAL_OK \<longrightarrow>
                        st = HAL_OK)
                   \<and> (fst (HAL_DMA_Abort P (hdma s1) w) = HAL_ERROR \<longrightarrow>
                        State (hadc s') AND HAL_ADC_STATE_ERROR_DMA \<noteq> 0)
                   \<and> State (hadc s') AND (HAL_ADC_STATE_REG_BUSY OR HAL_ADC_STATE_INJ_BUSY) = 0)))"
proof -
  let ?g = ADC_REGULAR_INJECTED_GROUP
  let ?wait = "multimode_wait P fuel ADC1 ADC2 (uwTick (hw s1))
                 (LL_ADC_REG_IsConversionOngoing (ADC (hw s1) ADC2)) (hw s1)"
  have "trace (snd (call_ADC_ConversionStop P ?g (HAL_LOCK s)))
        = trace (HAL_LOCK s) @ [Ev_ADC_ConversionStop (Instance (hadc (HAL_LOCK s))) ?g
                                  (fst (call_ADC_ConversionStop P ?g (HAL_LOCK s)))]"
    by (rule call_trace(3))
  then have t1: "trace s1 = trace s @ [Ev_ADC_ConversionStop ADC1 ?g st0]"
    unfolding stop by (simp add: m)
  have "hadc (snd (call_ADC_ConversionStop P ?g (HAL_LOCK s)))
        = fst (snd (ADC_ConversionStop P (hadc (HAL_LOCK s)) ?g (hw (HAL_LOCK s))))"
    by (rule call_ADC_ConversionStop_hadc)
  then have i1: "Instance (hadc s1) = ADC1"
    unfolding stop using ki m by (simp add: stop_keeps_Instance_def)
  then have sl: "ADC_MULTI_SLAVE (hadc s1) = Some ADC2"
    by (simp add: ADC_MULTI_SLAVE_def)
  have failed: "HAL_ADCEx_MultiModeStop_DMA P fuel s = Some (st0, HAL_UNLOCK s1)
                \<and> trace (HAL_UNLOCK s1) = trace s @ [Ev_ADC_ConversionStop ADC1 ?g st0]"
    if f: "st0 \<noteq> HAL_OK"
    using multimode_stop_failed_stop [of s P fuel] u f t1 by (simp add: stop)
  have none: "HAL_ADCEx_MultiModeStop_DMA P fuel s = None"
    if ok: "st0 = HAL_OK" and r: "?wait = None"
    using multimode_stop_out_of_fuel [OF u _ sl] stop ok r i1 by simp
  have timeout: "\<exists>s'. HAL_ADCEx_MultiModeStop_DMA P fuel s = Some (HAL_ERROR, s')
                   \<and> s' = HAL_UNLOCK (upd_State (\<lambda>x. SET_BIT x HAL_ADC_STATE_ERROR_INTERNAL)
                                        (s1\<lparr>hw := w\<rparr>))
                   \<and> Lock (hadc s') = HAL_UNLOCKED
                   \<and> State (hadc s') AND HAL_ADC_STATE_ERROR_INTERNAL \<noteq> 0
                   \<and> hw s' = w \<and> hdma s' = hdma s1
                   \<and> trace s' = trace s @ [Ev_ADC_ConversionStop ADC1 ?g HAL_OK]"
    if ok: "st0 = HAL_OK" and r: "?wait = Some (False, w)" for w
  proof -
    have "HAL_ADCEx_MultiModeStop_DMA P fuel s
          = Some (HAL_ERROR, HAL_UNLOCK (upd_State (\<lambda>x. SET_BIT x HAL_ADC_STATE_ERROR_INTERNAL)
                                           (s1\<lparr>hw := w\<rparr>)))"
      using multimode_stop_wait_timeout [OF u _ sl] stop ok r i1 by simp
    then show ?thesis
      using t1 ok by (simp add: final_state_bits clr_set_busy_ready(3) upd_defs)
  qed
  have idle: "\<exists>st s' dm ds.
                   HAL_ADCEx_MultiModeStop_DMA P fuel s = Some (st, s')
                   \<and> Lock (hadc s') = HAL_UNLOCKED
                   \<and> trace s'
                       = trace s @ [Ev_ADC_ConversionStop ADC1 ?g HAL_OK,
                                    Ev_DMA_Abort (fst (HAL_DMA_Abort P (hdma s1) w))]
                          @ (if fst (HAL_DMA_Abort P (hdma s1) w) = HAL_OK
                             then [Ev_ADC_Disable ADC2 ds, Ev_ADC_Disable ADC1 dm]
                             else [Ev_ADC_Disable ADC1 dm, Ev_ADC_Disable ADC2 ds])
                   \<and> (fst (HAL_DMA_Abort P (hdma s1) w) \<noteq> HAL_OK \<longrightarrow>
                        st = fst (HAL_DMA_Abort P (hdma s1) w))
                   \<and> (fst (HAL_DMA_Abort P (hdma s1) w) = HAL_OK \<and> dm = HAL_OK \<and> ds = HAL_OK \<longrightarrow>
                        st = HAL_OK)
                   \<and> (fst (HAL_DMA_Abort P (hdma s1) w) = HAL_ERROR \<longrightarrow>
                        State (hadc s') AND HAL_ADC_STATE_ERROR_DMA \<noteq> 0)
                   \<and> State (hadc s') AND (HAL_ADC_STATE_REG_BUSY OR HAL_ADC_STATE_INJ_BUSY) = 0"
    if ok: "st0 = HAL_OK" and r: "?wait = Some (True, w)" for w
  proof -
    let ?s1 = "s1\<lparr>hw := w\<rparr>"
    let ?f = "\<lambda>x. ADC_STATE_CLR_SET x
                 (HAL_ADC_STATE_REG_BUSY OR HAL_ADC_STATE_INJ_BUSY) HAL_ADC_STATE_READY"
    let ?sta = "fst (HAL_DMA_Abort P (hdma s1) w)"
    have e: "HAL_ADCEx_MultiModeStop_DMA P fuel s = Some (multimode_stop_cleanup P ADC2 ?s1)"
      using multimode_stop_idle [OF u _ sl] stop ok r i1 by simp
    obtain sta s2 where a: "call_HAL_DMA_Abort P ?s1 = (sta, s2)"
      by (cases "call_HAL_DMA_Abort P ?s1")
    have sta: "sta = ?sta"
      using call_HAL_DMA_Abort_status [of P ?s1] a by simp
    have i1': "Instance (hadc ?s1) = ADC1"
      and t1': "trace ?s1 = trace s @ [Ev_ADC_ConversionStop ADC1 ?g HAL_OK]"
      using i1 t1 ok by simp_all
    show ?thesis
    proof (cases "sta = HAL_OK")
      case True
      from cleanup_abort_ok [of P ?s1 s2 ADC2] a True
      obtain ds dm s6 where
        k: "multimode_stop_cleanup P ADC2 ?s1 = (HAL_OK, HAL_UNLOCK (upd_State ?f s6))"
        and t6: "trace s6 = trace ?s1 @ [Ev_DMA_Abort HAL_OK, Ev_ADC_Disable ADC2 ds,
                                          Ev_ADC_Disable (Instance (hadc ?s1)) dm]"
        by auto
      let ?s' = "HAL_UNLOCK (upd_State ?f s6)"
      have r': "HAL_ADCEx_MultiModeStop_DMA P fuel s = Some (HAL_OK, ?s')"
        using e k by simp
      have "trace ?s' = trace s @ [Ev_ADC_ConversionStop ADC1 ?g HAL_OK, Ev_DMA_Abort HAL_OK]
                           @ [Ev_ADC_Disable ADC2 ds, Ev_ADC_Disable ADC1 dm]"
        unfolding final_state_bits t6 t1' i1' by simp
      moreover have "State (hadc ?s') AND (HAL_ADC_STATE_REG_BUSY OR HAL_ADC_STATE_INJ_BUSY) = 0"
        unfolding final_state_bits by (rule clr_set_busy_ready(1))
      moreover have "Lock (hadc ?s') = HAL_UNLOCKED"
        by (rule final_state_bits(1))
      ultimately show ?thesis
        using r' True sta
        by (intro exI [of _ HAL_OK] exI [of _ ?s'] exI [of _ dm] exI [of _ ds]) simp
    next
      case False
      from cleanup_abort_failed [of P ?s1 sta s2 ADC2] a False kd
      obtain ds dm s6 where
        k: "multimode_stop_cleanup P ADC2 ?s1 = (sta, HAL_UNLOCK (upd_State ?f s6))"
        and t6: "trace s6 = trace ?s1 @ [Ev_DMA_Abort sta, Ev_ADC_Disable (Instance (hadc ?s1)) dm,
                                          Ev_ADC_Disable ADC2 ds]"
        and ed: "sta = HAL_ERROR \<longrightarrow> State (hadc s6) AND HAL_ADC_STATE_ERROR_DMA \<noteq> 0"
        by auto
      let ?s' = "HAL_UNLOCK (upd_State ?f s6)"
      have r': "HAL_ADCEx_MultiModeStop_DMA P fuel s = Some (sta, ?s')"
        using e k by simp
      have "trace ?s' = trace s @ [Ev_ADC_ConversionStop ADC1 ?g HAL_OK, Ev_DMA_Abort sta]
                           @ [Ev_ADC_Disable ADC1 dm, Ev_ADC_Disable ADC2 ds]"
        unfolding final_state_bits t6 t1' i1' by simp
      moreover have "State (hadc ?s') AND (HAL_ADC_STATE_REG_BUSY OR HAL_ADC_STATE_INJ_BUSY) = 0"
        unfolding final_state_bits by (rule clr_set_busy_ready(1))
      moreover have "Lock (hadc ?s') = HAL_UNLOCKED"
        by (rule final_state_bits(1))
      moreover have "sta = HAL_ERROR \<longrightarrow> State (hadc ?s') AND HAL_ADC_STATE_ERROR_DMA \<noteq> 0"
        unfolding final_state_bits clr_set_busy_ready(2) by (rule ed)
      ultimately show ?thesis
        using r' False sta
        by (intro exI [of _ sta] exI [of _ ?s'] exI [of _ dm] exI [of _ ds]) simp
    qed
  qed
  from failed none timeout idle show ?thesis
    by blast
qed

lemmas stop_eval =
  HAL_ADCEx_MultiModeStop_DMA_def multimode_stop_cleanup_def call_defs sim_defs upd_defs
  ll_defs reg_macros reg_consts state_consts par_consts Let_def

lemma faulty_dma_keeps:
  "stop_keeps_Instance faulty_dma" "disable_keeps_ERROR_DMA faulty_dma"
  by (simp_all add: stop_keeps_Instance_def disable_keeps_ERROR_DMA_def faulty_dma_def
      sim_defs set_bit_frame state_consts)

lemma faulty_dma_run:
  "map_option fst (HAL_ADCEx_MultiModeStop_DMA faulty_dma (Suc 0) (sys0 ADC1 0x100 (hw0 5 1 0)))
     = Some HAL_ERROR"
  "map_option (trace \<circ> snd)
     (HAL_ADCEx_MultiModeStop_DMA faulty_dma (Suc 0) (sys0 ADC1 0x100 (hw0 5 1 0)))
     = Some [Ev_ADC_ConversionStop ADC1 ADC_REGULAR_INJECTED_GROUP HAL_OK,
             Ev_DMA_Abort HAL_ERROR, Ev_ADC_Disable ADC1 HAL_OK, Ev_ADC_Disable ADC2 HAL_OK]"
  by (simp_all add: stop_eval faulty_dma_def del: call_trace call_slave_hadc)

lemma sim_keeps:
  "stop_keeps_Instance sim" "disable_keeps_ERROR_DMA sim"
  by (simp_all add: stop_keeps_Instance_def disable_keeps_ERROR_DMA_def
      sim_defs set_bit_frame state_consts)

lemma faulty_dma_abort: "fst (HAL_DMA_Abort faulty_dma d w) = HAL_ERROR"
  by (simp add: faulty_dma_def)

lemma multimode_wait_frozen:
  assumes f: "7 \<le> fuel" and i: "internal w \<noteq> 0"
    and c: "LL_ADC_REG_IsConversionOngoing (ADC w slave) = 1"
  shows "multimode_wait sim fuel master slave (uwTick w) 1 w
         = Some (False, w\<lparr>uwTick := uwTick w + 6\<rparr>)"
proof -
  from f have "fuel = Suc (Suc (Suc (Suc (Suc (Suc (Suc (fuel - 7)))))))"
    by arith
  then obtain n where n: "fuel = Suc (Suc (Suc (Suc (Suc (Suc (Suc n))))))" ..
  show ?thesis
    unfolding n using i c
    by (simp add: sim_hw_step_eq sim_hw_step_def ADC_STOP_CONVERSION_TIMEOUT_def)
qed

text \<open>
  The witness. On a platform whose abort of the transfer fails, with both converters idle
  after the stop: both converters are still disabled, the abort's \<open>HAL_ERROR\<close> is returned
  and the DMA-error bit is set. On frozen hardware where the slave keeps converting: the
  wait times out, \<open>HAL_ERROR\<close> is returned with the internal-error bit set, and the log
  holds the stop alone.
\<close>

theorem multimode_stop_dma_error_paths_witness:
  "stop_keeps_Instance faulty_dma \<and> disable_keeps_ERROR_DMA faulty_dma
   \<and> stop_keeps_Instance sim \<and> disable_keeps_ERROR_DMA sim
   \<and> fst (call_ADC_ConversionStop faulty_dma ADC_REGULAR_INJECTED_GROUP
             (HAL_LOCK (sys0 ADC1 0x100 (hw0 5 1 0)))) = HAL_OK
   \<and> (\<exists>w. multimode_wait faulty_dma (Suc 0) ADC1 ADC2
             (uwTick (hw (snd (call_ADC_ConversionStop faulty_dma ADC_REGULAR_INJECTED_GROUP
                                 (HAL_LOCK (sys0 ADC1 0x100 (hw0 5 1 0)))))))
             (LL_ADC_REG_IsConversionOngoing
                (ADC (hw (snd (call_ADC_ConversionStop faulty_dma ADC_REGULAR_INJECTED_GROUP
                                 (HAL_LOCK (sys0 ADC1 0x100 (hw0 5 1 0)))))) ADC2))
             (hw (snd (call_ADC_ConversionStop faulty_dma ADC_REGULAR_INJECTED_GROUP
                         (HAL_LOCK (sys0 ADC1 0x100 (hw0 5 1 0))))))
           = Some (True, w))
   \<and> (\<exists>s'. HAL_ADCEx_MultiModeStop_DMA faulty_dma (Suc 0) (sys0 ADC1 0x100 (hw0 5 1 0))
               = Some (HAL_ERROR, s')
            \<and> Lock (hadc s') = HAL_UNLOCKED
            \<and> trace s' = [Ev_ADC_ConversionStop ADC1 ADC_REGULAR_INJECTED_GROUP HAL_OK,
                           Ev_DMA_Abort HAL_ERROR, Ev_ADC_Disable ADC1 HAL_OK,
                           Ev_ADC_Disable ADC2 HAL_OK]
            \<and> State (hadc s') AND HAL_ADC_STATE_ERROR_DMA \<noteq> 0
            \<and> State (hadc s') AND (HAL_ADC_STATE_REG_BUSY OR HAL_ADC_STATE_INJ_BUSY) = 0)
   \<and> fst (call_ADC_ConversionStop sim ADC_REGULAR_INJECTED_GROUP
             (HAL_LOCK (sys0 ADC1 0x100 (hw0 5 5 (Suc 0))))) = HAL_OK
   \<and> (\<exists>w. multimode_wait sim 10 ADC1 ADC2
             (uwTick (hw (snd (call_ADC_ConversionStop sim ADC_REGULAR_INJECTED_GROUP
                                 (HAL_LOCK (sys0 ADC1 0x100 (hw0 5 5 (Suc 0))))))))
             (LL_ADC_REG_IsConversionOngoing
                (ADC (hw (snd (call_ADC_ConversionStop sim ADC_REGULAR_INJECTED_GROUP
                                 (HAL_LOCK (sys0 ADC1 0x100 (hw0 5 5 (Suc 0))))))) ADC2))
             (hw (snd (call_ADC_ConversionStop sim ADC_REGULAR_INJECTED_GROUP
                         (HAL_LOCK (sys0 ADC1 0x100 (hw0 5 5 (Suc 0)))))))
           = Some (False, w))
   \<and> (\<exists>s'. HAL_ADCEx_MultiModeStop_DMA sim 10 (sys0 ADC1 0x100 (hw0 5 5 (Suc 0)))
               = Some (HAL_ERROR, s')
            \<and> Lock (hadc s') = HAL_UNLOCKED
            \<and> State (hadc s') AND HAL_ADC_STATE_ERROR_INTERNAL \<noteq> 0
            \<and> trace s' = [Ev_ADC_ConversionStop ADC1 ADC_REGULAR_INJECTED_GROUP HAL_OK])"
proof -
  let ?g = ADC_REGULAR_INJECTED_GROUP
  let ?a = "sys0 ADC1 0x100 (hw0 5 1 0)"
  let ?a1 = "snd (call_ADC_ConversionStop faulty_dma ?g (HAL_LOCK ?a))"
  let ?b = "sys0 ADC1 0x100 (hw0 5 5 (Suc 0))"
  let ?b1 = "snd (call_ADC_ConversionStop sim ?g (HAL_LOCK ?b))"
  have ua: "Lock (hadc ?a) = HAL_UNLOCKED" and ma: "Instance (hadc ?a) = ADC1"
    and ta: "trace ?a = []"
    and ub: "Lock (hadc ?b) = HAL_UNLOCKED" and mb: "Instance (hadc ?b) = ADC1"
    and tb: "trace ?b = []"
    by (simp_all add: sim_defs)
  have fa: "fst (call_ADC_ConversionStop faulty_dma ?g (HAL_LOCK ?a)) = HAL_OK"
    by (simp add: call_defs sim_defs faulty_dma_def upd_defs par_consts)
  then have ca: "call_ADC_ConversionStop faulty_dma ?g (HAL_LOCK ?a) = (HAL_OK, ?a1)"
    by (simp add: prod_eq_iff)
  have wa: "multimode_wait faulty_dma (Suc 0) ADC1 ADC2 (uwTick (hw ?a1))
              (LL_ADC_REG_IsConversionOngoing (ADC (hw ?a1) ADC2)) (hw ?a1)
            = Some (True, hw ?a1)"
    by (simp add: call_defs sim_defs faulty_dma_def upd_defs par_consts ll_defs reg_macros
        reg_consts)
  from multimode_stop_dma_error_paths [OF ua ma faulty_dma_keeps ca, of "Suc 0"] wa
  obtain st s' dm ds where
    ra: "HAL_ADCEx_MultiModeStop_DMA faulty_dma (Suc 0) ?a = Some (st, s')"
    and la: "Lock (hadc s') = HAL_UNLOCKED"
    and sa: "st = HAL_ERROR"
    and ea: "State (hadc s') AND HAL_ADC_STATE_ERROR_DMA \<noteq> 0"
    and ba: "State (hadc s') AND (HAL_ADC_STATE_REG_BUSY OR HAL_ADC_STATE_INJ_BUSY) = 0"
    unfolding faulty_dma_abort by auto
  from faulty_dma_run(2) ra
  have tra: "trace s' = [Ev_ADC_ConversionStop ADC1 ?g HAL_OK, Ev_DMA_Abort HAL_ERROR,
                         Ev_ADC_Disable ADC1 HAL_OK, Ev_ADC_Disable ADC2 HAL_OK]"
    by simp
  have fb: "fst (call_ADC_ConversionStop sim ?g (HAL_LOCK ?b)) = HAL_OK"
    by (simp add: call_defs sim_defs upd_defs par_consts)
  then have cb: "call_ADC_ConversionStop sim ?g (HAL_LOCK ?b) = (HAL_OK, ?b1)"
    by (simp add: prod_eq_iff)
  have ib: "internal (hw ?b1) \<noteq> 0"
    and ob: "LL_ADC_REG_IsConversionOngoing (ADC (hw ?b1) ADC2) = 1"
    by (simp_all add: call_defs sim_defs upd_defs par_consts ll_defs reg_macros reg_consts)
  have wb: "multimode_wait sim 10 ADC1 ADC2 (uwTick (hw ?b1))
              (LL_ADC_REG_IsConversionOngoing (ADC (hw ?b1) ADC2)) (hw ?b1)
            = Some (False, (hw ?b1)\<lparr>uwTick := uwTick (hw ?b1) + 6\<rparr>)"
    unfolding ob by (rule multimode_wait_frozen [OF _ ib ob]) simp
  from multimode_stop_dma_error_paths [OF ub mb sim_keeps cb, of 10] wb
  obtain s'' where
    rb: "HAL_ADCEx_MultiModeStop_DMA sim 10 ?b = Some (HAL_ERROR, s'')"
    and lb: "Lock (hadc s'') = HAL_UNLOCKED"
    and eb: "State (hadc s'') AND HAL_ADC_STATE_ERROR_INTERNAL \<noteq> 0"
    and trb: "trace s'' = trace ?b @ [Ev_ADC_ConversionStop ADC1 ?g HAL_OK]"
    by blast
  have trb': "trace s'' = [Ev_ADC_ConversionStop ADC1 ?g HAL_OK]"
    using trb by (simp only: tb append_Nil)
  have A: "\<exists>s'. HAL_ADCEx_MultiModeStop_DMA faulty_dma (Suc 0) ?a = Some (HAL_ERROR, s')
            \<and> Lock (hadc s') = HAL_UNLOCKED
            \<and> trace s' = [Ev_ADC_ConversionStop ADC1 ?g HAL_OK,
                           Ev_DMA_Abort HAL_ERROR, Ev_ADC_Disable ADC1 HAL_OK,
                           Ev_ADC_Disable ADC2 HAL_OK]
            \<and> State (hadc s') AND HAL_ADC_STATE_ERROR_DMA \<noteq> 0
            \<and> State (hadc s') AND (HAL_ADC_STATE_REG_BUSY OR HAL_ADC_STATE_INJ_BUSY) = 0"
    using ra la sa ea ba tra by blast
  have B: "\<exists>s'. HAL_ADCEx_MultiModeStop_DMA sim 10 ?b = Some (HAL_ERROR, s')
            \<and> Lock (hadc s') = HAL_UNLOCKED
            \<and> State (hadc s') AND HAL_ADC_STATE_ERROR_INTERNAL \<noteq> 0
            \<and> trace s' = [Ev_ADC_ConversionStop ADC1 ?g HAL_OK]"
    using rb lb eb trb' by blast
  have WA: "\<exists>w. multimode_wait faulty_dma (Suc 0) ADC1 ADC2 (uwTick (hw ?a1))
              (LL_ADC_REG_IsConversionOngoing (ADC (hw ?a1) ADC2)) (hw ?a1) = Some (True, w)"
    using wa by blast
  have WB: "\<exists>w. multimode_wait sim 10 ADC1 ADC2 (uwTick (hw ?b1))
              (LL_ADC_REG_IsConversionOngoing (ADC (hw ?b1) ADC2)) (hw ?b1) = Some (False, w)"
    using wb by blast
  from faulty_dma_keeps sim_keeps fa WA A fb WB B show ?thesis
    by (intro conjI)
qed

text \<open>
  The claim as stated asks that the remaining cleanup steps are attempted after any failing
  step. On hardware where the slave keeps converting, the wait times out and the function
  returns \<open>HAL_ERROR\<close> at once: the log holds the stop alone, with no abort of the transfer
  and no disable of either converter.
\<close>

theorem multimode_stop_timeout_skips_cleanup_counterexample:
  "map_option fst (HAL_ADCEx_MultiModeStop_DMA sim 10 (sys0 ADC1 0x100 (hw0 5 5 (Suc 0))))
     = Some HAL_ERROR
   \<and> map_option (trace \<circ> snd)
         (HAL_ADCEx_MultiModeStop_DMA sim 10 (sys0 ADC1 0x100 (hw0 5 5 (Suc 0))))
     = Some [Ev_ADC_ConversionStop ADC1 ADC_REGULAR_INJECTED_GROUP HAL_OK]"
proof -
  let ?s = "sys0 ADC1 0x100 (hw0 5 5 (Suc 0))"
  let ?s1 = "snd (call_ADC_ConversionStop sim ADC_REGULAR_INJECTED_GROUP (HAL_LOCK ?s))"
  have u: "Lock (hadc ?s) = HAL_UNLOCKED"
    by (simp add: sim_defs)
  have c: "call_ADC_ConversionStop sim ADC_REGULAR_INJECTED_GROUP (HAL_LOCK ?s) = (HAL_OK, ?s1)"
    by (simp add: call_defs sim_defs upd_defs par_consts)
  have sl: "ADC_MULTI_SLAVE (hadc ?s1) = Some ADC2"
    by (simp add: call_defs sim_defs upd_defs par_consts ADC_MULTI_SLAVE_def)
  have i: "internal (hw ?s1) \<noteq> 0"
    and o: "LL_ADC_REG_IsConversionOngoing (ADC (hw ?s1) ADC2) = 1"
    and t: "trace ?s1 = [Ev_ADC_ConversionStop ADC1 ADC_REGULAR_INJECTED_GROUP HAL_OK]"
    by (simp_all add: call_defs sim_defs upd_defs par_consts ll_defs reg_macros reg_consts)
  have w: "multimode_wait sim 10 (Instance (hadc ?s1)) ADC2 (uwTick (hw ?s1))
             (LL_ADC_REG_IsConversionOngoing (ADC (hw ?s1) ADC2)) (hw ?s1)
           = Some (False, (hw ?s1)\<lparr>uwTick := uwTick (hw ?s1) + 6\<rparr>)"
    unfolding o by (rule multimode_wait_frozen [OF _ i o]) simp
  show ?thesis
    unfolding multimode_stop_wait_timeout [OF u c sl w]
    by (simp add: final_state_bits t del: call_trace)
qed

subsection \<open>Commit of the injected context\<close>

text \<open>
  The part of \<open>HAL_ADCEx_InjectedConfigChannel\<close> that follows the sequencer writes CFGR,
  CFGR2, the auxiliary registers and the state word only.
\<close>

lemma sequencer_view_frame [simp]:
  "sequencer_view (upd_reg i (\<lambda>r. r\<lparr>CFGR := f r\<rparr>) s) = sequencer_view s"
  "sequencer_view (upd_reg i (\<lambda>r. r\<lparr>CFGR2 := f r\<rparr>) s) = sequencer_view s"
  "sequencer_view (upd_aux a s) = sequencer_view s"
  "sequencer_view (upd_State g s) = sequencer_view s"
  "sequencer_view (HAL_LOCK s) = sequencer_view s"
  "sequencer_view (HAL_UNLOCK s) = sequencer_view s"
  by (simp_all add: sequencer_view_def upd_defs)

lemma injected_parameters_frame:
  "sequencer_view (snd (injected_parameters P c s)) = sequencer_view s"
  by (simp add: injected_parameters_def Let_def case_prod_beta if_distrib [of snd]
      if_distrib [of sequencer_view] if_distrib [of "upd_aux a" for a]
      if_distrib [of "upd_reg i f" for i f] cong: if_cong)


lemma injected_sequencer_staged:
  assumes "Init_ScanConvMode (hadc s) \<noteq> ADC_SCAN_DISABLE" and "InjectedNbrOfConversion c \<noteq> 1"
    and "r = (if InjectionConfig_ChannelCount (hadc s) = 0 then InjectedNbrOfConversion c
              else InjectionConfig_ChannelCount (hadc s))"
    and "r \<noteq> 1"
  shows "sequencer_view (injected_sequencer P c s)
         = (trace s, JSQR (regs s), Instance (hadc s), Init_ScanConvMode (hadc s), r - 1)"
    and "Lock (hadc (injected_sequencer P c s)) = Lock (hadc s)"
  using assms
  by (cases "InjectionConfig_ChannelCount (hadc s) = 0";
      simp add: injected_sequencer_def sequencer_view_def regs_def Let_def)+

lemma config_channel_view:
  assumes "Lock (hadc s) = HAL_UNLOCKED"
  shows "sequencer_view (snd (HAL_ADCEx_InjectedConfigChannel P c s))
         = sequencer_view (injected_sequencer P c (HAL_LOCK s))"
    and "Lock (hadc (snd (HAL_ADCEx_InjectedConfigChannel P c s))) = HAL_UNLOCKED"
  using assms
  by (simp_all add: HAL_ADCEx_InjectedConfigChannel_def case_prod_beta injected_parameters_frame)

lemma config_run_snd:
  "snd (config_run P (c # cs) s)
   = snd (config_run P cs (snd (HAL_ADCEx_InjectedConfigChannel P c s)))"
  by (simp split: prod.splits)

lemma config_run_append:
  "snd (config_run P (xs @ ys) s) = snd (config_run P ys (snd (config_run P xs s)))"
  by (induction xs arbitrary: s) (simp_all add: config_run_snd del: config_run.simps(2))

lemma config_channel_staged:
  assumes u: "Lock (hadc s) = HAL_UNLOCKED"
    and sc: "Init_ScanConvMode (hadc s) \<noteq> ADC_SCAN_DISABLE"
    and n: "InjectedNbrOfConversion c \<noteq> 1"
    and r: "r = (if InjectionConfig_ChannelCount (hadc s) = 0 then InjectedNbrOfConversion c
                 else InjectionConfig_ChannelCount (hadc s))"
    and r1: "r \<noteq> 1"
  shows "sequencer_view (snd (HAL_ADCEx_InjectedConfigChannel P c s))
         = (trace s, JSQR (regs s), Instance (hadc s), Init_ScanConvMode (hadc s), r - 1)"
proof -
  have "sequencer_view (injected_sequencer P c (HAL_LOCK s))
        = (trace (HAL_LOCK s), JSQR (regs (HAL_LOCK s)), Instance (hadc (HAL_LOCK s)),
           Init_ScanConvMode (hadc (HAL_LOCK s)), r - 1)"
    using sc n r r1 by (intro injected_sequencer_staged(1)) (simp_all add: upd_defs)
  then show ?thesis
    unfolding config_channel_view(1) [OF u] by (simp add: upd_defs regs_def)
qed

lemma config_run_staged:
  assumes "Lock (hadc s) = HAL_UNLOCKED"
    and "Init_ScanConvMode (hadc s) \<noteq> ADC_SCAN_DISABLE"
    and "\<forall>c \<in> set cfgs. InjectedNbrOfConversion c = n" and "n \<noteq> 1"
    and "r = (if InjectionConfig_ChannelCount (hadc s) = 0 then n
              else InjectionConfig_ChannelCount (hadc s))"
    and "length cfgs < unat r"
  shows "trace (snd (config_run P cfgs s)) = trace s
         \<and> JSQR (regs (snd (config_run P cfgs s))) = JSQR (regs s)
         \<and> Instance (hadc (snd (config_run P cfgs s))) = Instance (hadc s)
         \<and> Init_ScanConvMode (hadc (snd (config_run P cfgs s))) = Init_ScanConvMode (hadc s)
         \<and> Lock (hadc (snd (config_run P cfgs s))) = HAL_UNLOCKED
         \<and> (cfgs \<noteq> [] \<longrightarrow>
              unat (InjectionConfig_ChannelCount (hadc (snd (config_run P cfgs s))))
              = unat r - length cfgs)"
  using assms
proof (induction cfgs arbitrary: s r)
  case Nil
  then show ?case by simp
next
  case (Cons c cs)
  let ?s1 = "snd (HAL_ADCEx_InjectedConfigChannel P c s)"
  from Cons.prems have r2: "2 \<le> unat r" by simp
  then have r0: "r \<noteq> 0" and r1: "r \<noteq> 1" by auto
  have cn: "InjectedNbrOfConversion c = n" using Cons.prems(3) by simp
  have v: "sequencer_view ?s1
           = (trace s, JSQR (regs s), Instance (hadc s), Init_ScanConvMode (hadc s), r - 1)"
    using Cons.prems(1,2,4,5) r1 cn by (intro config_channel_staged) simp_all
  have l: "Lock (hadc ?s1) = HAL_UNLOCKED"
    by (rule config_channel_view(2) [OF Cons.prems(1)])
  from v have t1: "trace ?s1 = trace s" and j1: "JSQR (regs ?s1) = JSQR (regs s)"
    and i1: "Instance (hadc ?s1) = Instance (hadc s)"
    and s1: "Init_ScanConvMode (hadc ?s1) = Init_ScanConvMode (hadc s)"
    and c1: "InjectionConfig_ChannelCount (hadc ?s1) = r - 1"
    by (simp_all add: sequencer_view_def)
  have u1: "unat (r - 1) = unat r - 1"
    by (rule unat_minus_one [OF r0])
  with r2 have nz: "r - 1 \<noteq> 0"
    by (auto simp: unat_eq_0 [symmetric] simp del: unat_eq_0)
  have ih: "trace (snd (config_run P cs ?s1)) = trace ?s1
         \<and> JSQR (regs (snd (config_run P cs ?s1))) = JSQR (regs ?s1)
         \<and> Instance (hadc (snd (config_run P cs ?s1))) = Instance (hadc ?s1)
         \<and> Init_ScanConvMode (hadc (snd (config_run P cs ?s1))) = Init_ScanConvMode (hadc ?s1)
         \<and> Lock (hadc (snd (config_run P cs ?s1))) = HAL_UNLOCKED
         \<and> (cs \<noteq> [] \<longrightarrow>
              unat (InjectionConfig_ChannelCount (hadc (snd (config_run P cs ?s1))))
              = unat (r - 1) - length cs)"
  proof (rule Cons.IH [OF l])
    show "Init_ScanConvMode (hadc ?s1) \<noteq> ADC_SCAN_DISABLE"
      using Cons.prems(2) s1 by simp
    show "\<forall>c\<in>set cs. InjectedNbrOfConversion c = n"
      using Cons.prems(3) by simp
    show "n \<noteq> 1" by (rule Cons.prems(4))
    show "r - 1 = (if InjectionConfig_ChannelCount (hadc ?s1) = 0 then n
                   else InjectionConfig_ChannelCount (hadc ?s1))"
      using c1 nz by simp
    show "length cs < unat (r - 1)"
      using Cons.prems(6) u1 by simp
  qed
  show ?case
  proof (cases "cs = []")
    case True
    then show ?thesis
      unfolding config_run_snd using t1 j1 i1 s1 l c1 u1 by simp
  next
    case False
    then show ?thesis
      unfolding config_run_snd using ih t1 j1 i1 s1 u1 by simp
  qed
qed

lemma context_queue_frame [simp]:
  "InjectionConfig_ContextQueue (hadc (upd_State g s)) = InjectionConfig_ContextQueue (hadc s)"
  "InjectionConfig_ContextQueue (hadc (HAL_LOCK s)) = InjectionConfig_ContextQueue (hadc s)"
  "InjectionConfig_ContextQueue (hadc (HAL_UNLOCK s)) = InjectionConfig_ContextQueue (hadc s)"
  by (simp_all add: upd_defs)

lemma context_queue_if:
  "InjectionConfig_ContextQueue (hadc (if b then x else y))
   = (if b then InjectionConfig_ContextQueue (hadc x) else InjectionConfig_ContextQueue (hadc y))"
  by simp

lemma injected_parameters_context_queue:
  "InjectionConfig_ContextQueue (hadc (snd (injected_parameters P c s)))
   = InjectionConfig_ContextQueue (hadc s)"
  by (simp add: injected_parameters_def Let_def case_prod_beta if_distrib [of snd]
      context_queue_if cong: if_cong)

lemma injected_sequencer_commit_value:
  assumes "Init_ScanConvMode (hadc s) \<noteq> ADC_SCAN_DISABLE" and "InjectedNbrOfConversion c \<noteq> 1"
    and "InjectionConfig_ChannelCount (hadc s) = 1"
  shows "sequencer_view (injected_sequencer P c s)
         = (trace s @ [Ev_JSQR_write (Instance (hadc s))
                         (MODIFY_REG (JSQR (regs s)) ADC_JSQR_FIELDS
                            (InjectionConfig_ContextQueue (hadc (injected_sequencer P c s))))],
            MODIFY_REG (JSQR (regs s)) ADC_JSQR_FIELDS
              (InjectionConfig_ContextQueue (hadc (injected_sequencer P c s))),
            Instance (hadc s), Init_ScanConvMode (hadc s), 0)"
    and "InjectionConfig_ContextQueue (hadc (injected_sequencer P c s))
         = InjectionConfig_ContextQueue (hadc s)
           OR ADC_JSQR_RK P (InjectedChannel c) (InjectedRank c)"
  using assms
  by (simp_all add: injected_sequencer_def sequencer_view_def regs_def Let_def write_JSQR_def
      upd_defs)

lemma config_channel_context_queue:
  assumes "Lock (hadc s) = HAL_UNLOCKED"
  shows "InjectionConfig_ContextQueue (hadc (snd (HAL_ADCEx_InjectedConfigChannel P c s)))
         = InjectionConfig_ContextQueue (hadc (injected_sequencer P c (HAL_LOCK s)))"
  using assms
  by (simp add: HAL_ADCEx_InjectedConfigChannel_def case_prod_beta
      injected_parameters_context_queue)

lemma config_channel_commit_value:
  assumes u: "Lock (hadc s) = HAL_UNLOCKED"
    and sc: "Init_ScanConvMode (hadc s) \<noteq> ADC_SCAN_DISABLE"
    and n: "InjectedNbrOfConversion c \<noteq> 1"
    and r: "InjectionConfig_ChannelCount (hadc s) = 1"
  shows "sequencer_view (snd (HAL_ADCEx_InjectedConfigChannel P c s))
         = (trace s @ [Ev_JSQR_write (Instance (hadc s))
                         (MODIFY_REG (JSQR (regs s)) ADC_JSQR_FIELDS
                            (InjectionConfig_ContextQueue
                               (hadc (snd (HAL_ADCEx_InjectedConfigChannel P c s)))))],
            MODIFY_REG (JSQR (regs s)) ADC_JSQR_FIELDS
              (InjectionConfig_ContextQueue (hadc (snd (HAL_ADCEx_InjectedConfigChannel P c s)))),
            Instance (hadc s), Init_ScanConvMode (hadc s), 0)"
proof -
  have "sequencer_view (injected_sequencer P c (HAL_LOCK s))
         = (trace (HAL_LOCK s) @ [Ev_JSQR_write (Instance (hadc (HAL_LOCK s)))
                         (MODIFY_REG (JSQR (regs (HAL_LOCK s))) ADC_JSQR_FIELDS
                            (InjectionConfig_ContextQueue
                               (hadc (injected_sequencer P c (HAL_LOCK s)))))],
            MODIFY_REG (JSQR (regs (HAL_LOCK s))) ADC_JSQR_FIELDS
              (InjectionConfig_ContextQueue (hadc (injected_sequencer P c (HAL_LOCK s)))),
            Instance (hadc (HAL_LOCK s)), Init_ScanConvMode (hadc (HAL_LOCK s)), 0)"
    using sc n r by (intro injected_sequencer_commit_value(1)) (simp_all add: upd_defs)
  then show ?thesis
    unfolding config_channel_view(1) [OF u] config_channel_context_queue [OF u]
    by (simp add: upd_defs regs_def)
qed

text \<open>
  Claim C3. A context of N ranks (N > 1, scan mode enabled) is built by N calls of
  \<open>HAL_ADCEx_InjectedConfigChannel\<close>, each with \<open>InjectedNbrOfConversion\<close> = N, on a handle
  that no other call holds locked and that has no context under construction. After any
  k < N of the calls the log holds no write of JSQR and the register holds what it held
  before the first call, with N - k channels left to configure. After the N calls the log
  holds exactly one write of JSQR, made by the last call: the register then holds its
  fields replaced by the context staged in the handle, to which the last call has added
  the channel of its rank, and the count of channels left is 0.
\<close>

theorem injected_context_commit_atomic:
  assumes u: "Lock (hadc s) = HAL_UNLOCKED"
    and sc: "Init_ScanConvMode (hadc s) \<noteq> ADC_SCAN_DISABLE"
    and fresh: "InjectionConfig_ChannelCount (hadc s) = 0"
    and N: "1 < length cfgs"
    and ranks: "\<forall>c \<in> set cfgs. unat (InjectedNbrOfConversion c) = length cfgs"
  shows "(\<forall>k < length cfgs.
            trace (snd (config_run P (take k cfgs) s)) = trace s
            \<and> JSQR (regs (snd (config_run P (take k cfgs) s))) = JSQR (regs s)
            \<and> (0 < k \<longrightarrow>
                 unat (InjectionConfig_ChannelCount (hadc (snd (config_run P (take k cfgs) s))))
                 = length cfgs - k))
       \<and> trace (snd (config_run P cfgs s))
           = trace s @ [Ev_JSQR_write (Instance (hadc s))
                          (MODIFY_REG (JSQR (regs s)) ADC_JSQR_FIELDS
                             (InjectionConfig_ContextQueue (hadc (snd (config_run P cfgs s)))))]
       \<and> JSQR (regs (snd (config_run P cfgs s)))
           = MODIFY_REG (JSQR (regs s)) ADC_JSQR_FIELDS
               (InjectionConfig_ContextQueue (hadc (snd (config_run P cfgs s))))
       \<and> InjectionConfig_ContextQueue (hadc (snd (config_run P cfgs s)))
           = InjectionConfig_ContextQueue (hadc (snd (config_run P (butlast cfgs) s)))
             OR ADC_JSQR_RK P (InjectedChannel (last cfgs)) (InjectedRank (last cfgs))
       \<and> InjectionConfig_ChannelCount (hadc (snd (config_run P cfgs s))) = 0"
proof -
  define n where "n = InjectedNbrOfConversion (hd cfgs)"
  from N have ne: "cfgs \<noteq> []" by auto
  then have "hd cfgs \<in> set cfgs" by simp
  with ranks have un: "unat n = length cfgs" by (simp add: n_def)
  have alln: "\<forall>c \<in> set cfgs. InjectedNbrOfConversion c = n"
    using ranks un by (simp add: word_unat_eq_iff)
  from un N have n1: "n \<noteq> 1" by auto
  have r: "n = (if InjectionConfig_ChannelCount (hadc s) = 0 then n
                else InjectionConfig_ChannelCount (hadc s))"
    using fresh by simp
  have staged: "trace (snd (config_run P (take k cfgs) s)) = trace s
         \<and> JSQR (regs (snd (config_run P (take k cfgs) s))) = JSQR (regs s)
         \<and> Instance (hadc (snd (config_run P (take k cfgs) s))) = Instance (hadc s)
         \<and> Init_ScanConvMode (hadc (snd (config_run P (take k cfgs) s))) = Init_ScanConvMode (hadc s)
         \<and> Lock (hadc (snd (config_run P (take k cfgs) s))) = HAL_UNLOCKED
         \<and> (take k cfgs \<noteq> [] \<longrightarrow>
              unat (InjectionConfig_ChannelCount (hadc (snd (config_run P (take k cfgs) s))))
              = unat n - length (take k cfgs))" if k: "k < length cfgs" for k
  proof (rule config_run_staged [OF u sc _ n1 r])
    show "\<forall>c\<in>set (take k cfgs). InjectedNbrOfConversion c = n"
      using alln by (meson in_set_takeD)
    show "length (take k cfgs) < unat n"
      using k un by simp
  qed
  have first: "\<forall>k < length cfgs.
            trace (snd (config_run P (take k cfgs) s)) = trace s
            \<and> JSQR (regs (snd (config_run P (take k cfgs) s))) = JSQR (regs s)
            \<and> (0 < k \<longrightarrow>
                 unat (InjectionConfig_ChannelCount (hadc (snd (config_run P (take k cfgs) s))))
                 = length cfgs - k)"
  proof (intro allI impI)
    fix k assume k: "k < length cfgs"
    from staged [OF k] k ne un
    show "trace (snd (config_run P (take k cfgs) s)) = trace s
            \<and> JSQR (regs (snd (config_run P (take k cfgs) s))) = JSQR (regs s)
            \<and> (0 < k \<longrightarrow>
                 unat (InjectionConfig_ChannelCount (hadc (snd (config_run P (take k cfgs) s))))
                 = length cfgs - k)"
      by (simp add: min_def)
  qed
  let ?xs = "butlast cfgs" and ?c = "last cfgs"
  let ?s1 = "snd (config_run P ?xs s)"
  have xs: "?xs = take (length cfgs - 1) cfgs"
    by (rule butlast_conv_take)
  have split: "cfgs = ?xs @ [?c]"
    using ne by simp
  have k1: "length cfgs - 1 < length cfgs" and xne: "take (length cfgs - 1) cfgs \<noteq> []"
    using N ne by auto
  from staged [OF k1] xne un N
  have t1: "trace ?s1 = trace s" and j1: "JSQR (regs ?s1) = JSQR (regs s)"
    and i1: "Instance (hadc ?s1) = Instance (hadc s)"
    and sc1: "Init_ScanConvMode (hadc ?s1) \<noteq> ADC_SCAN_DISABLE"
    and u1: "Lock (hadc ?s1) = HAL_UNLOCKED"
    and "unat (InjectionConfig_ChannelCount (hadc ?s1)) = 1"
    using sc unfolding xs by simp_all
  then have c1: "InjectionConfig_ChannelCount (hadc ?s1) = 1"
    by (simp add: word_unat_eq_iff)
  have cn: "InjectedNbrOfConversion ?c \<noteq> 1"
    using alln ne n1 by simp
  have run: "snd (config_run P cfgs s) = snd (HAL_ADCEx_InjectedConfigChannel P ?c ?s1)"
    by (subst split, subst config_run_append) (simp split: prod.splits)
  let ?q = "InjectionConfig_ContextQueue (hadc (snd (HAL_ADCEx_InjectedConfigChannel P ?c ?s1)))"
  have "sequencer_view (snd (HAL_ADCEx_InjectedConfigChannel P ?c ?s1))
        = (trace ?s1 @ [Ev_JSQR_write (Instance (hadc ?s1))
                          (MODIFY_REG (JSQR (regs ?s1)) ADC_JSQR_FIELDS ?q)],
           MODIFY_REG (JSQR (regs ?s1)) ADC_JSQR_FIELDS ?q,
           Instance (hadc ?s1), Init_ScanConvMode (hadc ?s1), 0)"
    by (rule config_channel_commit_value [OF u1 sc1 cn c1])
  then have written: "trace (snd (config_run P cfgs s))
           = trace s @ [Ev_JSQR_write (Instance (hadc s))
                          (MODIFY_REG (JSQR (regs s)) ADC_JSQR_FIELDS
                             (InjectionConfig_ContextQueue (hadc (snd (config_run P cfgs s)))))]
       \<and> JSQR (regs (snd (config_run P cfgs s)))
           = MODIFY_REG (JSQR (regs s)) ADC_JSQR_FIELDS
               (InjectionConfig_ContextQueue (hadc (snd (config_run P cfgs s))))
       \<and> InjectionConfig_ChannelCount (hadc (snd (config_run P cfgs s))) = 0"
    unfolding run by (simp add: sequencer_view_def t1 i1 j1)
  have "?q = InjectionConfig_ContextQueue (hadc (injected_sequencer P ?c (HAL_LOCK ?s1)))"
    by (rule config_channel_context_queue [OF u1])
  also have "\<dots> = InjectionConfig_ContextQueue (hadc (HAL_LOCK ?s1))
                   OR ADC_JSQR_RK P (InjectedChannel ?c) (InjectedRank ?c)"
    using sc1 cn c1 by (intro injected_sequencer_commit_value(2)) (simp_all add: upd_defs)
  finally have staged_value: "InjectionConfig_ContextQueue (hadc (snd (config_run P cfgs s)))
           = InjectionConfig_ContextQueue (hadc ?s1)
             OR ADC_JSQR_RK P (InjectedChannel ?c) (InjectedRank ?c)"
    unfolding run by simp
  from first written staged_value show ?thesis by blast
qed

lemma two_rank_context_queue:
  "InjectionConfig_ContextQueue
     (hadc (snd (config_run sim [two_rank_cfg 0x9, two_rank_cfg 0x10F]
                   (sys0 ADC1 1 (hw0 1 0 0))))) = 0x8201"
  by (simp add: HAL_ADCEx_InjectedConfigChannel_def injected_sequencer_def
      injected_parameters_def write_JSQR_def two_rank_cfg_def sim_defs upd_defs ll_defs
      reg_macros reg_consts state_consts par_consts Let_def regs_def
      ADC_CFGR_INJECT_CONTEXT_QUEUE_def ADC_CFGR_INJECT_DISCCONTINUOUS_def split: prod.splits)

lemma modify_jsqr_fresh: "MODIFY_REG 0 ADC_JSQR_FIELDS 0x8201 = 0x8201"
  by (simp add: reg_macros reg_consts ADC_JSQR_FIELDS_def)

text \<open>
  The witness: a context of two ranks on the reference platform. After the first call
  JSQR still reads 0 and the log is empty; after the second the log holds one write, of
  the value 0x8201 (two ranks, channel 1 at ranks 1 and 2), which JSQR then holds.
\<close>

theorem injected_context_commit_atomic_witness:
  "Lock (hadc (sys0 ADC1 1 (hw0 1 0 0))) = HAL_UNLOCKED
   \<and> Init_ScanConvMode (hadc (sys0 ADC1 1 (hw0 1 0 0))) \<noteq> ADC_SCAN_DISABLE
   \<and> InjectionConfig_ChannelCount (hadc (sys0 ADC1 1 (hw0 1 0 0))) = 0
   \<and> map (unat \<circ> InjectedNbrOfConversion) [two_rank_cfg 0x9, two_rank_cfg 0x10F] = [2, 2]
   \<and> trace (snd (config_run sim [two_rank_cfg 0x9] (sys0 ADC1 1 (hw0 1 0 0)))) = []
   \<and> JSQR (regs (snd (config_run sim [two_rank_cfg 0x9] (sys0 ADC1 1 (hw0 1 0 0))))) = 0
   \<and> unat (InjectionConfig_ChannelCount
              (hadc (snd (config_run sim [two_rank_cfg 0x9] (sys0 ADC1 1 (hw0 1 0 0)))))) = 1
   \<and> trace (snd (config_run sim [two_rank_cfg 0x9, two_rank_cfg 0x10F]
                    (sys0 ADC1 1 (hw0 1 0 0))))
       = [Ev_JSQR_write ADC1 0x8201]
   \<and> JSQR (regs (snd (config_run sim [two_rank_cfg 0x9, two_rank_cfg 0x10F]
                          (sys0 ADC1 1 (hw0 1 0 0))))) = 0x8201
   \<and> InjectionConfig_ChannelCount
        (hadc (snd (config_run sim [two_rank_cfg 0x9, two_rank_cfg 0x10F]
                      (sys0 ADC1 1 (hw0 1 0 0))))) = 0"
proof -
  let ?s = "sys0 ADC1 1 (hw0 1 0 0)"
  let ?cfgs = "[two_rank_cfg 0x9, two_rank_cfg 0x10F]"
  have u: "Lock (hadc ?s) = HAL_UNLOCKED"
    and sc: "Init_ScanConvMode (hadc ?s) \<noteq> ADC_SCAN_DISABLE"
    and fresh: "InjectionConfig_ChannelCount (hadc ?s) = 0"
    and t0: "trace ?s = []" and j0: "JSQR (regs ?s) = 0" and i0: "Instance (hadc ?s) = ADC1"
    by (simp_all add: sim_defs regs_def par_consts)
  have N: "1 < length ?cfgs"
    by simp
  have ranks: "\<forall>c \<in> set ?cfgs. unat (InjectedNbrOfConversion c) = length ?cfgs"
    by (simp add: two_rank_cfg_def)
  have m: "map (unat \<circ> InjectedNbrOfConversion) ?cfgs = [2, 2]"
    by (simp add: two_rank_cfg_def)
  note r = injected_context_commit_atomic [OF u sc fresh N ranks, of sim]
  have k: "(1::nat) < length ?cfgs"
    by simp
  from r [THEN conjunct1, rule_format, OF k]
  have first: "trace (snd (config_run sim [two_rank_cfg 0x9] ?s)) = []
     \<and> JSQR (regs (snd (config_run sim [two_rank_cfg 0x9] ?s))) = 0
     \<and> unat (InjectionConfig_ChannelCount
              (hadc (snd (config_run sim [two_rank_cfg 0x9] ?s)))) = 1"
    unfolding t0 j0 by (simp del: config_run.simps)
  from r [THEN conjunct2]
  have last: "trace (snd (config_run sim ?cfgs ?s)) = [Ev_JSQR_write ADC1 0x8201]
              \<and> JSQR (regs (snd (config_run sim ?cfgs ?s))) = 0x8201
              \<and> InjectionConfig_ChannelCount (hadc (snd (config_run sim ?cfgs ?s))) = 0"
    unfolding t0 i0 j0 two_rank_context_queue modify_jsqr_fresh
    by (simp del: config_run.simps)
  from u sc fresh m first last show ?thesis
    by (intro conjI) (elim conjE, assumption)+
qed

subsection \<open>The injected-busy bit over a run of start and stop calls\<close>

text \<open>
  What each start and stop call does to the injected-busy bit and to the log: a call that
  returns \<open>HAL_OK\<close> leaves the bit set (a start) or clear (a stop); a call that returns
  another status either leaves the bit as it was or has logged a helper that failed.
\<close>

lemma injected_busy_frame:
  "injected_busy (upd_reg i f s) = injected_busy s"
  "injected_busy (upd_ErrorCode g s) = injected_busy s"
  "injected_busy (HAL_LOCK s) = injected_busy s"
  "injected_busy (HAL_UNLOCK s) = injected_busy s"
  "injected_busy (s\<lparr>hw := w\<rparr>) = injected_busy s"
  "injected_busy (upd_State (\<lambda>x. SET_BIT x HAL_ADC_STATE_MULTIMODE_SLAVE) s) = injected_busy s"
  "injected_busy (upd_State (\<lambda>x. CLEAR_BIT x HAL_ADC_STATE_MULTIMODE_SLAVE) s) = injected_busy s"
  "injected_busy (upd_State (\<lambda>x. SET_BIT x HAL_ADC_STATE_ERROR_CONFIG) s) = injected_busy s"
  by (simp_all add: injected_busy_def set_bit_frame clear_bit_frame state_consts)

lemma injected_busy_set:
  "injected_busy (upd_State (\<lambda>x. ADC_STATE_CLR_SET x
      (HAL_ADC_STATE_READY OR HAL_ADC_STATE_INJ_EOC) HAL_ADC_STATE_INJ_BUSY) s) = True"
  by (simp add: injected_busy_def clr_set_sets state_consts)

lemma clr_set_clears_part:
  "k AND NOT m = 0 \<Longrightarrow> k AND r = 0 \<Longrightarrow> ADC_STATE_CLR_SET x m r AND k = 0"
  unfolding reg_macros by (rule bit_eqI) (auto simp: bit_simps bit_eq_iff)

lemma injected_busy_clear:
  "injected_busy (upd_State (\<lambda>x. ADC_STATE_CLR_SET x
      (HAL_ADC_STATE_REG_BUSY OR HAL_ADC_STATE_INJ_BUSY) HAL_ADC_STATE_READY) s) = False"
  "injected_busy (upd_State (\<lambda>x. CLEAR_BIT x HAL_ADC_STATE_INJ_BUSY) s) = False"
proof -
  have "ADC_STATE_CLR_SET x (HAL_ADC_STATE_REG_BUSY OR HAL_ADC_STATE_INJ_BUSY)
          HAL_ADC_STATE_READY AND HAL_ADC_STATE_INJ_BUSY = 0" for x
    by (rule clr_set_clears_part) (simp_all add: state_consts)
  then show "injected_busy (upd_State (\<lambda>x. ADC_STATE_CLR_SET x
      (HAL_ADC_STATE_REG_BUSY OR HAL_ADC_STATE_INJ_BUSY) HAL_ADC_STATE_READY) s) = False"
    by (simp add: injected_busy_def)
  show "injected_busy (upd_State (\<lambda>x. CLEAR_BIT x HAL_ADC_STATE_INJ_BUSY) s) = False"
    by (simp add: injected_busy_def clear_bit_is_clear)
qed

lemmas busy_simps =
  Let_def case_prod_beta if_distrib [of snd] if_distrib [of fst] if_distrib [of injected_busy]
  if_distrib [of trace] fst_conv snd_conv injected_busy_frame injected_busy_set
  injected_busy_clear upd_sel call_trace if_cancel

lemma start_ok:
  "fst (HAL_ADCEx_InjectedStart P s) = HAL_OK \<Longrightarrow> injected_busy (snd (HAL_ADCEx_InjectedStart P s))"
  "fst (HAL_ADCEx_InjectedStart_IT P s) = HAL_OK \<Longrightarrow>
     injected_busy (snd (HAL_ADCEx_InjectedStart_IT P s))"
  by (simp_all only: HAL_ADCEx_InjectedStart_def HAL_ADCEx_InjectedStart_IT_def busy_simps
      split: if_splits; simp)+

lemma no_faults_simps [simp]:
  "no_faults []"
  "no_faults (e # evs) = (helper_ok e \<and> no_faults evs)"
  "no_faults (xs @ ys) = (no_faults xs \<and> no_faults ys)"
  by (simp_all add: no_faults_def)

lemma start_step:
  "\<exists>evs. trace (snd (HAL_ADCEx_InjectedStart P s)) = trace s @ evs
     \<and> (no_faults evs \<longrightarrow>
          injected_busy (snd (HAL_ADCEx_InjectedStart P s))
          = (if fst (HAL_ADCEx_InjectedStart P s) = HAL_OK then True else injected_busy s))"
  by (simp only: HAL_ADCEx_InjectedStart_def busy_simps; simp)

lemma start_it_step:
  "\<exists>evs. trace (snd (HAL_ADCEx_InjectedStart_IT P s)) = trace s @ evs
     \<and> (no_faults evs \<longrightarrow>
          injected_busy (snd (HAL_ADCEx_InjectedStart_IT P s))
          = (if fst (HAL_ADCEx_InjectedStart_IT P s) = HAL_OK then True else injected_busy s))"
  by (simp only: HAL_ADCEx_InjectedStart_IT_def busy_simps; simp)

lemma stop_step:
  "\<exists>evs. trace (snd (HAL_ADCEx_InjectedStop P s)) = trace s @ evs
     \<and> (no_faults evs \<longrightarrow>
          injected_busy (snd (HAL_ADCEx_InjectedStop P s))
          = (if fst (HAL_ADCEx_InjectedStop P s) = HAL_OK then False else injected_busy s))"
  by (simp only: HAL_ADCEx_InjectedStop_def busy_simps; simp)

lemma stop_it_step:
  "\<exists>evs. trace (snd (HAL_ADCEx_InjectedStop_IT P s)) = trace s @ evs
     \<and> (no_faults evs \<longrightarrow>
          injected_busy (snd (HAL_ADCEx_InjectedStop_IT P s))
          = (if fst (HAL_ADCEx_InjectedStop_IT P s) = HAL_OK then False else injected_busy s))"
  by (simp only: HAL_ADCEx_InjectedStop_IT_def busy_simps; simp)

lemma inj_exec_step:
  "\<exists>evs. trace (snd (inj_exec P c s)) = trace s @ evs
     \<and> (no_faults evs \<longrightarrow>
          injected_busy (snd (inj_exec P c s))
          = (if fst (inj_exec P c s) = HAL_OK then is_start c else injected_busy s))"
proof (cases c)
  case InjectedStart
  have "inj_exec P c s = HAL_ADCEx_InjectedStart P s" and "is_start c = True"
    by (simp_all add: InjectedStart inj_exec_def is_start_def)
  then show ?thesis
    by (simp only: start_step)
next
  case InjectedStart_IT
  have "inj_exec P c s = HAL_ADCEx_InjectedStart_IT P s" and "is_start c = True"
    by (simp_all add: InjectedStart_IT inj_exec_def is_start_def)
  then show ?thesis
    by (simp only: start_it_step)
next
  case InjectedStop
  have "inj_exec P c s = HAL_ADCEx_InjectedStop P s" and "is_start c = False"
    by (simp_all add: InjectedStop inj_exec_def is_start_def)
  then show ?thesis
    by (simp only: stop_step)
next
  case InjectedStop_IT
  have "inj_exec P c s = HAL_ADCEx_InjectedStop_IT P s" and "is_start c = False"
    by (simp_all add: InjectedStop_IT inj_exec_def is_start_def)
  then show ?thesis
    by (simp only: stop_it_step)
qed

lemma run_steps_busy:
  "\<exists>evs. trace (snd (run_steps P steps s)) = trace s @ evs
     \<and> (no_faults evs \<longrightarrow>
          injected_busy (snd (run_steps P steps s))
          = foldl (\<lambda>b (c, st). if st = HAL_OK then is_start c else b) (injected_busy s)
              (fst (run_steps P steps s)))"
proof (induction P steps s rule: run_steps.induct)
  case (1 P s)
  show ?case by simp
next
  case (2 P f rest s)
  then show ?case by (simp add: injected_busy_frame)
next
  case (3 P c rest s)
  let ?r = "inj_exec P c s"
  obtain evs1 where t1: "trace (snd ?r) = trace s @ evs1"
    and b1: "no_faults evs1 \<longrightarrow>
               injected_busy (snd ?r) = (if fst ?r = HAL_OK then is_start c else injected_busy s)"
    using inj_exec_step [of P c s] by blast
  from 3 [of "fst ?r" "snd ?r"]
  obtain evs2 where t2: "trace (snd (run_steps P rest (snd ?r))) = trace (snd ?r) @ evs2"
    and b2: "no_faults evs2 \<longrightarrow>
               injected_busy (snd (run_steps P rest (snd ?r)))
               = foldl (\<lambda>b (c, st). if st = HAL_OK then is_start c else b)
                   (injected_busy (snd ?r)) (fst (run_steps P rest (snd ?r)))"
    by auto
  have "trace (snd (run_steps P (Call c # rest) s)) = trace s @ (evs1 @ evs2)"
    using t1 t2 by (simp add: case_prod_beta)
  moreover have "injected_busy (snd (run_steps P (Call c # rest) s))
          = foldl (\<lambda>b (c, st). if st = HAL_OK then is_start c else b) (injected_busy s)
              (fst (run_steps P (Call c # rest) s))" if "no_faults (evs1 @ evs2)"
    using that b1 b2 by (simp add: case_prod_beta)
  ultimately show ?case by blast
qed

lemma started_snoc:
  "started_and_not_stopped (log @ [(c, st)])
   = (if st = HAL_OK then is_start c else started_and_not_stopped log)"
proof (cases "st = HAL_OK")
  case ok: True
  show ?thesis
  proof (cases "is_start c")
    case True
    then have "started_and_not_stopped (log @ [(c, st)])"
      unfolding started_and_not_stopped_def using ok
      by (intro exI [of _ "length log"]) (simp add: nth_append)
    with ok True show ?thesis by simp
  next
    case False
    then have stop: "is_stop c"
      by (cases c) (simp_all add: is_start_def is_stop_def)
    have "\<not> started_and_not_stopped (log @ [(c, st)])"
      unfolding started_and_not_stopped_def
    proof (intro notI, elim exE conjE)
      fix k
      assume k: "k < length (log @ [(c, st)])"
        and s: "is_start (fst ((log @ [(c, st)]) ! k))"
        and n: "\<not> (\<exists>j<length (log @ [(c, st)]). k < j \<and> is_stop (fst ((log @ [(c, st)]) ! j))
                       \<and> snd ((log @ [(c, st)]) ! j) = HAL_OK)"
      show False
      proof (cases "k = length log")
        case True
        with s False show False by (simp add: nth_append)
      next
        case False
        with k have "k < length log" by simp
        with n stop ok show False
          by (auto simp: nth_append dest!: spec [of _ "length log"])
      qed
    qed
    with ok False show ?thesis by simp
  qed
next
  case bad: False
  have "started_and_not_stopped (log @ [(c, st)]) = started_and_not_stopped log"
    unfolding started_and_not_stopped_def using bad
    by (auto simp: nth_append less_Suc_eq)
  with bad show ?thesis by simp
qed

lemma busy_fold_started:
  "foldl (\<lambda>b (c, st). if st = HAL_OK then is_start c else b) False log
   = started_and_not_stopped log"
proof (induction log rule: rev_induct)
  case Nil
  show ?case by (simp add: started_and_not_stopped_def)
next
  case (snoc x xs)
  obtain c st where x: "x = (c, st)" by (cases x)
  show ?case
    unfolding x started_snoc using snoc.IH by simp
qed

text \<open>
  Claim C1. For every run of start and stop calls of the injected group on one handle
  (\<open>HAL_ADCEx_InjectedStart\<close>, \<open>HAL_ADCEx_InjectedStart_IT\<close>, \<open>HAL_ADCEx_InjectedStop\<close>,
  \<open>HAL_ADCEx_InjectedStop_IT\<close>, in any order, with any change of the hardware between
  two calls), from a state in which the injected-busy bit is clear and with no fault
  injected (every helper called during the run returned \<open>HAL_OK\<close>): at the end of the run
  the injected-busy bit is set if and only if some start call of the run returned \<open>HAL_OK\<close>
  and no stop call after it returned \<open>HAL_OK\<close>.
\<close>

theorem injected_busy_iff_started:
  assumes run: "run_steps P steps s = (log, s')"
    and idle: "\<not> injected_busy s"
    and nf: "no_faults (drop (length (trace s)) (trace s'))"
  shows "injected_busy s' = started_and_not_stopped log"
proof -
  from run_steps_busy [of P steps s] run
  obtain evs where t: "trace s' = trace s @ evs"
    and b: "no_faults evs \<longrightarrow>
              injected_busy s'
              = foldl (\<lambda>b (c, st). if st = HAL_OK then is_start c else b) (injected_busy s) log"
    by auto
  from t nf have "no_faults evs"
    by simp
  with b idle have "injected_busy s'
                    = foldl (\<lambda>b (c, st). if st = HAL_OK then is_start c else b) False log"
    by simp
  then show ?thesis
    by (simp only: busy_fold_started)
qed

lemmas run_eval =
  inj_exec_def HAL_ADCEx_InjectedStart_def HAL_ADCEx_InjectedStart_IT_def
  HAL_ADCEx_InjectedStop_def HAL_ADCEx_InjectedStop_IT_def queue_off_hw_def call_defs sim_defs
  upd_defs ll_defs reg_macros reg_consts state_consts par_consts Let_def regs_def
  LL_ADC_MULTI_INSTANCE_MASTER_def

lemma run_eval_log:
  "fst (run_steps sim [Call InjectedStart, Call InjectedStart_IT, Call InjectedStop,
                       Call InjectedStart_IT] (sys0 ADC1 1 queue_off_hw))
   = [(InjectedStart, HAL_OK), (InjectedStart_IT, HAL_BUSY), (InjectedStop, HAL_OK),
      (InjectedStart_IT, HAL_OK)]"
  "trace (snd (run_steps sim [Call InjectedStart, Call InjectedStart_IT, Call InjectedStop,
                              Call InjectedStart_IT] (sys0 ADC1 1 queue_off_hw)))
   = [Ev_ADC_Enable ADC1 HAL_OK, Ev_ADC_ConversionStop ADC1 ADC_INJECTED_GROUP HAL_OK,
      Ev_ADC_Disable ADC1 HAL_OK, Ev_ADC_Enable ADC1 HAL_OK]"
  by (simp_all add: run_eval del: call_trace split: prod.splits)

lemma run_eval_stopped:
  "fst (run_steps sim [Call InjectedStart, Call InjectedStart_IT, Call InjectedStop]
          (sys0 ADC1 1 queue_off_hw))
   = [(InjectedStart, HAL_OK), (InjectedStart_IT, HAL_BUSY), (InjectedStop, HAL_OK)]"
  "trace (snd (run_steps sim [Call InjectedStart, Call InjectedStart_IT, Call InjectedStop]
                 (sys0 ADC1 1 queue_off_hw)))
   = [Ev_ADC_Enable ADC1 HAL_OK, Ev_ADC_ConversionStop ADC1 ADC_INJECTED_GROUP HAL_OK,
      Ev_ADC_Disable ADC1 HAL_OK]"
  by (simp_all add: run_eval del: call_trace split: prod.splits)

text \<open>
  The witness: on the reference platform, a start, a second start refused as busy, a stop
  and a start leave the bit set; the same run without its last start leaves it clear.
\<close>

theorem injected_busy_iff_started_witness:
  "\<not> injected_busy (sys0 ADC1 1 queue_off_hw)
   \<and> fst (run_steps sim [Call InjectedStart, Call InjectedStart_IT, Call InjectedStop,
                          Call InjectedStart_IT] (sys0 ADC1 1 queue_off_hw))
       = [(InjectedStart, HAL_OK), (InjectedStart_IT, HAL_BUSY), (InjectedStop, HAL_OK),
          (InjectedStart_IT, HAL_OK)]
   \<and> no_faults (trace (snd (run_steps sim [Call InjectedStart, Call InjectedStart_IT,
                                            Call InjectedStop, Call InjectedStart_IT]
                                       (sys0 ADC1 1 queue_off_hw))))
   \<and> injected_busy (snd (run_steps sim [Call InjectedStart, Call InjectedStart_IT,
                                         Call InjectedStop, Call InjectedStart_IT]
                                    (sys0 ADC1 1 queue_off_hw)))
   \<and> started_and_not_stopped
        [(InjectedStart, HAL_OK), (InjectedStart_IT, HAL_BUSY), (InjectedStop, HAL_OK),
         (InjectedStart_IT, HAL_OK)]
   \<and> fst (run_steps sim [Call InjectedStart, Call InjectedStart_IT, Call InjectedStop]
             (sys0 ADC1 1 queue_off_hw))
       = [(InjectedStart, HAL_OK), (InjectedStart_IT, HAL_BUSY), (InjectedStop, HAL_OK)]
   \<and> no_faults (trace (snd (run_steps sim [Call InjectedStart, Call InjectedStart_IT,
                                            Call InjectedStop] (sys0 ADC1 1 queue_off_hw))))
   \<and> \<not> injected_busy (snd (run_steps sim [Call InjectedStart, Call InjectedStart_IT,
                                              Call InjectedStop] (sys0 ADC1 1 queue_off_hw)))
   \<and> \<not> started_and_not_stopped
          [(InjectedStart, HAL_OK), (InjectedStart_IT, HAL_BUSY), (InjectedStop, HAL_OK)]"
proof -
  let ?s = "sys0 ADC1 1 queue_off_hw"
  let ?a = "[Call InjectedStart, Call InjectedStart_IT, Call InjectedStop, Call InjectedStart_IT]"
  let ?b = "[Call InjectedStart, Call InjectedStart_IT, Call InjectedStop]"
  let ?la = "[(InjectedStart, HAL_OK), (InjectedStart_IT, HAL_BUSY), (InjectedStop, HAL_OK),
              (InjectedStart_IT, HAL_OK)]"
  let ?lb = "[(InjectedStart, HAL_OK), (InjectedStart_IT, HAL_BUSY), (InjectedStop, HAL_OK)]"
  have idle: "\<not> injected_busy ?s" and t0: "trace ?s = []"
    by (simp_all add: injected_busy_def sim_defs state_consts)
  have ra: "run_steps sim ?a ?s = (?la, snd (run_steps sim ?a ?s))"
    using run_eval_log(1) by (simp only: prod_eq_iff fst_conv snd_conv simp_thms)
  have rb: "run_steps sim ?b ?s = (?lb, snd (run_steps sim ?b ?s))"
    using run_eval_stopped(1) by (simp only: prod_eq_iff fst_conv snd_conv simp_thms)
  have na: "no_faults (trace (snd (run_steps sim ?a ?s)))"
    and nb: "no_faults (trace (snd (run_steps sim ?b ?s)))"
    by (simp_all only: run_eval_log(2) run_eval_stopped(2)) simp_all
  have sa: "started_and_not_stopped ?la" and sb: "\<not> started_and_not_stopped ?lb"
    by (simp_all add: busy_fold_started [symmetric] is_start_def)
  have ba: "injected_busy (snd (run_steps sim ?a ?s))"
    using injected_busy_iff_started [OF ra idle] na sa by (simp add: t0)
  have bb: "\<not> injected_busy (snd (run_steps sim ?b ?s))"
    using injected_busy_iff_started [OF rb idle] nb sb by (simp add: t0)
  from idle run_eval_log(1) na ba sa run_eval_stopped(1) nb bb sb show ?thesis
    by (intro conjI)
qed

subsection \<open>Release of the handle lock\<close>

text \<open>
  Each function that takes the lock leaves it, at its return, as it found it: released if
  the function took it, still held by the other call if the function was refused.
\<close>

lemma call_dma_hadc [simp]:
  "hadc (snd (call_HAL_DMA_Start_IT P src dst len s)) = hadc s"
  "hadc (snd (call_HAL_DMAEx_List_Start_IT P s)) = hadc s"
  by (simp_all add: call_HAL_DMA_Start_IT_def call_HAL_DMAEx_List_Start_IT_def split: prod.splits)

lemma lock_if:
  "Lock (hadc (if b then x else y)) = (if b then Lock (hadc x) else Lock (hadc y))"
  by simp

lemma lock_frame:
  "Lock (hadc (upd_reg i f s)) = Lock (hadc s)"
  "Lock (hadc (upd_CCR g s)) = Lock (hadc s)"
  "Lock (hadc (upd_aux a s)) = Lock (hadc s)"
  "Lock (hadc (s\<lparr>hw := w\<rparr>)) = Lock (hadc s)"
  "Lock (hadc (s\<lparr>hdma := d\<rparr>)) = Lock (hadc s)"
  "Lock (hadc (snd (call_HAL_DMA_Start_IT P src dst len s))) = Lock (hadc s)"
  "Lock (hadc (snd (call_HAL_DMAEx_List_Start_IT P s))) = Lock (hadc s)"
  by simp_all

lemmas lock_simps =
  Let_def case_prod_beta if_distrib [of snd] snd_conv lock_if lock_frame upd_hadc_sel if_cancel
  HAL_LockTypeDef.simps if_False if_True

lemma lock_Calibration_Start:
  "Lock (hadc (snd (HAL_ADCEx_Calibration_Start P sd s))) = Lock (hadc s)"
  by (cases "Lock (hadc s)"; simp only: HAL_ADCEx_Calibration_Start_def lock_simps; simp split: option.splits)

lemma lock_Calibration_SetValue:
  "Lock (hadc (snd (HAL_ADCEx_Calibration_SetValue sd v s))) = Lock (hadc s)"
  by (cases "Lock (hadc s)"; simp only: HAL_ADCEx_Calibration_SetValue_def lock_simps; simp split: option.splits)

lemma lock_InjectedStart:
  "Lock (hadc (snd (HAL_ADCEx_InjectedStart P s))) = Lock (hadc s)"
  by (cases "Lock (hadc s)"; simp only: HAL_ADCEx_InjectedStart_def lock_simps; simp split: option.splits)

lemma lock_InjectedStop:
  "Lock (hadc (snd (HAL_ADCEx_InjectedStop P s))) = Lock (hadc s)"
  by (cases "Lock (hadc s)"; simp only: HAL_ADCEx_InjectedStop_def lock_simps; simp split: option.splits)

lemma lock_InjectedStart_IT:
  "Lock (hadc (snd (HAL_ADCEx_InjectedStart_IT P s))) = Lock (hadc s)"
  by (cases "Lock (hadc s)"; simp only: HAL_ADCEx_InjectedStart_IT_def lock_simps; simp split: option.splits)

lemma lock_InjectedStop_IT:
  "Lock (hadc (snd (HAL_ADCEx_InjectedStop_IT P s))) = Lock (hadc s)"
  by (cases "Lock (hadc s)"; simp only: HAL_ADCEx_InjectedStop_IT_def lock_simps; simp split: option.splits)

lemma lock_RegularStop:
  "Lock (hadc (snd (HAL_ADCEx_RegularStop P s))) = Lock (hadc s)"
  by (cases "Lock (hadc s)"; simp only: HAL_ADCEx_RegularStop_def lock_simps; simp split: option.splits)

lemma lock_RegularStop_IT:
  "Lock (hadc (snd (HAL_ADCEx_RegularStop_IT P s))) = Lock (hadc s)"
  by (cases "Lock (hadc s)"; simp only: HAL_ADCEx_RegularStop_IT_def lock_simps; simp split: option.splits)

lemma lock_RegularStop_DMA:
  "Lock (hadc (snd (HAL_ADCEx_RegularStop_DMA P s))) = Lock (hadc s)"
  by (cases "Lock (hadc s)"; simp only: HAL_ADCEx_RegularStop_DMA_def lock_simps; simp split: option.splits)

lemma lock_InjectedConfigChannel:
  "Lock (hadc (snd (HAL_ADCEx_InjectedConfigChannel P c s))) = Lock (hadc s)"
  by (cases "Lock (hadc s)"; simp only: HAL_ADCEx_InjectedConfigChannel_def lock_simps; simp split: option.splits)

lemma lock_MultiModeConfigChannel:
  "Lock (hadc (snd (HAL_ADCEx_MultiModeConfigChannel m s))) = Lock (hadc s)"
  by (cases "Lock (hadc s)"; simp only: HAL_ADCEx_MultiModeConfigChannel_def lock_simps; simp split: option.splits)

lemma lock_MultiModeStart_DMA:
  "Lock (hadc (snd (HAL_ADCEx_MultiModeStart_DMA P pData len s))) = Lock (hadc s)"
  by (cases "Lock (hadc s)"; simp only: HAL_ADCEx_MultiModeStart_DMA_def lock_simps; simp split: option.splits)

lemma lock_multimode_stop_cleanup:
  "Lock (hadc (snd (multimode_stop_cleanup P slave s))) = HAL_UNLOCKED"
  by (simp only: multimode_stop_cleanup_def lock_simps; simp)

lemma lock_multimode_stop_cleanup_result:
  "multimode_stop_cleanup P slave s = (st, s') \<Longrightarrow> Lock (hadc s') = HAL_UNLOCKED"
  using lock_multimode_stop_cleanup [of P slave s] by simp

lemma lock_MultiModeStop_DMA:
  assumes "HAL_ADCEx_MultiModeStop_DMA P fuel s = Some (st, s')"
  shows "Lock (hadc s') = Lock (hadc s)"
proof (cases "Lock (hadc s)")
  case HAL_LOCKED
  with assms show ?thesis
    by (simp add: HAL_ADCEx_MultiModeStop_DMA_def)
next
  case HAL_UNLOCKED
  have "Lock (hadc s') = HAL_UNLOCKED"
    using assms HAL_UNLOCKED
    by (auto simp: HAL_ADCEx_MultiModeStop_DMA_def dest: lock_multimode_stop_cleanup_result
        split: prod.splits if_splits option.splits bool.splits)
  with HAL_UNLOCKED show ?thesis by simp
qed

lemma lock_RegularMultiModeStop_DMA:
  assumes "HAL_ADCEx_RegularMultiModeStop_DMA P fuel s = Some (st, s')"
  shows "Lock (hadc s') = Lock (hadc s)"
proof (cases "Lock (hadc s)")
  case HAL_LOCKED
  with assms show ?thesis
    by (simp add: HAL_ADCEx_RegularMultiModeStop_DMA_def)
next
  case HAL_UNLOCKED
  have "Lock (hadc s') = HAL_UNLOCKED"
    using assms HAL_UNLOCKED
    by (auto simp: HAL_ADCEx_RegularMultiModeStop_DMA_def Let_def
        split: prod.splits if_splits option.splits bool.splits)
  with HAL_UNLOCKED show ?thesis by simp
qed

text \<open>
  Claim C10. Every public function of the file that takes the lock of the handle (the
  fourteen calls of \<open>api_call\<close>) releases it on every return path: whatever the status
  returned and whatever the helpers do, a call that returns leaves the lock as it was at
  the call. So a call made on an unlocked handle returns with the handle unlocked, and a
  call refused because another call holds the lock leaves that lock in place.
\<close>

theorem lock_released_on_every_return:
  assumes "api_exec P fuel c s = Some (st, s')"
  shows "Lock (hadc s') = Lock (hadc s)"
proof (cases c)
  case (Calibration_Start sd)
  with assms lock_Calibration_Start [of P sd s] show ?thesis
    by (auto simp: api_exec_def)
next
  case (Calibration_SetValue sd v)
  with assms lock_Calibration_SetValue [of sd v s] show ?thesis
    by (auto simp: api_exec_def)
next
  case API_InjectedStart
  with assms lock_InjectedStart [of P s] show ?thesis
    by (auto simp: api_exec_def)
next
  case API_InjectedStop
  with assms lock_InjectedStop [of P s] show ?thesis
    by (auto simp: api_exec_def)
next
  case API_InjectedStart_IT
  with assms lock_InjectedStart_IT [of P s] show ?thesis
    by (auto simp: api_exec_def)
next
  case API_InjectedStop_IT
  with assms lock_InjectedStop_IT [of P s] show ?thesis
    by (auto simp: api_exec_def)
next
  case (MultiModeStart_DMA pData len)
  with assms lock_MultiModeStart_DMA [of P pData len s] show ?thesis
    by (auto simp: api_exec_def)
next
  case MultiModeStop_DMA
  with assms lock_MultiModeStop_DMA [of P fuel s st s'] show ?thesis
    by (simp add: api_exec_def)
next
  case RegularStop
  with assms lock_RegularStop [of P s] show ?thesis
    by (auto simp: api_exec_def)
next
  case RegularStop_IT
  with assms lock_RegularStop_IT [of P s] show ?thesis
    by (auto simp: api_exec_def)
next
  case RegularStop_DMA
  with assms lock_RegularStop_DMA [of P s] show ?thesis
    by (auto simp: api_exec_def)
next
  case RegularMultiModeStop_DMA
  with assms lock_RegularMultiModeStop_DMA [of P fuel s st s'] show ?thesis
    by (simp add: api_exec_def)
next
  case (InjectedConfigChannel cfg)
  with assms lock_InjectedConfigChannel [of P cfg s] show ?thesis
    by (auto simp: api_exec_def)
next
  case (MultiModeConfigChannel m)
  with assms lock_MultiModeConfigChannel [of m s] show ?thesis
    by (auto simp: api_exec_def)
qed

lemma frozen_multimode_stop:
  "\<exists>s'. HAL_ADCEx_MultiModeStop_DMA sim 10 (sys0 ADC1 0x100 (hw0 5 5 (Suc 0)))
           = Some (HAL_ERROR, s')"
proof -
  let ?s = "sys0 ADC1 0x100 (hw0 5 5 (Suc 0))"
  let ?s1 = "snd (call_ADC_ConversionStop sim ADC_REGULAR_INJECTED_GROUP (HAL_LOCK ?s))"
  have u: "Lock (hadc ?s) = HAL_UNLOCKED"
    by (simp add: sim_defs)
  have c: "call_ADC_ConversionStop sim ADC_REGULAR_INJECTED_GROUP (HAL_LOCK ?s) = (HAL_OK, ?s1)"
    by (simp add: call_defs sim_defs upd_defs par_consts)
  have sl: "ADC_MULTI_SLAVE (hadc ?s1) = Some ADC2"
    by (simp add: call_defs sim_defs upd_defs par_consts ADC_MULTI_SLAVE_def)
  have i: "internal (hw ?s1) \<noteq> 0"
    and o: "LL_ADC_REG_IsConversionOngoing (ADC (hw ?s1) ADC2) = 1"
    by (simp_all add: call_defs sim_defs upd_defs par_consts ll_defs reg_macros reg_consts)
  have w: "multimode_wait sim 10 (Instance (hadc ?s1)) ADC2 (uwTick (hw ?s1))
             (LL_ADC_REG_IsConversionOngoing (ADC (hw ?s1) ADC2)) (hw ?s1)
           = Some (False, (hw ?s1)\<lparr>uwTick := uwTick (hw ?s1) + 6\<rparr>)"
    unfolding o by (rule multimode_wait_frozen [OF _ i o]) simp
  show ?thesis
    unfolding multimode_stop_wait_timeout [OF u c sl w] by blast
qed

text \<open>
  The witness: a stop that succeeds, a start refused for its configuration, a multimode
  stop that times out on frozen hardware, each on an unlocked handle and each returning
  with the lock released; and a calibration refused on a handle that another call holds
  locked, which leaves the lock held.
\<close>

theorem lock_released_on_every_return_witness:
  "Lock (hadc (sys0 ADC1 1 (hw0 1 0 0))) = HAL_UNLOCKED
   \<and> (\<exists>s'. api_exec sim 0 API_InjectedStop (sys0 ADC1 1 (hw0 1 0 0)) = Some (HAL_OK, s')
          \<and> Lock (hadc s') = HAL_UNLOCKED)
   \<and> (\<exists>s'. api_exec sim 0 API_InjectedStart (sys0 ADC1 1 (hw0 1 0 0)) = Some (HAL_ERROR, s')
          \<and> Lock (hadc s') = HAL_UNLOCKED)
   \<and> Lock (hadc (sys0 ADC1 0x100 (hw0 5 5 (Suc 0)))) = HAL_UNLOCKED
   \<and> (\<exists>s'. api_exec sim 10 MultiModeStop_DMA (sys0 ADC1 0x100 (hw0 5 5 (Suc 0)))
             = Some (HAL_ERROR, s')
          \<and> Lock (hadc s') = HAL_UNLOCKED)
   \<and> Lock (hadc (HAL_LOCK (sys0 ADC1 1 (hw0 1 0 0)))) = HAL_LOCKED
   \<and> (\<exists>s'. api_exec sim 0 (Calibration_Start ADC_SINGLE_ENDED) (HAL_LOCK (sys0 ADC1 1 (hw0 1 0 0)))
             = Some (HAL_BUSY, s')
          \<and> Lock (hadc s') = HAL_LOCKED)"
proof -
  let ?a = "sys0 ADC1 1 (hw0 1 0 0)"
  let ?b = "sys0 ADC1 0x100 (hw0 5 5 (Suc 0))"
  have ua: "Lock (hadc ?a) = HAL_UNLOCKED" and ub: "Lock (hadc ?b) = HAL_UNLOCKED"
    and la: "Lock (hadc (HAL_LOCK ?a)) = HAL_LOCKED"
    by (simp_all add: sim_defs upd_defs)
  have "fst (HAL_ADCEx_InjectedStop sim ?a) = HAL_OK"
    by (simp add: HAL_ADCEx_InjectedStop_def call_defs sim_defs upd_defs ll_defs reg_macros
        reg_consts par_consts regs_def split: prod.splits)
  then have r1: "api_exec sim 0 API_InjectedStop ?a
                 = Some (HAL_OK, snd (HAL_ADCEx_InjectedStop sim ?a))"
    by (simp add: api_exec_def prod_eq_iff)
  have "fst (HAL_ADCEx_InjectedStart sim ?a) = HAL_ERROR"
    by (simp add: HAL_ADCEx_InjectedStart_def Let_def sim_defs upd_defs ll_defs reg_macros
        reg_consts par_consts regs_def)
  then have r2: "api_exec sim 0 API_InjectedStart ?a
                 = Some (HAL_ERROR, snd (HAL_ADCEx_InjectedStart sim ?a))"
    by (simp add: api_exec_def prod_eq_iff)
  from frozen_multimode_stop obtain s3 where
    r3: "api_exec sim 10 MultiModeStop_DMA ?b = Some (HAL_ERROR, s3)"
    by (auto simp: api_exec_def)
  have r4: "api_exec sim 0 (Calibration_Start ADC_SINGLE_ENDED) (HAL_LOCK ?a)
            = Some (HAL_BUSY, HAL_LOCK ?a)"
    by (simp add: api_exec_def HAL_ADCEx_Calibration_Start_def la)
  have "\<exists>s'. api_exec sim 0 API_InjectedStop ?a = Some (HAL_OK, s') \<and> Lock (hadc s') = HAL_UNLOCKED"
    using r1 lock_released_on_every_return [OF r1] ua by simp
  moreover have "\<exists>s'. api_exec sim 0 API_InjectedStart ?a = Some (HAL_ERROR, s')
                    \<and> Lock (hadc s') = HAL_UNLOCKED"
    using r2 lock_released_on_every_return [OF r2] ua by simp
  moreover have "\<exists>s'. api_exec sim 10 MultiModeStop_DMA ?b = Some (HAL_ERROR, s')
                    \<and> Lock (hadc s') = HAL_UNLOCKED"
    using r3 lock_released_on_every_return [OF r3] ub by simp
  moreover have "\<exists>s'. api_exec sim 0 (Calibration_Start ADC_SINGLE_ENDED) (HAL_LOCK ?a)
                      = Some (HAL_BUSY, s') \<and> Lock (hadc s') = HAL_LOCKED"
    using r4 lock_released_on_every_return [OF r4] la by simp
  ultimately show ?thesis
    using ua ub la by (intro conjI)
qed

end
